theory Spec2Isabelle
  imports Complex_Main "HOL-Library.Finite_Map" "HOL-Library.Char_ord" "HOL-Library.List_Lexorder"
begin

section \<open>Python values, exceptions and printed messages\<close>

text \<open>
  The program is dynamically typed: the fields of its entities hold whatever the JSON
  document held. A value is modelled up to Python's \<^verbatim>\<open>==\<close>: \<^verbatim>\<open>True\<close>, \<^verbatim>\<open>1\<close> and \<^verbatim>\<open>1.0\<close>
  compare equal in Python and are one \<open>PNum\<close> here, a dictionary is a finite map
  from its (string) keys, so equality of two \<open>pyval\<close>s is \<^verbatim>\<open>==\<close> of the Python values.
  Numbers are the finite ones (no NaN, no infinity). Strings are sequences of code
  points below 256.
\<close>

datatype pyval =
    PNone
  | PNum real
  | PStr string
  | PList "pyval list"
  | PDict "(string, pyval) fmap"

datatype error =
    KeyError string
  | TypeError
  | AttributeError
  | ValueError string

type_synonym ref = nat

text \<open>
  Every \<^verbatim>\<open>print\<close> of the modelled methods is one constructor, carrying the values the
  f-string interpolates.
\<close>

datatype msg =
    MsgFileNotFoundStart
  | WarnInstructorNotFound pyval pyval
  | WarnStudentNotFound pyval
  | WarnCourseNotFound pyval
  | WarnScheduleCourseNotFound pyval
  | ErrDecodingJson
  | ErrUnexpectedLoad error
  | MsgSaved
  | MsgStudentAdded pyval pyval
  | MsgStudentAlreadyInCourse pyval pyval
  | MsgEnrolled pyval pyval
  | MsgAlreadyEnrolled pyval pyval
  | MsgUnenrolled pyval pyval
  | MsgNotEnrolled pyval pyval
  | ErrInvalidDateFormat
  | ErrDueDateFuture
  | MsgAssignmentExists string string
  | MsgAssignmentAdded string pyval
  | ErrGroupNotValid string
  | MsgGroupAdded string
  | MsgGroupAlready string
  | MsgEmptyPost
  | MsgPostAdded pyval string

text \<open>
  A method that mutates its object, prints and may raise: the object as the call leaves
  it, what it printed, and the exception that left it (if any). Mutations and prints
  made before a \<^verbatim>\<open>raise\<close> stay.
\<close>

datatype 's outcome = Outcome (final: 's) (printed: "msg list") (raised: "error option")

definition bind_err :: "error + 'a \<Rightarrow> ('a \<Rightarrow> error + 'b) \<Rightarrow> error + 'b" where
  "bind_err x f = (case x of Inl e \<Rightarrow> Inl e | Inr a \<Rightarrow> f a)"

definition attempt :: "'s \<Rightarrow> error + 'a \<Rightarrow> ('a \<Rightarrow> 's outcome) \<Rightarrow> 's outcome" where
  "attempt s x f = (case x of Inl e \<Rightarrow> Outcome s [] (Some e) | Inr a \<Rightarrow> f a)"

definition andthen :: "'s outcome \<Rightarrow> ('s \<Rightarrow> 's outcome) \<Rightarrow> 's outcome" where
  "andthen r f =
     (case raised r of
        Some e \<Rightarrow> r
      | None \<Rightarrow> Outcome (final (f (final r))) (printed r @ printed (f (final r))) (raised (f (final r))))"

fun for_each :: "('a \<Rightarrow> 's \<Rightarrow> 's outcome) \<Rightarrow> 'a list \<Rightarrow> 's \<Rightarrow> 's outcome" where
  "for_each body [] s = Outcome s [] None"
| "for_each body (x # xs) s = andthen (body x s) (for_each body xs)"

fun map_raising :: "('a \<Rightarrow> error + 'b) \<Rightarrow> 'a list \<Rightarrow> error + 'b list" where
  "map_raising f [] = Inr []"
| "map_raising f (x # xs) =
     bind_err (f x) (\<lambda>y. bind_err (map_raising f xs) (\<lambda>ys. Inr (y # ys)))"

subsection \<open>Operations of \<^verbatim>\<open>str\<close>, \<^verbatim>\<open>dict\<close> and iteration\<close>

definition is_space :: "char \<Rightarrow> bool" where
  "is_space c = (of_char c \<in> {9, 10, 11, 12, 13, 28, 29, 30, 31, 32, 133, 160 :: nat})"

definition is_digit :: "char \<Rightarrow> bool" where
  "is_digit c = ((48 \<le> (of_char c :: nat) \<and> (of_char c :: nat) \<le> 57)
     \<or> of_char c \<in> {178, 179, 185 :: nat})"

definition is_alnum :: "char \<Rightarrow> bool" where
  "is_alnum c = (let n = (of_char c :: nat) in
     (48 \<le> n \<and> n \<le> 57) \<or> (65 \<le> n \<and> n \<le> 90) \<or> (97 \<le> n \<and> n \<le> 122)
     \<or> n \<in> {170, 178, 179, 181, 185, 186, 188, 189, 190}
     \<or> (192 \<le> n \<and> n \<le> 214) \<or> (216 \<le> n \<and> n \<le> 246) \<or> (248 \<le> n \<and> n \<le> 255))"

definition strip :: "string \<Rightarrow> string" where
  "strip s = rev (dropWhile is_space (rev (dropWhile is_space s)))"

definition isdigit :: "string \<Rightarrow> bool" where
  "isdigit s = (s \<noteq> [] \<and> list_all is_digit s)"

definition isalnum :: "string \<Rightarrow> bool" where
  "isalnum s = (s \<noteq> [] \<and> list_all is_alnum s)"

text \<open>\<^verbatim>\<open>v[k]\<close> for a string key: only a dict can be subscripted by a \<^verbatim>\<open>str\<close>.\<close>

fun py_subscript :: "pyval \<Rightarrow> string \<Rightarrow> error + pyval" where
  "py_subscript (PDict d) k = (case fmlookup d k of None \<Rightarrow> Inl (KeyError k) | Some v \<Rightarrow> Inr v)"
| "py_subscript _ k = Inl TypeError"

text \<open>\<^verbatim>\<open>v.get(k, default)\<close>: only a dict has the method.\<close>

fun py_get :: "pyval \<Rightarrow> string \<Rightarrow> pyval \<Rightarrow> error + pyval" where
  "py_get (PDict d) k dflt = Inr (case fmlookup d k of None \<Rightarrow> dflt | Some v \<Rightarrow> v)"
| "py_get _ k dflt = Inl AttributeError"

text \<open>
  \<^verbatim>\<open>for x in v\<close>: a list yields its elements, a string its characters, a dict its keys.
  Python yields the keys in insertion order, which a finite map does not record; every
  loop of this program subscripts or unpacks its element at once, which raises on a
  \<^verbatim>\<open>str\<close>, so of a dict's iteration only whether it is empty is observable.
\<close>

fun py_iter :: "pyval \<Rightarrow> error + pyval list" where
  "py_iter (PList xs) = Inr xs"
| "py_iter (PStr s) = Inr (map (\<lambda>c. PStr [c]) s)"
| "py_iter (PDict d) = Inr (map PStr (sorted_list_of_fset (fmdom d)))"
| "py_iter _ = Inl TypeError"

section \<open>The entity model\<close>

subsection \<open>Person, Student, Instructor\<close>

record person =
  name :: pyval
  email :: pyval
  contact_number :: pyval
  address :: pyval

record student = person +
  student_id :: pyval
  year_level :: pyval
  program :: pyval
  gpa :: pyval
  birth_date :: pyval
  student_role :: pyval
  enrolled_courses :: "ref list"

record instructor = person +
  instructor_id :: pyval
  instructor_role :: pyval
  courses_taught :: "ref list"

text \<open>
  The constructors only assign their arguments to the attributes: no statement of
  \<^verbatim>\<open>Person.__init__\<close>, \<^verbatim>\<open>Student.__init__\<close> or \<^verbatim>\<open>Instructor.__init__\<close> can raise. The default
  arguments (\<^verbatim>\<open>gpa=0.0\<close>, \<^verbatim>\<open>birth_date=None\<close>, \<^verbatim>\<open>enrolled_courses=None\<close> for the empty list,
  \<^verbatim>\<open>role\<close>) are passed by the caller. The attributes \<^verbatim>\<open>course\<close>, \<^verbatim>\<open>grades\<close> and
  \<^verbatim>\<open>_assignments\<close>, which no modelled method reads, are left out.
\<close>

definition Student_init ::
  "pyval \<Rightarrow> pyval \<Rightarrow> pyval \<Rightarrow> pyval \<Rightarrow> pyval \<Rightarrow> pyval \<Rightarrow> pyval \<Rightarrow> pyval \<Rightarrow> pyval \<Rightarrow> ref list \<Rightarrow> pyval
     \<Rightarrow> error + student" where
  "Student_init nm em cn ad sid yl pr g bd ecs rl =
     Inr \<lparr> name = nm, email = em, contact_number = cn, address = ad,
           student_id = sid, year_level = yl, program = pr, gpa = g, birth_date = bd,
           student_role = rl, enrolled_courses = ecs \<rparr>"

definition Instructor_init ::
  "pyval \<Rightarrow> pyval \<Rightarrow> pyval \<Rightarrow> pyval \<Rightarrow> pyval \<Rightarrow> pyval \<Rightarrow> error + instructor" where
  "Instructor_init nm em cn ad iid rl =
     Inr \<lparr> name = nm, email = em, contact_number = cn, address = ad,
           instructor_id = iid, instructor_role = rl, courses_taught = [] \<rparr>"

text \<open>The setters (\<^verbatim>\<open>value: str\<close>) validate, then assign.\<close>

definition name_setter :: "string \<Rightarrow> 'a person_scheme \<Rightarrow> error + 'a person_scheme" where
  "name_setter v p =
     (if strip v = [] then Inl (ValueError ''Name cannot be empty.'')
      else Inr (p\<lparr>name := PStr v\<rparr>))"

definition email_setter :: "string \<Rightarrow> 'a person_scheme \<Rightarrow> error + 'a person_scheme" where
  "email_setter v p =
     (if CHR ''@'' \<notin> set v \<or> CHR ''.'' \<notin> set v then Inl (ValueError ''Invalid email address.'')
      else Inr (p\<lparr>email := PStr v\<rparr>))"

definition contact_number_setter :: "string \<Rightarrow> 'a person_scheme \<Rightarrow> error + 'a person_scheme" where
  "contact_number_setter v p =
     (if \<not> isdigit v \<or> length v < 10
      then Inl (ValueError ''Contact number must be at least 10 digits.'')
      else Inr (p\<lparr>contact_number := PStr v\<rparr>))"

definition address_setter :: "string \<Rightarrow> 'a person_scheme \<Rightarrow> error + 'a person_scheme" where
  "address_setter v p =
     (if strip v = [] then Inl (ValueError ''Address cannot be empty.'')
      else Inr (p\<lparr>address := PStr v\<rparr>))"

definition gpa_setter :: "real \<Rightarrow> 'a student_scheme \<Rightarrow> error + 'a student_scheme" where
  "gpa_setter v s =
     (if 0 \<le> v \<and> v \<le> 4 then Inr (s\<lparr>gpa := PNum v\<rparr>)
      else Inl (ValueError ''GPA must be between 0 and 4.0''))"

definition Student_enroll :: "ref \<Rightarrow> student \<Rightarrow> student" where
  "Student_enroll c s =
     (if c \<notin> set (enrolled_courses s) then s\<lparr>enrolled_courses := enrolled_courses s @ [c]\<rparr> else s)"

subsection \<open>Grade\<close>

record grade =
  grade_student :: ref
  grade_assignment :: ref
  score :: real
  feedback :: pyval

definition validate_score :: "grade \<Rightarrow> error option" where
  "validate_score g =
     (if 0 \<le> score g \<and> score g \<le> 100 then None
      else Some (ValueError ''Score must be between 0 and 100.''))"

definition Grade_init :: "ref \<Rightarrow> ref \<Rightarrow> real \<Rightarrow> pyval \<Rightarrow> error + grade" where
  "Grade_init st a sc fb =
     (let g = \<lparr> grade_student = st, grade_assignment = a, score = sc, feedback = fb \<rparr>
      in case validate_score g of Some e \<Rightarrow> Inl e | None \<Rightarrow> Inr g)"

text \<open>The setter assigns first and validates the stored value afterwards.\<close>

definition score_setter :: "real \<Rightarrow> grade \<Rightarrow> grade outcome" where
  "score_setter v g = (let g' = g\<lparr>score := v\<rparr> in Outcome g' [] (validate_score g'))"

subsection \<open>Announcement and DiscussionThread\<close>

record announcement =
  announcement_title :: pyval
  announcement_content :: pyval
  announcement_date :: pyval
  recipient_groups :: "string list"

definition add_recipient_group :: "string \<Rightarrow> announcement \<Rightarrow> announcement outcome" where
  "add_recipient_group g a =
     (if \<not> isalnum g then Outcome a [ErrGroupNotValid g] None
      else if g \<notin> set (recipient_groups a)
      then Outcome (a\<lparr>recipient_groups := recipient_groups a @ [g]\<rparr>) [MsgGroupAdded g] None
      else Outcome a [MsgGroupAlready g] None)"

text \<open>
  A naive \<^verbatim>\<open>datetime\<close> is a point on one time line (its microseconds); an aware one
  carries an offset, and ordering a naive against an aware one raises \<^verbatim>\<open>TypeError\<close>.
  \<^verbatim>\<open>datetime.now()\<close> is naive; it is read from the clock and is a parameter here.
\<close>

datatype datetime = Naive int | Aware int

record post =
  post_person :: pyval
  post_timestamp :: datetime
  post_message :: string

record discussion_thread =
  thread_course :: ref
  thread_title :: pyval
  thread_creator :: ref
  posts :: "post list"
  thread_timestamp :: datetime

definition add_post :: "int \<Rightarrow> 'a person_scheme \<Rightarrow> string \<Rightarrow> discussion_thread \<Rightarrow> discussion_thread outcome" where
  "add_post now p message t =
     (if strip message = [] then Outcome t [MsgEmptyPost] None
      else Outcome
             (t\<lparr>posts := posts t @
                 [\<lparr> post_person = name p, post_timestamp = Naive now, post_message = message \<rparr>]\<rparr>)
             [MsgPostAdded (name p) message] None)"

subsection \<open>Course and Assignment\<close>

record assignment =
  assignment_title :: string
  assignment_description :: string
  assignment_due_date :: datetime
  assignment_course :: ref

record schedule =
  schedule_course :: ref
  schedule_day :: pyval
  schedule_time :: pyval

text \<open>
  \<open>course_schedule\<close> is \<open>None\<close> while the object has no attribute \<^verbatim>\<open>schedule\<close> (only
  \<^verbatim>\<open>load_data\<close> sets it). The attributes \<^verbatim>\<open>grades\<close> and \<^verbatim>\<open>discussion_threads\<close>, which no
  modelled method reads, are left out.
\<close>

record course =
  course_name :: pyval
  course_code :: pyval
  course_instructor :: ref
  course_students :: "ref list"
  units :: pyval
  assignments :: "assignment list"
  enrolled_students :: "ref list"
  course_schedule :: "schedule option"

definition Course_init :: "pyval \<Rightarrow> pyval \<Rightarrow> ref \<Rightarrow> pyval \<Rightarrow> course" where
  "Course_init cname code instr u =
     \<lparr> course_name = cname, course_code = code, course_instructor = instr, course_students = [],
       units = u, assignments = [], enrolled_students = [], course_schedule = None \<rparr>"

definition Assignment_init :: "string \<Rightarrow> string \<Rightarrow> datetime \<Rightarrow> ref \<Rightarrow> assignment" where
  "Assignment_init t d due c =
     \<lparr> assignment_title = t, assignment_description = d, assignment_due_date = due,
       assignment_course = c \<rparr>"

text \<open>
  \<^verbatim>\<open>Course.assign_assignment\<close>. \<^verbatim>\<open>datetime.fromisoformat\<close> is library code: it is the
  parameter \<open>fromisoformat\<close>, \<open>None\<close> where it raises \<^verbatim>\<open>ValueError\<close>. \<open>self\<close> is the
  reference of the course, which the new assignment keeps.
\<close>

definition assign_assignment ::
  "(string \<Rightarrow> datetime option) \<Rightarrow> int \<Rightarrow> ref \<Rightarrow> string \<Rightarrow> string \<Rightarrow> string \<Rightarrow> course \<Rightarrow> course outcome" where
  "assign_assignment fromisoformat now self title description due_date c =
     (case fromisoformat due_date of
        None \<Rightarrow> Outcome c [ErrInvalidDateFormat] None
      | Some (Aware t) \<Rightarrow> Outcome c [] (Some TypeError)
      | Some (Naive t) \<Rightarrow>
          if t \<le> now then Outcome c [ErrDueDateFuture] None
          else if list_ex (\<lambda>a. assignment_title a = title \<and> assignment_due_date a = Naive t)
                    (assignments c)
          then Outcome c [MsgAssignmentExists title due_date] None
          else Outcome (c\<lparr>assignments := assignments c @
                            [Assignment_init title description (Naive t) self]\<rparr>)
                 [MsgAssignmentAdded title (course_name c)] None)"

section \<open>Objects, references and the repository\<close>

text \<open>
  Students, courses and instructors are shared mutable objects: a student's
  \<^verbatim>\<open>enrolled_courses\<close> and the repository's \<^verbatim>\<open>courses\<close> hold the same \<^verbatim>\<open>Course\<close> objects, and
  \<^verbatim>\<open>in\<close> and \<^verbatim>\<open>==\<close> on them compare identities (no class defines \<^verbatim>\<open>__eq__\<close>). The store keeps
  the objects of each class in a list; a reference is an index into it, and a new object
  is appended.
\<close>

record heap =
  instructor_objs :: "instructor list"
  course_objs :: "course list"
  student_objs :: "student list"

record platform_admin =
  students :: "ref list"
  instructors :: "ref list"
  courses :: "ref list"
  enrollments :: "(ref \<times> ref) list"

type_synonym world = "platform_admin \<times> heap"

definition PlatformAdmin_init :: platform_admin where
  "PlatformAdmin_init = \<lparr> students = [], instructors = [], courses = [], enrollments = [] \<rparr>"

definition empty_heap :: heap where
  "empty_heap = \<lparr> instructor_objs = [], course_objs = [], student_objs = [] \<rparr>"

subsection \<open>Course.add_student, Course.remove_student and the Enrollment class\<close>

definition add_student :: "ref \<Rightarrow> ref \<Rightarrow> heap \<Rightarrow> heap outcome" where
  "add_student self student h =
     (let c = course_objs h ! self in
      if student \<notin> set (course_students c)
      then Outcome
             (h\<lparr>course_objs := (course_objs h)[self := c\<lparr>course_students := course_students c @ [student]\<rparr>]\<rparr>)
             [MsgStudentAdded (name (student_objs h ! student)) (course_name c)] None
      else Outcome h [MsgStudentAlreadyInCourse (name (student_objs h ! student)) (course_name c)] None)"

text \<open>The body of \<^verbatim>\<open>Course.remove_student\<close> is \<^verbatim>\<open>pass\<close>.\<close>

definition remove_student :: "ref \<Rightarrow> ref \<Rightarrow> heap \<Rightarrow> heap outcome" where
  "remove_student self student h = Outcome h [] None"

text \<open>
  An \<^verbatim>\<open>Enrollment\<close> object is its list \<^verbatim>\<open>_enrollments\<close> of
  \<^verbatim>\<open>{'student': s, 'course': c}\<close> entries.
\<close>

type_synonym enrollment = "(ref \<times> ref) list"

definition is_student_enrolled :: "ref \<Rightarrow> ref \<Rightarrow> enrollment \<Rightarrow> bool" where
  "is_student_enrolled student c es = list_ex (\<lambda>e. fst e = student \<and> snd e = c) es"

fun enroll_student :: "ref \<Rightarrow> ref \<Rightarrow> enrollment \<times> heap \<Rightarrow> (enrollment \<times> heap) outcome" where
  "enroll_student student c (es, h) =
     (if \<not> is_student_enrolled student c es
      then Outcome (es @ [(student, c)], final (add_student c student h))
             (printed (add_student c student h)
               @ [MsgEnrolled (name (student_objs h ! student)) (course_name (course_objs h ! c))])
             None
      else Outcome (es, h)
             [MsgAlreadyEnrolled (name (student_objs h ! student)) (course_name (course_objs h ! c))]
             None)"

fun unenroll_student :: "ref \<Rightarrow> ref \<Rightarrow> enrollment \<times> heap \<Rightarrow> (enrollment \<times> heap) outcome" where
  "unenroll_student student c (es, h) =
     (if list_ex (\<lambda>e. fst e = student \<and> snd e = c) es
      then Outcome (remove1 (student, c) es, final (remove_student c student h))
             (printed (remove_student c student h)
               @ [MsgUnenrolled (name (student_objs h ! student)) (course_name (course_objs h ! c))])
             None
      else Outcome (es, h)
             [MsgNotEnrolled (name (student_objs h ! student)) (course_name (course_objs h ! c))]
             None)"

subsection \<open>Serialization: \<^verbatim>\<open>to_dict\<close> and \<^verbatim>\<open>from_dict\<close>\<close>

definition Course_to_dict :: "heap \<Rightarrow> course \<Rightarrow> pyval" where
  "Course_to_dict h c = PDict (fmap_of_list
     [(''course_name'', course_name c),
      (''course_code'', course_code c),
      (''instructor_id'', instructor_id (instructor_objs h ! course_instructor c)),
      (''units'', units c)])"

definition Student_to_dict :: "heap \<Rightarrow> student \<Rightarrow> pyval" where
  "Student_to_dict h s = PDict (fmap_of_list
     [(''name'', name s),
      (''email'', email s),
      (''contact_number'', contact_number s),
      (''address'', address s),
      (''student_id'', student_id s),
      (''year_level'', year_level s),
      (''program'', program s),
      (''gpa'', gpa s),
      (''birth_date'', birth_date s),
      (''enrolled_courses'',
         PList (map (\<lambda>c. Course_to_dict h (course_objs h ! c)) (enrolled_courses s)))])"

definition Instructor_to_dict :: "heap \<Rightarrow> instructor \<Rightarrow> pyval" where
  "Instructor_to_dict h i = PDict (fmap_of_list
     [(''instructor_id'', instructor_id i),
      (''name'', name i),
      (''email'', email i),
      (''contact_number'', contact_number i),
      (''address'', address i),
      (''role'', instructor_role i),
      (''courses_taught'', PList (map (\<lambda>c. course_code (course_objs h ! c)) (courses_taught i)))])"

text \<open>
  \<^verbatim>\<open>next((o for o in objs if key(o) == rec[k]), None)\<close>: the generator evaluates
  \<^verbatim>\<open>rec[k]\<close> once per candidate, so over an empty collection nothing is subscripted and
  nothing raises.
\<close>

definition next_by_key :: "(ref \<Rightarrow> pyval) \<Rightarrow> ref list \<Rightarrow> pyval \<Rightarrow> string \<Rightarrow> error + ref option" where
  "next_by_key key_of objs rec k =
     (if objs = [] then Inr None
      else bind_err (py_subscript rec k) (\<lambda>v. Inr (find (\<lambda>r. key_of r = v) objs)))"

text \<open>The loop of \<^verbatim>\<open>Student.from_dict\<close> over the \<^verbatim>\<open>enrolled_courses\<close> entries.\<close>

fun enroll_listed :: "heap \<Rightarrow> ref list \<Rightarrow> pyval list \<Rightarrow> student \<Rightarrow> error + student" where
  "enroll_listed h all_courses [] s = Inr s"
| "enroll_listed h all_courses (course_data # rest) s =
     bind_err (next_by_key (\<lambda>c. course_code (course_objs h ! c)) all_courses course_data ''course_code'')
       (\<lambda>found. enroll_listed h all_courses rest
          (case found of None \<Rightarrow> s | Some c \<Rightarrow> Student_enroll c s))"

definition Student_from_dict :: "heap \<Rightarrow> pyval \<Rightarrow> ref list \<Rightarrow> error + student" where
  "Student_from_dict h data all_courses =
     bind_err (py_subscript data ''name'') (\<lambda>nm.
     bind_err (py_subscript data ''email'') (\<lambda>em.
     bind_err (py_subscript data ''contact_number'') (\<lambda>cn.
     bind_err (py_subscript data ''address'') (\<lambda>ad.
     bind_err (py_subscript data ''student_id'') (\<lambda>sid.
     bind_err (py_subscript data ''year_level'') (\<lambda>yl.
     bind_err (py_subscript data ''program'') (\<lambda>pr.
     bind_err (py_get data ''gpa'' (PNum 0)) (\<lambda>g.
     bind_err (py_get data ''birth_date'' PNone) (\<lambda>bd.
     bind_err (Student_init nm em cn ad sid yl pr g bd [] (PStr ''Student'')) (\<lambda>student.
     bind_err (bind_err (py_get data ''enrolled_courses'' (PList [])) py_iter) (\<lambda>items.
       enroll_listed h all_courses items student)))))))))))"

text \<open>
  \<^verbatim>\<open>Instructor(**inst_data)\<close>: unpacking needs a mapping, a key that is no parameter of
  \<^verbatim>\<open>Instructor.__init__\<close> and a missing required parameter are \<^verbatim>\<open>TypeError\<close>s; \<^verbatim>\<open>role\<close> has a
  default.
\<close>

definition kwarg :: "(string, pyval) fmap \<Rightarrow> string \<Rightarrow> error + pyval" where
  "kwarg d k = (case fmlookup d k of None \<Rightarrow> Inl TypeError | Some v \<Rightarrow> Inr v)"

definition Instructor_kwargs :: "pyval \<Rightarrow> error + instructor" where
  "Instructor_kwargs inst_data =
     (case inst_data of
        PDict d \<Rightarrow>
          if \<not> fmdom d |\<subseteq>|
               {|''name'', ''email'', ''contact_number'', ''address'', ''instructor_id'', ''role''|}
          then Inl TypeError
          else
            bind_err (kwarg d ''name'') (\<lambda>nm.
            bind_err (kwarg d ''email'') (\<lambda>em.
            bind_err (kwarg d ''contact_number'') (\<lambda>cn.
            bind_err (kwarg d ''address'') (\<lambda>ad.
            bind_err (kwarg d ''instructor_id'') (\<lambda>iid.
              Instructor_init nm em cn ad iid
                (case fmlookup d ''role'' of None \<Rightarrow> PStr ''Instructor'' | Some r \<Rightarrow> r))))))
      | _ \<Rightarrow> Inl TypeError)"

subsection \<open>PlatformAdmin.load_data\<close>

text \<open>
  The phases of the \<^verbatim>\<open>try\<close> block, each on the repository and the store. A list
  comprehension assigns its attribute only when every element was built: the objects built
  before an exception are unreachable and are not kept.
\<close>

fun load_instructors :: "pyval \<Rightarrow> world \<Rightarrow> world outcome" where
  "load_instructors data (pa, h) =
     attempt (pa, h) (bind_err (py_get data ''instructors'' (PList [])) py_iter) (\<lambda>items.
     attempt (pa, h) (map_raising Instructor_kwargs items) (\<lambda>objs.
       Outcome
         (pa\<lparr>instructors := [length (instructor_objs h) ..< length (instructor_objs h) + length objs]\<rparr>,
          h\<lparr>instructor_objs := instructor_objs h @ objs\<rparr>)
         [] None))"

fun load_course :: "pyval \<Rightarrow> world \<Rightarrow> world outcome" where
  "load_course course_data (pa, h) =
     attempt (pa, h) (py_get course_data ''instructor_id'' PNone) (\<lambda>iid.
       case find (\<lambda>i. instructor_id (instructor_objs h ! i) = iid) (instructors pa) of
         None \<Rightarrow>
           attempt (pa, h) (py_get course_data ''course_name'' (PStr ''Unknown'')) (\<lambda>cn.
             Outcome (pa, h) [WarnInstructorNotFound iid cn] None)
       | Some instructor_obj \<Rightarrow>
           attempt (pa, h) (py_subscript course_data ''course_name'') (\<lambda>cn.
           attempt (pa, h) (py_subscript course_data ''course_code'') (\<lambda>cc.
           attempt (pa, h) (py_subscript course_data ''units'') (\<lambda>u.
             Outcome
               (pa\<lparr>courses := courses pa @ [length (course_objs h)]\<rparr>,
                h\<lparr>course_objs := course_objs h @ [Course_init cn cc instructor_obj u]\<rparr>)
               [] None))))"

fun load_courses :: "pyval \<Rightarrow> world \<Rightarrow> world outcome" where
  "load_courses data (pa, h) =
     attempt (pa\<lparr>courses := []\<rparr>, h) (bind_err (py_get data ''courses'' (PList [])) py_iter) (\<lambda>items.
       for_each load_course items (pa\<lparr>courses := []\<rparr>, h))"

fun load_students :: "pyval \<Rightarrow> world \<Rightarrow> world outcome" where
  "load_students data (pa, h) =
     attempt (pa, h) (bind_err (py_get data ''students'' (PList [])) py_iter) (\<lambda>items.
     attempt (pa, h) (map_raising (\<lambda>student_data. Student_from_dict h student_data (courses pa)) items)
       (\<lambda>objs.
         Outcome
           (pa\<lparr>students := [length (student_objs h) ..< length (student_objs h) + length objs]\<rparr>,
            h\<lparr>student_objs := student_objs h @ objs\<rparr>)
           [] None))"

text \<open>
  \<^verbatim>\<open>student_obj.enroll(course_obj)\<close> and \<^verbatim>\<open>course_obj.enrolled_students.append(student_obj)\<close>.
\<close>

definition link :: "ref \<Rightarrow> ref \<Rightarrow> heap \<Rightarrow> heap" where
  "link s c h =
     h\<lparr>student_objs := (student_objs h)[s := Student_enroll c (student_objs h ! s)],
       course_objs := (course_objs h)
         [c := (course_objs h ! c)\<lparr>enrolled_students := enrolled_students (course_objs h ! c) @ [s]\<rparr>]\<rparr>"

fun load_enrollment :: "pyval \<Rightarrow> world \<Rightarrow> world outcome" where
  "load_enrollment enrollment_data (pa, h) =
     attempt (pa, h)
       (next_by_key (\<lambda>s. student_id (student_objs h ! s)) (students pa) enrollment_data ''student_id'')
       (\<lambda>student_obj.
     attempt (pa, h)
       (next_by_key (\<lambda>c. course_code (course_objs h ! c)) (courses pa) enrollment_data ''course_code'')
       (\<lambda>course_obj.
         case (student_obj, course_obj) of
           (Some s, Some c) \<Rightarrow> Outcome (pa, link s c h) [] None
         | _ \<Rightarrow>
           andthen
             (if student_obj = None
              then attempt (pa, h) (py_subscript enrollment_data ''student_id'') (\<lambda>v.
                     Outcome (pa, h) [WarnStudentNotFound v] None)
              else Outcome (pa, h) [] None)
             (\<lambda>w. if course_obj = None
                  then attempt w (py_subscript enrollment_data ''course_code'') (\<lambda>v.
                         Outcome w [WarnCourseNotFound v] None)
                  else Outcome w [] None)))"

fun load_enrollments :: "pyval \<Rightarrow> world \<Rightarrow> world outcome" where
  "load_enrollments data (pa, h) =
     attempt (pa\<lparr>enrollments := []\<rparr>, h)
       (bind_err (py_get data ''enrollments'' (PList [])) py_iter) (\<lambda>items.
       for_each load_enrollment items (pa\<lparr>enrollments := []\<rparr>, h))"

fun load_schedule :: "pyval \<Rightarrow> world \<Rightarrow> world outcome" where
  "load_schedule schedule_data (pa, h) =
     attempt (pa, h)
       (next_by_key (\<lambda>c. course_code (course_objs h ! c)) (courses pa) schedule_data ''course_code'')
       (\<lambda>course_obj.
         case course_obj of
           Some c \<Rightarrow>
             attempt (pa, h) (py_subscript schedule_data ''day'') (\<lambda>d.
             attempt (pa, h) (py_subscript schedule_data ''time'') (\<lambda>t.
               Outcome
                 (pa, h\<lparr>course_objs := (course_objs h)
                    [c := (course_objs h ! c)\<lparr>course_schedule :=
                       Some \<lparr> schedule_course = c, schedule_day = d, schedule_time = t \<rparr>\<rparr>]\<rparr>)
                 [] None))
         | None \<Rightarrow>
             attempt (pa, h) (py_subscript schedule_data ''course_code'') (\<lambda>v.
               Outcome (pa, h) [WarnScheduleCourseNotFound v] None))"

fun load_schedules :: "pyval \<Rightarrow> world \<Rightarrow> world outcome" where
  "load_schedules data (pa, h) =
     attempt (pa, h) (bind_err (py_get data ''schedules'' (PList [])) py_iter) (\<lambda>items.
       for_each load_schedule items (pa, h))"

definition load_phases :: "pyval \<Rightarrow> world \<Rightarrow> world outcome" where
  "load_phases data w =
     andthen (andthen (andthen (andthen (load_instructors data w) (load_courses data))
       (load_students data)) (load_enrollments data)) (load_schedules data)"

text \<open>
  The file as \<^verbatim>\<open>load_data\<close> finds it: absent, not JSON, or the value \<^verbatim>\<open>json.load\<close> returns.
  Every exception of the phases is caught by \<^verbatim>\<open>except Exception\<close>, which prints it; the
  method always returns. A file that exists and cannot be opened is not modelled.
\<close>

datatype data_file = NoFile | NotJson | Json pyval

definition load_data :: "data_file \<Rightarrow> world \<Rightarrow> world \<times> msg list" where
  "load_data f w =
     (case f of
        NoFile \<Rightarrow> (w, [MsgFileNotFoundStart])
      | NotJson \<Rightarrow> (w, [ErrDecodingJson])
      | Json data \<Rightarrow>
          (case raised (load_phases data w) of
             None \<Rightarrow> (final (load_phases data w), printed (load_phases data w))
           | Some e \<Rightarrow> (final (load_phases data w), printed (load_phases data w) @ [ErrUnexpectedLoad e])))"

subsection \<open>PlatformAdmin.save_data\<close>

text \<open>
  The document \<^verbatim>\<open>save_data\<close> builds and hands to \<^verbatim>\<open>json.dump\<close>, and what it prints.
  Every \<open>pyval\<close> is serializable, and \<^verbatim>\<open>json.load\<close> of the written text returns a value
  equal to the one dumped, so the file then holds \<open>Json\<close> of this document. A failure of
  \<^verbatim>\<open>open\<close> is outside the model.
\<close>

fun save_data :: "world \<Rightarrow> pyval \<times> msg list" where
  "save_data (pa, h) =
     (PDict (fmap_of_list
        [(''students'', PList (map (\<lambda>s. Student_to_dict h (student_objs h ! s)) (students pa))),
         (''instructors'',
            PList (map (\<lambda>i. Instructor_to_dict h (instructor_objs h ! i)) (instructors pa))),
         (''courses'', PList (map (\<lambda>c. Course_to_dict h (course_objs h ! c)) (courses pa))),
         (''enrollments'',
            PList (concat (map (\<lambda>s.
              map (\<lambda>c. PDict (fmap_of_list
                    [(''student_id'', student_id (student_objs h ! s)),
                     (''course_code'', course_code (course_objs h ! c))]))
                (enrolled_courses (student_objs h ! s))) (students pa)))),
         (''schedules'',
            PList (concat (map (\<lambda>c.
              case course_schedule (course_objs h ! c) of
                None \<Rightarrow> []
              | Some sch \<Rightarrow> [PDict (fmap_of_list
                    [(''course_code'', course_code (course_objs h ! c)),
                     (''day'', schedule_day sch),
                     (''time'', schedule_time sch)])]) (courses pa))))]),
      [MsgSaved])"

subsection \<open>Auxiliary notions for the statements\<close>

text \<open>The course codes of a list of course references, in order.\<close>

abbreviation codes :: "heap \<Rightarrow> ref list \<Rightarrow> pyval list" where
  "codes h cs \<equiv> map (\<lambda>c. course_code (course_objs h ! c)) cs"

text \<open>The store with the \<^verbatim>\<open>schedule\<close> attribute of every course removed.\<close>

definition forget_schedules :: "heap \<Rightarrow> heap" where
  "forget_schedules h = h\<lparr>course_objs := map (\<lambda>c. c\<lparr>course_schedule := None\<rparr>) (course_objs h)\<rparr>"

text \<open>
  \<open>inserted m r1 r0\<close>: the outcome \<open>r1\<close> is \<open>r0\<close> with the messages \<open>m\<close> printed in
  addition, somewhere in the output.
\<close>

definition inserted :: "msg list \<Rightarrow> 's outcome \<Rightarrow> 's outcome \<Rightarrow> bool" where
  "inserted m r1 r0 =
     (final r1 = final r0 \<and> raised r1 = raised r0
      \<and> (\<exists>o1 o2. printed r0 = o1 @ o2 \<and> printed r1 = o1 @ m @ o2))"

text \<open>
  \<open>staffed ins io w\<close>: the repository's instructors are \<open>ins\<close>, the instructor objects of
  the store are \<open>io\<close>, and every course of the repository is an object of the store whose
  instructor is one of \<open>ins\<close>.
\<close>

definition staffed :: "ref list \<Rightarrow> instructor list \<Rightarrow> world \<Rightarrow> bool" where
  "staffed ins io w =
     (instructors (fst w) = ins \<and> instructor_objs (snd w) = io
      \<and> list_all (\<lambda>k. k < length (course_objs (snd w))
                      \<and> course_instructor (course_objs (snd w) ! k) \<in> set ins)
          (courses (fst w)))"

text \<open>\<open>record_get x k\<close>: what \<^verbatim>\<open>x.get(k)\<close> returns on a record, \<^verbatim>\<open>None\<close> when the key is absent.\<close>

definition record_get :: "pyval \<Rightarrow> string \<Rightarrow> pyval" where
  "record_get x k = (case py_get x k PNone of Inl e \<Rightarrow> PNone | Inr v \<Rightarrow> v)"

text \<open>\<open>has_keys ks x\<close>: \<open>x\<close> is a JSON object with every key of \<open>ks\<close>.\<close>

definition has_keys :: "string list \<Rightarrow> pyval \<Rightarrow> bool" where
  "has_keys ks x = (case x of PDict d \<Rightarrow> list_all (\<lambda>k. fmlookup d k \<noteq> None) ks | _ \<Rightarrow> False)"

text \<open>
  Records that the phases of \<^verbatim>\<open>load_data\<close> read without a \<^verbatim>\<open>KeyError\<close>: a course record has
  the three keys that are subscripted and names an instructor of \<open>ins\<close> in the store \<open>io\<close>; a
  student record has the seven keys that \<^verbatim>\<open>Student.from_dict\<close> subscripts, and the entries of
  its \<^verbatim>\<open>enrolled_courses\<close> (if any) have a \<^verbatim>\<open>course_code\<close>; enrollment and schedule records have
  the keys that their phases subscript.
\<close>

definition course_record_ok :: "ref list \<Rightarrow> instructor list \<Rightarrow> pyval \<Rightarrow> bool" where
  "course_record_ok ins io x =
     (has_keys [''course_name'', ''course_code'', ''units''] x
      \<and> list_ex (\<lambda>i. instructor_id (io ! i) = record_get x ''instructor_id'') ins)"

definition student_record_ok :: "pyval \<Rightarrow> bool" where
  "student_record_ok x =
     (has_keys [''name'', ''email'', ''contact_number'', ''address'', ''student_id'', ''year_level'',
                ''program''] x
      \<and> (case py_get x ''enrolled_courses'' (PList []) of
            Inr (PList es) \<Rightarrow> list_all (has_keys [''course_code'']) es
          | _ \<Rightarrow> False))"

definition enrollment_record_ok :: "pyval \<Rightarrow> bool" where
  "enrollment_record_ok x = has_keys [''student_id'', ''course_code''] x"

definition schedule_record_ok :: "pyval \<Rightarrow> bool" where
  "schedule_record_ok x = has_keys [''course_code'', ''day'', ''time''] x"

text \<open>
  The lookups \<^verbatim>\<open>next((s for s in self.students if s.student_id == v), None)\<close> and
  \<^verbatim>\<open>next((c for c in self.courses if c.course_code == v), None)\<close> in a repository.
\<close>

definition student_by_id :: "world \<Rightarrow> pyval \<Rightarrow> ref option" where
  "student_by_id w v = find (\<lambda>s. student_id (student_objs (snd w) ! s) = v) (students (fst w))"

definition course_by_code :: "world \<Rightarrow> pyval \<Rightarrow> ref option" where
  "course_by_code w v = find (\<lambda>c. course_code (course_objs (snd w) ! c) = v) (courses (fst w))"

text \<open>\<open>linked w s c\<close>: student \<open>s\<close> and course \<open>c\<close> list each other.\<close>

definition linked :: "world \<Rightarrow> ref \<Rightarrow> ref \<Rightarrow> bool" where
  "linked w s c =
     (s \<in> set (enrolled_students (course_objs (snd w) ! c))
      \<and> c \<in> set (enrolled_courses (student_objs (snd w) ! s)))"

text \<open>Every student and course of the repository is an object of the store.\<close>

definition valid_refs :: "world \<Rightarrow> bool" where
  "valid_refs w =
     (list_all (\<lambda>s. s < length (student_objs (snd w))) (students (fst w))
      \<and> list_all (\<lambda>c. c < length (course_objs (snd w))) (courses (fst w)))"

text \<open>
  What the enrollments phase leaves unchanged (everything but the two enrollment lists of the
  objects), and what the schedules phase leaves unchanged (everything but the schedules).
\<close>

definition frame4 :: "world \<Rightarrow> world \<Rightarrow> bool" where
  "frame4 w w' =
     (students (fst w') = students (fst w) \<and> courses (fst w') = courses (fst w)
      \<and> instructors (fst w') = instructors (fst w)
      \<and> instructor_objs (snd w') = instructor_objs (snd w)
      \<and> length (student_objs (snd w')) = length (student_objs (snd w))
      \<and> length (course_objs (snd w')) = length (course_objs (snd w))
      \<and> (\<forall>k. (student_objs (snd w') ! k)\<lparr>enrolled_courses := []\<rparr>
               = (student_objs (snd w) ! k)\<lparr>enrolled_courses := []\<rparr>)
      \<and> (\<forall>k. (course_objs (snd w') ! k)\<lparr>enrolled_students := []\<rparr>
               = (course_objs (snd w) ! k)\<lparr>enrolled_students := []\<rparr>))"

definition frame5 :: "world \<Rightarrow> world \<Rightarrow> bool" where
  "frame5 w w' =
     (fst w' = fst w \<and> student_objs (snd w') = student_objs (snd w)
      \<and> instructor_objs (snd w') = instructor_objs (snd w)
      \<and> length (course_objs (snd w')) = length (course_objs (snd w))
      \<and> (\<forall>k. (course_objs (snd w') ! k)\<lparr>course_schedule := None\<rparr>
               = (course_objs (snd w) ! k)\<lparr>course_schedule := None\<rparr>))"

section \<open>Lemmas on the combinators and the phases\<close>

lemma strip_empty_iff: "strip s = [] \<longleftrightarrow> list_all is_space s"
proof -
  have "strip s = [] \<longleftrightarrow> dropWhile is_space (rev (dropWhile is_space s)) = []"
    by (simp add: strip_def)
  also have "\<dots> \<longleftrightarrow> (\<forall>x\<in>set (dropWhile is_space s). is_space x)"
    by (simp add: dropWhile_eq_Nil_conv)
  also have "\<dots> \<longleftrightarrow> dropWhile is_space s = []"
  proof
    assume a: "\<forall>x\<in>set (dropWhile is_space s). is_space x"
    show "dropWhile is_space s = []"
    proof (rule ccontr)
      assume "dropWhile is_space s \<noteq> []"
      then have "\<not> is_space (hd (dropWhile is_space s))" by (rule hd_dropWhile)
      moreover have "hd (dropWhile is_space s) \<in> set (dropWhile is_space s)"
        using \<open>dropWhile is_space s \<noteq> []\<close> by simp
      ultimately show False using a by blast
    qed
  next
    assume e: "dropWhile is_space s = []"
    show "\<forall>x\<in>set (dropWhile is_space s). is_space x" unfolding e by simp
  qed
  also have "\<dots> \<longleftrightarrow> list_all is_space s"
    by (simp add: dropWhile_eq_Nil_conv list_all_iff)
  finally show ?thesis .
qed

lemma andthen_Outcome [simp]:
  "andthen (Outcome s out None) f = Outcome (final (f s)) (out @ printed (f s)) (raised (f s))"
  "andthen (Outcome s out (Some e)) f = Outcome s out (Some e)"
  by (simp_all add: andthen_def)

lemma andthen_raised: "raised r = Some e \<Longrightarrow> andthen r f = r"
  by (simp add: andthen_def)

lemma attempt_simps [simp]:
  "attempt s (Inl e) f = Outcome s [] (Some e)"
  "attempt s (Inr a) f = f a"
  by (simp_all add: attempt_def)

lemma bind_err_simps [simp]:
  "bind_err (Inl e) f = Inl e"
  "bind_err (Inr a) f = f a"
  by (simp_all add: bind_err_def)

lemma map_raising_Inl:
  "x \<in> set xs \<Longrightarrow> f x = Inl e \<Longrightarrow> \<exists>e'. map_raising f xs = Inl e'"
proof (induction xs)
  case Nil
  then show ?case by simp
next
  case (Cons y ys)
  show ?case
  proof (cases "f y")
    case (Inl e1)
    then show ?thesis by simp
  next
    case (Inr b)
    with Cons have "x \<in> set ys" by auto
    with Cons obtain e' where "map_raising f ys = Inl e'" by blast
    with Inr show ?thesis by simp
  qed
qed

lemma Instructor_kwargs_to_dict: "Instructor_kwargs (Instructor_to_dict h i) = Inl TypeError"
  by (simp add: Instructor_kwargs_def Instructor_to_dict_def)

lemma map_field_list_update:
  assumes "f y = f (xs ! i)"
  shows "map f (xs[i := y]) = map f xs"
proof (cases "i < length xs")
  case True
  with assms show ?thesis by (simp add: map_update list_update_same_conv)
next
  case False
  then have "xs[i := y] = xs" by (simp add: list_update_beyond)
  then show ?thesis by simp
qed

lemma final_andthen:
  "final (andthen r f) = (case raised r of None \<Rightarrow> final (f (final r)) | Some e \<Rightarrow> final r)"
  by (simp add: andthen_def split: option.splits)

lemma for_each_invariant:
  assumes "\<And>x s. P s \<Longrightarrow> P (final (body x s))" and "P s"
  shows "P (final (for_each body xs s))"
  using assms(2)
proof (induction xs arbitrary: s)
  case Nil
  then show ?case by simp
next
  case (Cons x xs)
  then show ?case by (simp add: final_andthen assms(1) split: option.splits)
qed

lemma for_each_append:
  "for_each body (xs @ ys) s = andthen (for_each body xs s) (for_each body ys)"
proof (induction xs arbitrary: s)
  case Nil
  show ?case by (simp add: andthen_def)
next
  case (Cons x xs)
  show ?case
    by (cases "body x s") (auto simp: Cons andthen_def split: option.splits)
qed

lemma load_instructors_students:
  "students (fst (final (load_instructors data w))) = students (fst w)
   \<and> student_objs (snd (final (load_instructors data w))) = student_objs (snd w)"
  by (cases w) (simp add: attempt_def split: sum.splits)

lemma load_course_students:
  "students (fst (final (load_course x w))) = students (fst w)
   \<and> student_objs (snd (final (load_course x w))) = student_objs (snd w)"
  by (cases w) (simp add: attempt_def split: sum.splits option.splits)

lemma load_courses_students:
  "students (fst (final (load_courses data w))) = students (fst w)
   \<and> student_objs (snd (final (load_courses data w))) = student_objs (snd w)"
proof -
  obtain pa h where w: "w = (pa, h)" by (cases w)
  have "\<And>items. students (fst (final (for_each load_course items (pa\<lparr>courses := []\<rparr>, h)))) = students pa
      \<and> student_objs (snd (final (for_each load_course items (pa\<lparr>courses := []\<rparr>, h)))) = student_objs h"
    by (rule for_each_invariant
          [where P = "\<lambda>s. students (fst s) = students pa \<and> student_objs (snd s) = student_objs h"])
       (simp_all add: load_course_students)
  then show ?thesis
    by (simp add: w attempt_def split: sum.splits)
qed

lemma Student_from_dict_missing:
  assumes "k \<in> set [''name'', ''email'', ''contact_number'', ''address'', ''student_id'',
                      ''year_level'', ''program'']"
    and "fmlookup r k = None"
  shows "\<exists>e. Student_from_dict h (PDict r) cs = Inl e"
  using assms
  by (auto simp: Student_from_dict_def bind_err_def split: option.splits sum.splits)

lemma load_students_malformed:
  assumes "fmlookup d ''students'' = Some (PList srecs)"
    and "PDict r \<in> set srecs"
    and "k \<in> set [''name'', ''email'', ''contact_number'', ''address'', ''student_id'',
                      ''year_level'', ''program'']"
    and "fmlookup r k = None"
  shows "\<exists>e. load_students (PDict d) w = Outcome w [] (Some e)"
proof -
  obtain pa h where w: "w = (pa, h)" by (cases w)
  from Student_from_dict_missing [OF assms(3,4)]
  obtain e where "Student_from_dict h (PDict r) (courses pa) = Inl e" by blast
  from map_raising_Inl [OF assms(2), of "\<lambda>sd. Student_from_dict h sd (courses pa)", OF this]
  obtain e' where "map_raising (\<lambda>sd. Student_from_dict h sd (courses pa)) srecs = Inl e'" by blast
  then show ?thesis by (simp add: w assms(1))
qed

lemma find_by_code:
  assumes "course_code (course_objs h ! c) \<in> set (codes h all_courses)"
  shows "\<exists>r. find (\<lambda>r. course_code (course_objs h ! r) = course_code (course_objs h ! c)) all_courses = Some r
       \<and> course_code (course_objs h ! r) = course_code (course_objs h ! c)"
proof (cases "find (\<lambda>r. course_code (course_objs h ! r) = course_code (course_objs h ! c)) all_courses")
  case None
  with assms show ?thesis by (auto simp: find_None_iff)
next
  case (Some r)
  then show ?thesis by (auto simp: find_Some_iff)
qed

lemma enroll_listed_round_trip:
  assumes "distinct (codes h cs)"
    and "set (codes h cs) \<subseteq> set (codes h all_courses)"
    and "set (codes h (enrolled_courses s)) \<inter> set (codes h cs) = {}"
  shows "\<exists>ecs. enroll_listed h all_courses (map (\<lambda>c. Course_to_dict h (course_objs h ! c)) cs) s
           = Inr (s\<lparr>enrolled_courses := ecs\<rparr>)
       \<and> codes h ecs = codes h (enrolled_courses s) @ codes h cs"
  using assms
proof (induction cs arbitrary: s)
  case Nil
  have "s = s\<lparr>enrolled_courses := enrolled_courses s\<rparr>" by simp
  then show ?case by (metis (no_types) append_Nil2 enroll_listed.simps(1) list.simps(8))
next
  case (Cons c cs)
  from Cons.prems(2) have "course_code (course_objs h ! c) \<in> set (codes h all_courses)" by auto
  from find_by_code [OF this] obtain r where
    r: "find (\<lambda>r. course_code (course_objs h ! r) = course_code (course_objs h ! c)) all_courses = Some r"
    and rc: "course_code (course_objs h ! r) = course_code (course_objs h ! c)" by blast
  from r have ne: "all_courses \<noteq> []" by auto
  have nb: "next_by_key (\<lambda>c. course_code (course_objs h ! c)) all_courses
              (Course_to_dict h (course_objs h ! c)) ''course_code'' = Inr (Some r)"
    by (simp add: next_by_key_def ne Course_to_dict_def r)
  have "r \<notin> set (enrolled_courses s)"
  proof
    assume "r \<in> set (enrolled_courses s)"
    then have "course_code (course_objs h ! r) \<in> set (codes h (enrolled_courses s))" by auto
    with rc Cons.prems(3) show False by auto
  qed
  then have en: "Student_enroll r s = s\<lparr>enrolled_courses := enrolled_courses s @ [r]\<rparr>"
    by (simp add: Student_enroll_def)
  let ?s1 = "s\<lparr>enrolled_courses := enrolled_courses s @ [r]\<rparr>"
  have d: "distinct (codes h cs)" and sub: "set (codes h cs) \<subseteq> set (codes h all_courses)"
    using Cons.prems(1,2) by auto
  have disj: "set (codes h (enrolled_courses ?s1)) \<inter> set (codes h cs) = {}"
    using Cons.prems(1,3) rc by auto
  from Cons.IH [OF d sub disj] obtain ecs where
    e1: "enroll_listed h all_courses (map (\<lambda>c. Course_to_dict h (course_objs h ! c)) cs) ?s1
           = Inr (?s1\<lparr>enrolled_courses := ecs\<rparr>)"
    and e2: "codes h ecs = codes h (enrolled_courses ?s1) @ codes h cs" by blast
  have "enroll_listed h all_courses (map (\<lambda>c. Course_to_dict h (course_objs h ! c)) (c # cs)) s
          = Inr (s\<lparr>enrolled_courses := ecs\<rparr>)"
    by (simp add: nb en e1)
  moreover have "codes h ecs = codes h (enrolled_courses s) @ codes h (c # cs)"
    using e2 rc by simp
  ultimately show ?case by blast
qed

lemma load_schedule_frame:
  "fst (final (load_schedule x w)) = fst w
   \<and> forget_schedules (snd (final (load_schedule x w))) = forget_schedules (snd w)"
  by (cases w)
     (simp add: attempt_def forget_schedules_def map_field_list_update split: sum.splits option.splits)

lemma load_schedules_frame:
  "fst (final (load_schedules data w)) = fst w
   \<and> forget_schedules (snd (final (load_schedules data w))) = forget_schedules (snd w)"
proof -
  obtain pa h where w: "w = (pa, h)" by (cases w)
  have "\<And>items. fst (final (for_each load_schedule items (pa, h))) = pa
      \<and> forget_schedules (snd (final (for_each load_schedule items (pa, h)))) = forget_schedules h"
    by (rule for_each_invariant
          [where P = "\<lambda>s. fst s = pa \<and> forget_schedules (snd s) = forget_schedules h"])
       (simp_all add: load_schedule_frame)
  then show ?thesis
    by (simp add: w attempt_def split: sum.splits)
qed

lemma forget_schedules_eqD:
  assumes "forget_schedules h' = forget_schedules h"
  shows "student_objs h' = student_objs h" and "instructor_objs h' = instructor_objs h"
    and "length (course_objs h') = length (course_objs h)"
    and "n < length (course_objs h) \<Longrightarrow>
           (course_objs h' ! n)\<lparr>course_schedule := None\<rparr> = (course_objs h ! n)\<lparr>course_schedule := None\<rparr>"
proof -
  from assms have "student_objs (forget_schedules h') = student_objs (forget_schedules h)" by simp
  then show "student_objs h' = student_objs h" by (simp add: forget_schedules_def)
  from assms have "instructor_objs (forget_schedules h') = instructor_objs (forget_schedules h)" by simp
  then show "instructor_objs h' = instructor_objs h" by (simp add: forget_schedules_def)
  from assms have "course_objs (forget_schedules h') = course_objs (forget_schedules h)" by simp
  then have m: "map (\<lambda>c. c\<lparr>course_schedule := None\<rparr>) (course_objs h')
      = map (\<lambda>c. c\<lparr>course_schedule := None\<rparr>) (course_objs h)"
    by (simp add: forget_schedules_def)
  from m show len: "length (course_objs h') = length (course_objs h)" by (rule map_eq_imp_length_eq)
  assume n: "n < length (course_objs h)"
  have "map (\<lambda>c. c\<lparr>course_schedule := None\<rparr>) (course_objs h') ! n
      = map (\<lambda>c. c\<lparr>course_schedule := None\<rparr>) (course_objs h) ! n" by (simp only: m)
  with n len show "(course_objs h' ! n)\<lparr>course_schedule := None\<rparr> = (course_objs h ! n)\<lparr>course_schedule := None\<rparr>"
    by simp
qed

lemma four_phases_one_each:
  assumes inst: "fmlookup d ''instructors'' = Some (PList [inst])"
    and i1: "Instructor_kwargs inst = Inr i1"
    and crs: "fmlookup d ''courses'' = Some (PList [PDict c])"
    and c_iid: "fmlookup c ''instructor_id'' = Some (instructor_id i1)"
    and c_name: "fmlookup c ''course_name'' = Some cn"
    and c_code: "fmlookup c ''course_code'' = Some cc"
    and c_units: "fmlookup c ''units'' = Some u"
    and studs: "fmlookup d ''students'' = Some (PList [PDict s])"
    and s_req: "fmlookup s ''name'' = Some nm" "fmlookup s ''email'' = Some em"
      "fmlookup s ''contact_number'' = Some cnum" "fmlookup s ''address'' = Some ad"
      "fmlookup s ''student_id'' = Some sid" "fmlookup s ''year_level'' = Some yl"
      "fmlookup s ''program'' = Some pr"
    and s_enr: "fmlookup s ''enrolled_courses'' = Some (PList [PDict ec])"
    and ec_code: "fmlookup ec ''course_code'' = Some cc"
    and enr: "fmlookup d ''enrollments'' = Some (PList [])"
  shows "andthen (andthen (andthen (load_instructors (PDict d) (pa, h)) (load_courses (PDict d)))
            (load_students (PDict d))) (load_enrollments (PDict d))
       = Outcome
           (pa\<lparr>instructors := [length (instructor_objs h)], courses := [length (course_objs h)],
               students := [length (student_objs h)], enrollments := []\<rparr>,
            h\<lparr>instructor_objs := instructor_objs h @ [i1],
              course_objs := course_objs h @ [Course_init cn cc (length (instructor_objs h)) u],
              student_objs := student_objs h @
                [\<lparr> name = nm, email = em, contact_number = cnum, address = ad, student_id = sid,
                   year_level = yl, program = pr,
                   gpa = (case fmlookup s ''gpa'' of None \<Rightarrow> PNum 0 | Some v \<Rightarrow> v),
                   birth_date = (case fmlookup s ''birth_date'' of None \<Rightarrow> PNone | Some v \<Rightarrow> v),
                   student_role = PStr ''Student'',
                   enrolled_courses = [length (course_objs h)] \<rparr>]\<rparr>)
           [] None"
proof -
  have p1: "load_instructors (PDict d) (pa, h)
      = Outcome (pa\<lparr>instructors := [length (instructor_objs h)]\<rparr>,
                 h\<lparr>instructor_objs := instructor_objs h @ [i1]\<rparr>) [] None"
    by (simp add: inst i1)
  have p2: "load_courses (PDict d) (pa\<lparr>instructors := [length (instructor_objs h)]\<rparr>,
                 h\<lparr>instructor_objs := instructor_objs h @ [i1]\<rparr>)
      = Outcome (pa\<lparr>instructors := [length (instructor_objs h)], courses := [length (course_objs h)]\<rparr>,
                 h\<lparr>instructor_objs := instructor_objs h @ [i1],
                   course_objs := course_objs h @ [Course_init cn cc (length (instructor_objs h)) u]\<rparr>)
          [] None"
    by (simp add: crs c_iid c_name c_code c_units)
  have p3: "load_students (PDict d)
        (pa\<lparr>instructors := [length (instructor_objs h)], courses := [length (course_objs h)]\<rparr>,
         h\<lparr>instructor_objs := instructor_objs h @ [i1],
           course_objs := course_objs h @ [Course_init cn cc (length (instructor_objs h)) u]\<rparr>)
      = Outcome
           (pa\<lparr>instructors := [length (instructor_objs h)], courses := [length (course_objs h)],
               students := [length (student_objs h)]\<rparr>,
            h\<lparr>instructor_objs := instructor_objs h @ [i1],
              course_objs := course_objs h @ [Course_init cn cc (length (instructor_objs h)) u],
              student_objs := student_objs h @
                [\<lparr> name = nm, email = em, contact_number = cnum, address = ad, student_id = sid,
                   year_level = yl, program = pr,
                   gpa = (case fmlookup s ''gpa'' of None \<Rightarrow> PNum 0 | Some v \<Rightarrow> v),
                   birth_date = (case fmlookup s ''birth_date'' of None \<Rightarrow> PNone | Some v \<Rightarrow> v),
                   student_role = PStr ''Student'',
                   enrolled_courses = [length (course_objs h)] \<rparr>]\<rparr>)
           [] None"
    by (simp add: studs s_req s_enr ec_code Student_from_dict_def Student_init_def next_by_key_def
          Student_enroll_def Course_init_def)
  show ?thesis
    by (simp add: p1 p2 p3 enr
          del: load_instructors.simps load_courses.simps load_students.simps)
qed

lemma fst_load_data_Json: "fst (load_data (Json data) w) = final (load_phases data w)"
  by (simp add: load_data_def split: option.splits)

lemma inserted_refl: "inserted [] r r"
  by (auto simp: inserted_def)

lemma inserted_andthen:
  assumes "inserted m r1 r0"
  shows "inserted m (andthen r1 f) (andthen r0 f)"
proof -
  from assms obtain o1 o2 where f: "final r1 = final r0" and r: "raised r1 = raised r0"
    and p0: "printed r0 = o1 @ o2" and p1: "printed r1 = o1 @ m @ o2"
    by (auto simp: inserted_def)
  show ?thesis
  proof (cases "raised r0")
    case (Some e)
    then show ?thesis using assms r by (simp add: andthen_raised)
  next
    case None
    have "printed (andthen r0 f) = o1 @ (o2 @ printed (f (final r0)))"
      using None p0 by (simp add: andthen_def)
    moreover have "printed (andthen r1 f) = o1 @ m @ (o2 @ printed (f (final r0)))"
      using None r f p1 by (simp add: andthen_def)
    moreover have "final (andthen r1 f) = final (andthen r0 f)"
      and "raised (andthen r1 f) = raised (andthen r0 f)"
      using None r f by (simp_all add: andthen_def)
    ultimately show ?thesis unfolding inserted_def by blast
  qed
qed

lemma load_course_instructors:
  "instructors (fst (final (load_course x w))) = instructors (fst w)
   \<and> instructor_objs (snd (final (load_course x w))) = instructor_objs (snd w)"
  by (cases w) (simp add: attempt_def split: sum.splits option.splits)

lemma for_each_load_course_instructors:
  "instructors (fst (final (for_each load_course xs w))) = instructors (fst w)
   \<and> instructor_objs (snd (final (for_each load_course xs w))) = instructor_objs (snd w)"
  by (rule for_each_invariant
        [where P = "\<lambda>s. instructors (fst s) = instructors (fst w)
                      \<and> instructor_objs (snd s) = instructor_objs (snd w)"])
     (simp_all add: load_course_instructors)

lemma load_course_skip:
  assumes "\<forall>i\<in>set (instructors (fst w)).
             instructor_id (instructor_objs (snd w) ! i)
               \<noteq> (case fmlookup c ''instructor_id'' of None \<Rightarrow> PNone | Some v \<Rightarrow> v)"
  shows "load_course (PDict c) w
       = Outcome w
           [WarnInstructorNotFound
              (case fmlookup c ''instructor_id'' of None \<Rightarrow> PNone | Some v \<Rightarrow> v)
              (case fmlookup c ''course_name'' of None \<Rightarrow> PStr ''Unknown'' | Some v \<Rightarrow> v)]
           None"
proof -
  obtain pa h where w: "w = (pa, h)" by (cases w)
  from assms have "find (\<lambda>i. instructor_id (instructor_objs h ! i)
        = (case fmlookup c ''instructor_id'' of None \<Rightarrow> PNone | Some v \<Rightarrow> v)) (instructors pa) = None"
    by (simp add: w find_None_iff)
  then show ?thesis by (simp add: w)
qed

lemma skip_in_loop:
  assumes "\<forall>i\<in>set (instructors (fst w)).
             instructor_id (instructor_objs (snd w) ! i)
               \<noteq> (case fmlookup c ''instructor_id'' of None \<Rightarrow> PNone | Some v \<Rightarrow> v)"
  shows "inserted
     (if raised (for_each load_course pre w) = None
      then [WarnInstructorNotFound
              (case fmlookup c ''instructor_id'' of None \<Rightarrow> PNone | Some v \<Rightarrow> v)
              (case fmlookup c ''course_name'' of None \<Rightarrow> PStr ''Unknown'' | Some v \<Rightarrow> v)]
      else [])
     (for_each load_course (pre @ PDict c # post) w)
     (for_each load_course (pre @ post) w)"
proof (cases "raised (for_each load_course pre w)")
  case (Some e)
  then have "for_each load_course (pre @ PDict c # post) w = for_each load_course (pre @ post) w"
    by (simp add: for_each_append andthen_raised)
  with Some show ?thesis by (simp add: inserted_refl)
next
  case None
  let ?r = "for_each load_course pre w"
  let ?warn = "WarnInstructorNotFound
              (case fmlookup c ''instructor_id'' of None \<Rightarrow> PNone | Some v \<Rightarrow> v)
              (case fmlookup c ''course_name'' of None \<Rightarrow> PStr ''Unknown'' | Some v \<Rightarrow> v)"
  have "\<forall>i\<in>set (instructors (fst (final ?r))).
             instructor_id (instructor_objs (snd (final ?r)) ! i)
               \<noteq> (case fmlookup c ''instructor_id'' of None \<Rightarrow> PNone | Some v \<Rightarrow> v)"
    using assms by (simp add: for_each_load_course_instructors)
  from load_course_skip [OF this]
  have skip: "load_course (PDict c) (final ?r) = Outcome (final ?r) [?warn] None" .
  let ?r2 = "for_each load_course post (final ?r)"
  have a: "for_each load_course (pre @ PDict c # post) w
      = Outcome (final ?r2) (printed ?r @ [?warn] @ printed ?r2) (raised ?r2)"
    using None by (simp add: for_each_append andthen_def [of ?r] skip)
  have b: "for_each load_course (pre @ post) w
      = Outcome (final ?r2) (printed ?r @ printed ?r2) (raised ?r2)"
    using None by (simp add: for_each_append andthen_def [of ?r])
  show ?thesis unfolding inserted_def a b using None by auto
qed

lemma other_phases_ignore_courses:
  "load_instructors (PDict (fmupd ''courses'' v d)) w = load_instructors (PDict d) w"
  "load_students (PDict (fmupd ''courses'' v d)) w = load_students (PDict d) w"
  "load_enrollments (PDict (fmupd ''courses'' v d)) w = load_enrollments (PDict d) w"
  "load_schedules (PDict (fmupd ''courses'' v d)) w = load_schedules (PDict d) w"
  by (cases w; simp)+

lemma other_phases_ignore_courses_fun:
  "load_students (PDict (fmupd ''courses'' v d)) = load_students (PDict d)"
  "load_enrollments (PDict (fmupd ''courses'' v d)) = load_enrollments (PDict d)"
  "load_schedules (PDict (fmupd ''courses'' v d)) = load_schedules (PDict d)"
  by (rule ext, rule other_phases_ignore_courses)+

lemma load_data_inserted:
  assumes "inserted m (load_phases data1 w) (load_phases data0 w)"
  shows "fst (load_data (Json data1) w) = fst (load_data (Json data0) w)
       \<and> (\<exists>o1 o2. snd (load_data (Json data0) w) = o1 @ o2
                  \<and> snd (load_data (Json data1) w) = o1 @ m @ o2)"
proof -
  from assms obtain o1 o2 where f: "final (load_phases data1 w) = final (load_phases data0 w)"
    and r: "raised (load_phases data1 w) = raised (load_phases data0 w)"
    and p0: "printed (load_phases data0 w) = o1 @ o2"
    and p1: "printed (load_phases data1 w) = o1 @ m @ o2"
    by (auto simp: inserted_def)
  show ?thesis
  proof (cases "raised (load_phases data0 w)")
    case None
    with f r p0 p1 show ?thesis by (auto simp: load_data_def)
  next
    case (Some e)
    have "snd (load_data (Json data0) w) = o1 @ (o2 @ [ErrUnexpectedLoad e])"
      using Some p0 by (simp add: load_data_def)
    moreover have "snd (load_data (Json data1) w) = o1 @ m @ (o2 @ [ErrUnexpectedLoad e])"
      using Some r p1 by (simp add: load_data_def)
    moreover have "fst (load_data (Json data1) w) = fst (load_data (Json data0) w)"
      using f by (simp add: fst_load_data_Json)
    ultimately show ?thesis by blast
  qed
qed

lemma skipped_course_phases:
  assumes crs: "fmlookup d ''courses'' = Some (PList (pre @ PDict c # post))"
    and p1: "load_instructors (PDict d) w = Outcome (pa1, h1) [] None"
    and nomatch: "\<forall>i\<in>set (instructors pa1).
        instructor_id (instructor_objs h1 ! i)
          \<noteq> (case fmlookup c ''instructor_id'' of None \<Rightarrow> PNone | Some v \<Rightarrow> v)"
    and pre_ok: "raised (for_each load_course pre (pa1\<lparr>courses := []\<rparr>, h1)) = None"
  shows "inserted
     [WarnInstructorNotFound
        (case fmlookup c ''instructor_id'' of None \<Rightarrow> PNone | Some v \<Rightarrow> v)
        (case fmlookup c ''course_name'' of None \<Rightarrow> PStr ''Unknown'' | Some v \<Rightarrow> v)]
     (load_phases (PDict d) w)
     (load_phases (PDict (fmupd ''courses'' (PList (pre @ post)) d)) w)"
proof -
  let ?d0 = "fmupd ''courses'' (PList (pre @ post)) d"
  let ?w0 = "(pa1\<lparr>courses := []\<rparr>, h1)"
  let ?m = "[WarnInstructorNotFound
        (case fmlookup c ''instructor_id'' of None \<Rightarrow> PNone | Some v \<Rightarrow> v)
        (case fmlookup c ''course_name'' of None \<Rightarrow> PStr ''Unknown'' | Some v \<Rightarrow> v)]"
  have nm: "\<forall>i\<in>set (instructors (fst ?w0)).
        instructor_id (instructor_objs (snd ?w0) ! i)
          \<noteq> (case fmlookup c ''instructor_id'' of None \<Rightarrow> PNone | Some v \<Rightarrow> v)"
    using nomatch by simp
  from skip_in_loop [OF nm, of pre post] pre_ok
  have loop: "inserted ?m (for_each load_course (pre @ PDict c # post) ?w0)
                (for_each load_course (pre @ post) ?w0)" by simp
  have c1: "load_courses (PDict d) (pa1, h1) = for_each load_course (pre @ PDict c # post) ?w0"
    by (simp add: crs)
  have c0: "load_courses (PDict ?d0) (pa1, h1) = for_each load_course (pre @ post) ?w0"
    by simp
  have a1: "andthen (load_instructors (PDict d) w) (load_courses (PDict d))
      = for_each load_course (pre @ PDict c # post) ?w0"
    unfolding p1 using c1 by (cases "for_each load_course (pre @ PDict c # post) ?w0") simp
  have a0: "andthen (load_instructors (PDict ?d0) w) (load_courses (PDict ?d0))
      = for_each load_course (pre @ post) ?w0"
    unfolding other_phases_ignore_courses p1 using c0
    by (cases "for_each load_course (pre @ post) ?w0") simp
  show ?thesis
    unfolding load_phases_def a1 a0 other_phases_ignore_courses_fun
    by (intro inserted_andthen loop)
qed

lemma nth_update_field:
  assumes "f y = f (xs ! i)"
  shows "f (xs[i := y] ! k) = f (xs ! k)"
proof (cases "i < length xs \<and> k = i")
  case True
  with assms show ?thesis by simp
next
  case False
  then show ?thesis by (cases "k = i") (simp_all add: list_update_beyond)
qed

lemma load_course_staffed:
  assumes "staffed ins io w"
  shows "staffed ins io (final (load_course x w))"
proof -
  obtain pa h where w: "w = (pa, h)" by (cases w)
  show ?thesis
  proof (cases "py_get x ''instructor_id'' PNone")
    case (Inl e)
    with assms show ?thesis by (simp add: w)
  next
    case (Inr iid)
    show ?thesis
    proof (cases "find (\<lambda>i. instructor_id (instructor_objs h ! i) = iid) (instructors pa)")
      case None
      with Inr assms show ?thesis by (simp add: w attempt_def split: sum.splits)
    next
      case (Some i)
      then have "i \<in> set (instructors pa)" by (auto simp: find_Some_iff)
      with assms have i: "i \<in> set ins" by (simp add: staffed_def w)
      from assms have old: "\<forall>k\<in>set (courses pa). k < length (course_objs h)
          \<and> course_instructor (course_objs h ! k) \<in> set ins"
        by (simp add: staffed_def w list_all_iff)
      then have "\<forall>k\<in>set (courses pa). k < Suc (length (course_objs h))
          \<and> course_instructor ((course_objs h @ [Course_init cn cc i u]) ! k) \<in> set ins" for cn cc u
        by (auto simp: nth_append)
      with Inr Some assms i show ?thesis
        by (simp add: w staffed_def attempt_def list_all_iff Course_init_def split: sum.splits)
    qed
  qed
qed

lemma load_courses_staffed:
  assumes "instructors (fst w) = ins" and "instructor_objs (snd w) = io"
  shows "staffed ins io (final (load_courses data w))"
proof -
  obtain pa h where w: "w = (pa, h)" by (cases w)
  from assms have s0: "staffed ins io (pa\<lparr>courses := []\<rparr>, h)" by (simp add: staffed_def w)
  have "\<And>items. staffed ins io (final (for_each load_course items (pa\<lparr>courses := []\<rparr>, h)))"
    by (rule for_each_invariant [where P = "staffed ins io"]) (simp_all add: load_course_staffed s0)
  with s0 show ?thesis by (simp add: w attempt_def split: sum.splits)
qed

lemma load_students_staffed:
  assumes "staffed ins io w"
  shows "staffed ins io (final (load_students data w))"
  using assms by (cases w) (simp add: staffed_def attempt_def split: sum.splits)

lemma load_enrollment_staffed:
  assumes "staffed ins io w"
  shows "staffed ins io (final (load_enrollment x w))"
  using assms
  by (cases w)
     (auto simp: staffed_def attempt_def link_def andthen_def nth_update_field list_all_iff
           split: sum.splits option.splits)

lemma load_enrollments_staffed:
  assumes "staffed ins io w"
  shows "staffed ins io (final (load_enrollments data w))"
proof -
  obtain pa h where w: "w = (pa, h)" by (cases w)
  from assms have s0: "staffed ins io (pa\<lparr>enrollments := []\<rparr>, h)" by (simp add: staffed_def w)
  have "\<And>items. staffed ins io (final (for_each load_enrollment items (pa\<lparr>enrollments := []\<rparr>, h)))"
    by (rule for_each_invariant [where P = "staffed ins io"]) (simp_all add: load_enrollment_staffed s0)
  with s0 show ?thesis by (simp add: w attempt_def split: sum.splits)
qed

lemma load_schedule_staffed:
  assumes "staffed ins io w"
  shows "staffed ins io (final (load_schedule x w))"
  using assms
  by (cases w)
     (auto simp: staffed_def attempt_def nth_update_field list_all_iff
           split: sum.splits option.splits)

lemma load_schedules_staffed:
  assumes "staffed ins io w"
  shows "staffed ins io (final (load_schedules data w))"
proof -
  obtain pa h where w: "w = (pa, h)" by (cases w)
  from assms have s0: "staffed ins io (pa, h)" by (simp add: w)
  have "\<And>items. staffed ins io (final (for_each load_schedule items (pa, h)))"
    by (rule for_each_invariant [where P = "staffed ins io"]) (simp_all add: load_schedule_staffed s0)
  with s0 show ?thesis by (simp add: w attempt_def split: sum.splits)
qed

lemma load_phases_staffed:
  assumes p1: "load_instructors data w = Outcome (pa1, h1) [] None"
  shows "staffed (instructors pa1) (instructor_objs h1) (final (load_phases data w))"
proof -
  let ?P = "staffed (instructors pa1) (instructor_objs h1)"
  let ?r2 = "andthen (load_instructors data w) (load_courses data)"
  have f2: "final ?r2 = final (load_courses data (pa1, h1))" by (simp add: p1 del: load_courses.simps)
  have s2: "?P (final ?r2)" unfolding f2 by (rule load_courses_staffed) simp_all
  let ?r3 = "andthen ?r2 (load_students data)"
  have s3: "?P (final ?r3)"
    using s2 by (simp add: final_andthen load_students_staffed split: option.splits)
  let ?r4 = "andthen ?r3 (load_enrollments data)"
  have s4: "?P (final ?r4)"
    using s3 by (simp add: final_andthen load_enrollments_staffed split: option.splits)
  have "?P (final (andthen ?r4 (load_schedules data)))"
    using s4 by (simp add: final_andthen load_schedules_staffed split: option.splits)
  then show ?thesis by (simp add: load_phases_def)
qed

lemma Instructor_kwargs_Inl: "Instructor_kwargs x = Inl e \<Longrightarrow> e = TypeError"
  by (auto simp: Instructor_kwargs_def kwarg_def Instructor_init_def bind_err_def
        split: pyval.splits if_splits option.splits)

lemma map_raising_Inl_elem:
  "map_raising f xs = Inl e \<Longrightarrow> \<exists>x\<in>set xs. f x = Inl e"
proof (induction xs)
  case Nil
  then show ?case by simp
next
  case (Cons y ys)
  then show ?case
    by (cases "f y"; cases "map_raising f ys") auto
qed

lemma Instructor_kwargs_extra_key:
  "fmlookup r ''courses_taught'' = Some v \<Longrightarrow> Instructor_kwargs (PDict r) = Inl TypeError"
proof -
  assume "fmlookup r ''courses_taught'' = Some v"
  then have "''courses_taught'' |\<in>| fmdom r" by (simp add: fmdomI)
  then have "\<not> fmdom r |\<subseteq>|
      {|''name'', ''email'', ''contact_number'', ''address'', ''instructor_id'', ''role''|}"
    by auto
  then show ?thesis by (simp add: Instructor_kwargs_def)
qed

subsection \<open>The load of a well-formed document\<close>

lemma has_keys_subscript:
  "has_keys ks x \<Longrightarrow> k \<in> set ks \<Longrightarrow> py_subscript x k = Inr (record_get x k)"
  by (cases x) (auto simp: has_keys_def record_get_def list_all_iff)

lemma has_keys_get:
  "has_keys ks x \<Longrightarrow> k \<in> set ks \<Longrightarrow> py_get x k dflt = Inr (record_get x k)"
  by (cases x) (auto simp: has_keys_def record_get_def list_all_iff)

lemma has_keys_get_any:
  "has_keys ks x \<Longrightarrow> \<exists>v. py_get x k dflt = Inr v"
  by (cases x) (auto simp: has_keys_def)

lemma has_keys_get_None:
  "has_keys ks x \<Longrightarrow> py_get x k PNone = Inr (record_get x k)"
  by (cases x) (auto simp: has_keys_def record_get_def)

lemma upt_cons_shift: "[n ..< n + Suc k] = n # [Suc n ..< Suc n + k]"
  by (metis add_Suc_right add_Suc less_add_Suc1 upt_conv_Cons)

lemma load_course_ok:
  assumes "course_record_ok (instructors pa) (instructor_objs h) x"
  shows "\<exists>i. i \<in> set (instructors pa)
       \<and> load_course x (pa, h)
           = Outcome (pa\<lparr>courses := courses pa @ [length (course_objs h)]\<rparr>,
                      h\<lparr>course_objs := course_objs h @
                          [Course_init (record_get x ''course_name'') (record_get x ''course_code'') i
                             (record_get x ''units'')]\<rparr>) [] None"
proof -
  from assms have hk: "has_keys [''course_name'', ''course_code'', ''units''] x"
    and ex: "list_ex (\<lambda>i. instructor_id (instructor_objs h ! i) = record_get x ''instructor_id'')
               (instructors pa)"
    by (simp_all add: course_record_ok_def)
  from ex obtain i where
    f: "find (\<lambda>i. instructor_id (instructor_objs h ! i) = record_get x ''instructor_id'')
          (instructors pa) = Some i"
    by (cases "find (\<lambda>i. instructor_id (instructor_objs h ! i) = record_get x ''instructor_id'')
          (instructors pa)") (auto simp: find_None_iff list_ex_iff)
  then have i: "i \<in> set (instructors pa)" by (auto simp: find_Some_iff)
  have "load_course x (pa, h)
           = Outcome (pa\<lparr>courses := courses pa @ [length (course_objs h)]\<rparr>,
                      h\<lparr>course_objs := course_objs h @
                          [Course_init (record_get x ''course_name'') (record_get x ''course_code'') i
                             (record_get x ''units'')]\<rparr>) [] None"
    by (simp add: has_keys_get_None [OF hk] f has_keys_subscript [OF hk])
  with i show ?thesis by blast
qed

lemma for_each_load_course_ok:
  assumes "list_all (course_record_ok (instructors pa) (instructor_objs h)) recs"
  shows "\<exists>objs. for_each load_course recs (pa, h)
           = Outcome (pa\<lparr>courses := courses pa @
                          [length (course_objs h) ..< length (course_objs h) + length recs]\<rparr>,
                      h\<lparr>course_objs := course_objs h @ objs\<rparr>) [] None
       \<and> list_all2 (\<lambda>x ob. course_name ob = record_get x ''course_name''
                          \<and> course_code ob = record_get x ''course_code''
                          \<and> units ob = record_get x ''units''
                          \<and> course_instructor ob \<in> set (instructors pa)
                          \<and> enrolled_students ob = [] \<and> course_schedule ob = None) recs objs"
  using assms
proof (induction recs arbitrary: pa h)
  case Nil
  show ?case by (rule exI [where x = "[]"]) simp
next
  case (Cons x recs)
  from Cons.prems have okx: "course_record_ok (instructors pa) (instructor_objs h) x"
    and okr: "list_all (course_record_ok (instructors pa) (instructor_objs h)) recs" by simp_all
  from load_course_ok [OF okx] obtain i where i: "i \<in> set (instructors pa)"
    and lx: "load_course x (pa, h)
           = Outcome (pa\<lparr>courses := courses pa @ [length (course_objs h)]\<rparr>,
                      h\<lparr>course_objs := course_objs h @
                          [Course_init (record_get x ''course_name'') (record_get x ''course_code'') i
                             (record_get x ''units'')]\<rparr>) [] None" by blast
  let ?ob = "Course_init (record_get x ''course_name'') (record_get x ''course_code'') i
                             (record_get x ''units'')"
  let ?pa1 = "pa\<lparr>courses := courses pa @ [length (course_objs h)]\<rparr>"
  let ?h1 = "h\<lparr>course_objs := course_objs h @ [?ob]\<rparr>"
  have "list_all (course_record_ok (instructors ?pa1) (instructor_objs ?h1)) recs"
    using okr by simp
  from Cons.IH [OF this] obtain objs where
    r: "for_each load_course recs (?pa1, ?h1)
           = Outcome (?pa1\<lparr>courses := courses ?pa1 @
                          [length (course_objs ?h1) ..< length (course_objs ?h1) + length recs]\<rparr>,
                      ?h1\<lparr>course_objs := course_objs ?h1 @ objs\<rparr>) [] None"
    and l2: "list_all2 (\<lambda>x ob. course_name ob = record_get x ''course_name''
                          \<and> course_code ob = record_get x ''course_code''
                          \<and> units ob = record_get x ''units''
                          \<and> course_instructor ob \<in> set (instructors ?pa1)
                          \<and> enrolled_students ob = [] \<and> course_schedule ob = None) recs objs"
    by blast
  have upt: "[length (course_objs h)] @ [Suc (length (course_objs h)) ..< Suc (length (course_objs h)) + length recs]
      = [length (course_objs h) ..< length (course_objs h) + length (x # recs)]"
    using upt_cons_shift [of "length (course_objs h)" "length recs"] by simp
  have "for_each load_course (x # recs) (pa, h)
      = Outcome (pa\<lparr>courses := courses pa @
                          [length (course_objs h) ..< length (course_objs h) + length (x # recs)]\<rparr>,
                      h\<lparr>course_objs := course_objs h @ (?ob # objs)\<rparr>) [] None"
    using upt by (simp add: lx r del: load_course.simps)
  moreover have "list_all2 (\<lambda>x ob. course_name ob = record_get x ''course_name''
                          \<and> course_code ob = record_get x ''course_code''
                          \<and> units ob = record_get x ''units''
                          \<and> course_instructor ob \<in> set (instructors pa)
                          \<and> enrolled_students ob = [] \<and> course_schedule ob = None)
                 (x # recs) (?ob # objs)"
    using l2 i by (simp add: Course_init_def)
  ultimately show ?case by blast
qed

lemma Student_enroll_core: "(Student_enroll c s)\<lparr>enrolled_courses := []\<rparr> = s\<lparr>enrolled_courses := []\<rparr>"
  by (simp add: Student_enroll_def)

lemma next_by_key_ok:
  "has_keys [k] x \<Longrightarrow> next_by_key key_of objs x k = Inr (find (\<lambda>r. key_of r = record_get x k) objs)"
  by (simp add: next_by_key_def has_keys_subscript)

lemma enroll_listed_ok:
  assumes "list_all (has_keys [''course_code'']) es"
  shows "\<exists>s'. enroll_listed h cs es s = Inr s'
       \<and> s'\<lparr>enrolled_courses := []\<rparr> = s\<lparr>enrolled_courses := []\<rparr>"
  using assms
proof (induction es arbitrary: s)
  case Nil
  then show ?case by simp
next
  case (Cons e es)
  then have e: "has_keys [''course_code''] e" and es: "list_all (has_keys [''course_code'']) es"
    by simp_all
  let ?s1 = "case find (\<lambda>r. course_code (course_objs h ! r) = record_get e ''course_code'') cs of
               None \<Rightarrow> s | Some c \<Rightarrow> Student_enroll c s"
  from Cons.IH [OF es, of ?s1] obtain s' where
    1: "enroll_listed h cs es ?s1 = Inr s'"
    and 2: "s'\<lparr>enrolled_courses := []\<rparr> = ?s1\<lparr>enrolled_courses := []\<rparr>" by blast
  have "?s1\<lparr>enrolled_courses := []\<rparr> = s\<lparr>enrolled_courses := []\<rparr>"
    by (simp add: Student_enroll_core split: option.splits)
  with 1 2 show ?case by (simp add: next_by_key_ok [OF e])
qed

lemma Student_from_dict_ok:
  assumes "student_record_ok x"
  shows "\<exists>s. Student_from_dict h x cs = Inr s \<and> student_id s = record_get x ''student_id''"
proof -
  let ?ks = "[''name'', ''email'', ''contact_number'', ''address'', ''student_id'', ''year_level'',
                ''program'']"
  from assms have hk: "has_keys ?ks x" by (simp add: student_record_ok_def)
  from assms obtain es where es: "py_get x ''enrolled_courses'' (PList []) = Inr (PList es)"
    and ok: "list_all (has_keys [''course_code'']) es"
    by (auto simp: student_record_ok_def split: sum.splits pyval.splits)
  from has_keys_get_any [OF hk] obtain g where g: "py_get x ''gpa'' (PNum 0) = Inr g" by blast
  from has_keys_get_any [OF hk] obtain bd where bd: "py_get x ''birth_date'' PNone = Inr bd" by blast
  let ?s0 = "\<lparr> name = record_get x ''name'', email = record_get x ''email'',
       contact_number = record_get x ''contact_number'', address = record_get x ''address'',
       student_id = record_get x ''student_id'', year_level = record_get x ''year_level'',
       program = record_get x ''program'', gpa = g, birth_date = bd,
       student_role = PStr ''Student'', enrolled_courses = [] \<rparr>"
  from enroll_listed_ok [OF ok, of h cs ?s0] obtain s' where
    1: "enroll_listed h cs es ?s0 = Inr s'"
    and 2: "s'\<lparr>enrolled_courses := []\<rparr> = ?s0\<lparr>enrolled_courses := []\<rparr>" by blast
  have "Student_from_dict h x cs = Inr s'"
    by (simp add: Student_from_dict_def has_keys_subscript [OF hk] g bd es Student_init_def 1)
  moreover have "student_id (s'\<lparr>enrolled_courses := []\<rparr>) = record_get x ''student_id''"
    unfolding 2 by simp
  then have "student_id s' = record_get x ''student_id''" by simp
  ultimately show ?thesis by blast
qed

lemma map_raising_ok:
  assumes "\<forall>x\<in>set xs. \<exists>y. f x = Inr y \<and> Q x y"
  shows "\<exists>ys. map_raising f xs = Inr ys \<and> list_all2 Q xs ys"
  using assms
proof (induction xs)
  case Nil
  then show ?case by simp
next
  case (Cons x xs)
  then obtain y ys where "f x = Inr y" "Q x y" "map_raising f xs = Inr ys" "list_all2 Q xs ys"
    by auto
  then show ?case by simp
qed

lemma load_students_ok:
  assumes "py_get data ''students'' (PList []) = Inr (PList srecs)"
    and "list_all student_record_ok srecs"
  shows "\<exists>sobjs. load_students data (pa, h)
           = Outcome (pa\<lparr>students := [length (student_objs h) ..< length (student_objs h) + length srecs]\<rparr>,
                      h\<lparr>student_objs := student_objs h @ sobjs\<rparr>) [] None
       \<and> list_all2 (\<lambda>x s. student_id s = record_get x ''student_id'') srecs sobjs"
proof -
  have "\<forall>x\<in>set srecs. \<exists>s. Student_from_dict h x (courses pa) = Inr s
          \<and> student_id s = record_get x ''student_id''"
    using assms(2) by (auto simp: list_all_iff intro: Student_from_dict_ok)
  from map_raising_ok [OF this] obtain sobjs where
    1: "map_raising (\<lambda>sd. Student_from_dict h sd (courses pa)) srecs = Inr sobjs"
    and 2: "list_all2 (\<lambda>x s. student_id s = record_get x ''student_id'') srecs sobjs" by blast
  from 2 have "length sobjs = length srecs" by (simp add: list_all2_lengthD)
  with 1 have "load_students data (pa, h)
           = Outcome (pa\<lparr>students := [length (student_objs h) ..< length (student_objs h) + length srecs]\<rparr>,
                      h\<lparr>student_objs := student_objs h @ sobjs\<rparr>) [] None"
    by (simp add: assms(1))
  with 2 show ?thesis by blast
qed

lemma frame4_refl: "frame4 w w"
  by (simp add: frame4_def)

lemma frame4_trans: "frame4 w w' \<Longrightarrow> frame4 w' w'' \<Longrightarrow> frame4 w w''"
  by (simp add: frame4_def)

lemma frame4_fields:
  assumes "frame4 w w'"
  shows "student_id (student_objs (snd w') ! k) = student_id (student_objs (snd w) ! k)"
    and "course_code (course_objs (snd w') ! k) = course_code (course_objs (snd w) ! k)"
    and "course_name (course_objs (snd w') ! k) = course_name (course_objs (snd w) ! k)"
    and "units (course_objs (snd w') ! k) = units (course_objs (snd w) ! k)"
    and "course_schedule (course_objs (snd w') ! k) = course_schedule (course_objs (snd w) ! k)"
proof -
  from assms have s: "(student_objs (snd w') ! k)\<lparr>enrolled_courses := []\<rparr>
               = (student_objs (snd w) ! k)\<lparr>enrolled_courses := []\<rparr>"
    and c: "(course_objs (snd w') ! k)\<lparr>enrolled_students := []\<rparr>
               = (course_objs (snd w) ! k)\<lparr>enrolled_students := []\<rparr>"
    by (simp_all add: frame4_def)
  have "student_id ((student_objs (snd w') ! k)\<lparr>enrolled_courses := []\<rparr>)
      = student_id ((student_objs (snd w) ! k)\<lparr>enrolled_courses := []\<rparr>)" by (simp only: s)
  then show "student_id (student_objs (snd w') ! k) = student_id (student_objs (snd w) ! k)" by simp
  have "course_code ((course_objs (snd w') ! k)\<lparr>enrolled_students := []\<rparr>)
      = course_code ((course_objs (snd w) ! k)\<lparr>enrolled_students := []\<rparr>)" by (simp only: c)
  then show "course_code (course_objs (snd w') ! k) = course_code (course_objs (snd w) ! k)" by simp
  have "course_name ((course_objs (snd w') ! k)\<lparr>enrolled_students := []\<rparr>)
      = course_name ((course_objs (snd w) ! k)\<lparr>enrolled_students := []\<rparr>)" by (simp only: c)
  then show "course_name (course_objs (snd w') ! k) = course_name (course_objs (snd w) ! k)" by simp
  have "units ((course_objs (snd w') ! k)\<lparr>enrolled_students := []\<rparr>)
      = units ((course_objs (snd w) ! k)\<lparr>enrolled_students := []\<rparr>)" by (simp only: c)
  then show "units (course_objs (snd w') ! k) = units (course_objs (snd w) ! k)" by simp
  have "course_schedule ((course_objs (snd w') ! k)\<lparr>enrolled_students := []\<rparr>)
      = course_schedule ((course_objs (snd w) ! k)\<lparr>enrolled_students := []\<rparr>)" by (simp only: c)
  then show "course_schedule (course_objs (snd w') ! k) = course_schedule (course_objs (snd w) ! k)"
    by simp
qed

lemma frame4_resolution:
  assumes "frame4 w w'"
  shows "student_by_id w' v = student_by_id w v" and "course_by_code w' v = course_by_code w v"
proof -
  from assms have l: "students (fst w') = students (fst w)" "courses (fst w') = courses (fst w)"
    by (simp_all add: frame4_def)
  show "student_by_id w' v = student_by_id w v"
    by (simp add: student_by_id_def l frame4_fields(1) [OF assms])
  show "course_by_code w' v = course_by_code w v"
    by (simp add: course_by_code_def l frame4_fields(2) [OF assms])
qed

lemma frame4_valid: "frame4 w w' \<Longrightarrow> valid_refs w \<Longrightarrow> valid_refs w'"
  by (simp add: frame4_def valid_refs_def)

lemma load_enrollment_record:
  assumes "enrollment_record_ok x"
  shows "load_enrollment x (pa, h) =
     (case (student_by_id (pa, h) (record_get x ''student_id''),
            course_by_code (pa, h) (record_get x ''course_code'')) of
        (Some s, Some c) \<Rightarrow> Outcome (pa, link s c h) [] None
      | (Some s, None) \<Rightarrow> Outcome (pa, h) [WarnCourseNotFound (record_get x ''course_code'')] None
      | (None, Some c) \<Rightarrow> Outcome (pa, h) [WarnStudentNotFound (record_get x ''student_id'')] None
      | (None, None) \<Rightarrow> Outcome (pa, h)
          [WarnStudentNotFound (record_get x ''student_id''),
           WarnCourseNotFound (record_get x ''course_code'')] None)"
proof -
  from assms have hk: "has_keys [''student_id'', ''course_code''] x"
    by (simp add: enrollment_record_ok_def)
  then have k1: "has_keys [''student_id''] x" and k2: "has_keys [''course_code''] x"
    by (auto simp: has_keys_def split: pyval.splits)
  show ?thesis
    by (simp add: next_by_key_ok [OF k1] next_by_key_ok [OF k2] has_keys_subscript [OF hk]
          student_by_id_def course_by_code_def split: option.splits)
qed

lemma load_enrollment_no_raise:
  "enrollment_record_ok x \<Longrightarrow> raised (load_enrollment x w) = None"
  by (cases w) (simp add: load_enrollment_record del: load_enrollment.simps split: option.splits)

lemma link_frame4: "frame4 (pa, h) (pa, link s c h)"
  by (simp add: frame4_def link_def nth_update_field Student_enroll_core)

lemma load_enrollment_frame4: "frame4 w (final (load_enrollment x w))"
proof -
  obtain pa h where w: "w = (pa, h)" by (cases w)
  show ?thesis
    unfolding w
    by (auto simp: attempt_def andthen_def frame4_refl link_frame4 split: sum.splits option.splits)
qed

lemma for_each_load_enrollment_frame4: "frame4 w (final (for_each load_enrollment xs w))"
  by (rule for_each_invariant [where P = "frame4 w"])
     (auto intro: frame4_trans load_enrollment_frame4 frame4_refl)

lemma for_each_no_raise:
  assumes "\<And>x s. x \<in> set xs \<Longrightarrow> raised (body x s) = None"
  shows "raised (for_each body xs s) = None"
  using assms
proof (induction xs arbitrary: s)
  case Nil
  then show ?case by simp
next
  case (Cons x xs)
  then show ?case by (simp add: andthen_def)
qed

lemma nth_update_pred:
  assumes "P (xs ! k)" and "P (xs ! i) \<Longrightarrow> P y"
  shows "P (xs[i := y] ! k)"
proof (cases "i < length xs \<and> k = i")
  case True
  with assms show ?thesis by simp
next
  case False
  with assms(1) show ?thesis by (cases "k = i") (simp_all add: list_update_beyond)
qed

lemma link_linked:
  assumes "s < length (student_objs h)" and "c < length (course_objs h)"
  shows "linked (pa, link s c h) s c"
  using assms by (simp add: linked_def link_def Student_enroll_def)

lemma link_mono:
  assumes "linked (pa, h) s c"
  shows "linked (pa, link s' c' h) s c"
proof -
  from assms have a: "s \<in> set (enrolled_students (course_objs h ! c))"
    and b: "c \<in> set (enrolled_courses (student_objs h ! s))" by (simp_all add: linked_def)
  have "s \<in> set (enrolled_students ((course_objs h)
         [c' := (course_objs h ! c')\<lparr>enrolled_students := enrolled_students (course_objs h ! c') @ [s']\<rparr>] ! c))"
    by (rule nth_update_pred [where P = "\<lambda>co. s \<in> set (enrolled_students co)"]) (simp_all add: a)
  moreover have "c \<in> set (enrolled_courses ((student_objs h)
         [s' := Student_enroll c' (student_objs h ! s')] ! s))"
    by (rule nth_update_pred [where P = "\<lambda>st. c \<in> set (enrolled_courses st)"])
       (simp_all add: b Student_enroll_def)
  ultimately show ?thesis by (simp add: linked_def link_def)
qed

lemma load_enrollment_mono:
  assumes "linked w s c"
  shows "linked (final (load_enrollment x w)) s c"
proof -
  obtain pa h where w: "w = (pa, h)" by (cases w)
  from assms show ?thesis
    unfolding w
    by (auto simp: attempt_def andthen_def link_mono split: sum.splits option.splits)
qed

lemma load_enrollment_links:
  assumes ok: "enrollment_record_ok x" and v: "valid_refs w"
    and s: "student_by_id w (record_get x ''student_id'') = Some s"
    and c: "course_by_code w (record_get x ''course_code'') = Some c"
  shows "linked (final (load_enrollment x w)) s c"
proof -
  obtain pa h where w: "w = (pa, h)" by (cases w)
  from s have "s \<in> set (students pa)" by (auto simp: student_by_id_def w find_Some_iff)
  with v have sl: "s < length (student_objs h)" by (simp add: valid_refs_def w list_all_iff)
  from c have "c \<in> set (courses pa)" by (auto simp: course_by_code_def w find_Some_iff)
  with v have cl: "c < length (course_objs h)" by (simp add: valid_refs_def w list_all_iff)
  have "load_enrollment x (pa, h) = Outcome (pa, link s c h) [] None"
    using s c by (simp add: load_enrollment_record [OF ok] w del: load_enrollment.simps)
  then show ?thesis by (simp add: w link_linked [OF sl cl] del: load_enrollment.simps)
qed

lemma enrollments_loop:
  assumes ok: "list_all enrollment_record_ok erecs" and v: "valid_refs w"
  shows "raised (for_each load_enrollment erecs w) = None"
    and "frame4 w (final (for_each load_enrollment erecs w))"
    and "\<forall>e\<in>set erecs. \<forall>s c.
           student_by_id w (record_get e ''student_id'') = Some s
           \<longrightarrow> course_by_code w (record_get e ''course_code'') = Some c
           \<longrightarrow> linked (final (for_each load_enrollment erecs w)) s c"
proof -
  show "raised (for_each load_enrollment erecs w) = None"
    using ok by (intro for_each_no_raise load_enrollment_no_raise) (simp add: list_all_iff)
  show "frame4 w (final (for_each load_enrollment erecs w))"
    by (rule for_each_load_enrollment_frame4)
  show "\<forall>e\<in>set erecs. \<forall>s c.
           student_by_id w (record_get e ''student_id'') = Some s
           \<longrightarrow> course_by_code w (record_get e ''course_code'') = Some c
           \<longrightarrow> linked (final (for_each load_enrollment erecs w)) s c"
  proof (intro ballI allI impI)
    fix e s c
    assume e: "e \<in> set erecs"
      and s: "student_by_id w (record_get e ''student_id'') = Some s"
      and c: "course_by_code w (record_get e ''course_code'') = Some c"
    from e obtain xs ys where sp: "erecs = xs @ e # ys" by (auto dest: split_list)
    let ?wx = "final (for_each load_enrollment xs w)"
    have okx: "list_all enrollment_record_ok xs" and oke: "enrollment_record_ok e"
      using ok sp by simp_all
    have rx: "raised (for_each load_enrollment xs w) = None"
      using okx by (intro for_each_no_raise load_enrollment_no_raise) (simp add: list_all_iff)
    have fx: "frame4 w ?wx" by (rule for_each_load_enrollment_frame4)
    have re: "raised (load_enrollment e ?wx) = None" by (rule load_enrollment_no_raise [OF oke])
    have fin: "final (for_each load_enrollment erecs w)
        = final (for_each load_enrollment ys (final (load_enrollment e ?wx)))"
      unfolding sp for_each_append using rx re by (simp add: andthen_def del: load_enrollment.simps)
    have l1: "linked (final (load_enrollment e ?wx)) s c"
      by (rule load_enrollment_links [OF oke frame4_valid [OF fx v]])
         (simp_all add: frame4_resolution [OF fx] s c)
    have "linked (final (for_each load_enrollment ys (final (load_enrollment e ?wx)))) s c"
      by (rule for_each_invariant [where P = "\<lambda>w. linked w s c"])
         (simp_all add: load_enrollment_mono l1 del: load_enrollment.simps)
    then show "linked (final (for_each load_enrollment erecs w)) s c" by (simp only: fin)
  qed
qed

lemma frame5_refl: "frame5 w w"
  by (simp add: frame5_def)

lemma frame5_trans: "frame5 w w' \<Longrightarrow> frame5 w' w'' \<Longrightarrow> frame5 w w''"
  by (simp add: frame5_def)

lemma frame5_fields:
  assumes "frame5 w w'"
  shows "course_code (course_objs (snd w') ! k) = course_code (course_objs (snd w) ! k)"
    and "course_name (course_objs (snd w') ! k) = course_name (course_objs (snd w) ! k)"
    and "units (course_objs (snd w') ! k) = units (course_objs (snd w) ! k)"
    and "enrolled_students (course_objs (snd w') ! k) = enrolled_students (course_objs (snd w) ! k)"
proof -
  from assms have c: "(course_objs (snd w') ! k)\<lparr>course_schedule := None\<rparr>
               = (course_objs (snd w) ! k)\<lparr>course_schedule := None\<rparr>"
    by (simp add: frame5_def)
  have "course_code ((course_objs (snd w') ! k)\<lparr>course_schedule := None\<rparr>)
      = course_code ((course_objs (snd w) ! k)\<lparr>course_schedule := None\<rparr>)" by (simp only: c)
  then show "course_code (course_objs (snd w') ! k) = course_code (course_objs (snd w) ! k)" by simp
  have "course_name ((course_objs (snd w') ! k)\<lparr>course_schedule := None\<rparr>)
      = course_name ((course_objs (snd w) ! k)\<lparr>course_schedule := None\<rparr>)" by (simp only: c)
  then show "course_name (course_objs (snd w') ! k) = course_name (course_objs (snd w) ! k)" by simp
  have "units ((course_objs (snd w') ! k)\<lparr>course_schedule := None\<rparr>)
      = units ((course_objs (snd w) ! k)\<lparr>course_schedule := None\<rparr>)" by (simp only: c)
  then show "units (course_objs (snd w') ! k) = units (course_objs (snd w) ! k)" by simp
  have "enrolled_students ((course_objs (snd w') ! k)\<lparr>course_schedule := None\<rparr>)
      = enrolled_students ((course_objs (snd w) ! k)\<lparr>course_schedule := None\<rparr>)" by (simp only: c)
  then show "enrolled_students (course_objs (snd w') ! k) = enrolled_students (course_objs (snd w) ! k)"
    by simp
qed

lemma frame5_resolution:
  assumes "frame5 w w'"
  shows "student_by_id w' v = student_by_id w v" and "course_by_code w' v = course_by_code w v"
proof -
  from assms have l: "fst w' = fst w" "student_objs (snd w') = student_objs (snd w)"
    by (simp_all add: frame5_def)
  show "student_by_id w' v = student_by_id w v" by (simp add: student_by_id_def l)
  show "course_by_code w' v = course_by_code w v"
    by (simp add: course_by_code_def l frame5_fields(1) [OF assms])
qed

lemma frame5_valid: "frame5 w w' \<Longrightarrow> valid_refs w \<Longrightarrow> valid_refs w'"
  by (simp add: frame5_def valid_refs_def)

lemma frame5_linked: "frame5 w w' \<Longrightarrow> linked w s c \<Longrightarrow> linked w' s c"
  by (simp add: linked_def frame5_fields(4)) (simp add: frame5_def)

lemma load_schedule_record:
  assumes "schedule_record_ok x"
  shows "load_schedule x (pa, h) =
     (case course_by_code (pa, h) (record_get x ''course_code'') of
        Some c \<Rightarrow>
          Outcome (pa, h\<lparr>course_objs := (course_objs h)
              [c := (course_objs h ! c)\<lparr>course_schedule :=
                 Some \<lparr> schedule_course = c, schedule_day = record_get x ''day'',
                        schedule_time = record_get x ''time'' \<rparr>\<rparr>]\<rparr>) [] None
      | None \<Rightarrow> Outcome (pa, h) [WarnScheduleCourseNotFound (record_get x ''course_code'')] None)"
proof -
  from assms have hk: "has_keys [''course_code'', ''day'', ''time''] x"
    by (simp add: schedule_record_ok_def)
  then have k1: "has_keys [''course_code''] x"
    by (auto simp: has_keys_def split: pyval.splits)
  show ?thesis
    by (simp add: next_by_key_ok [OF k1] has_keys_subscript [OF hk] course_by_code_def
          split: option.splits)
qed

lemma load_schedule_no_raise:
  "schedule_record_ok x \<Longrightarrow> raised (load_schedule x w) = None"
  by (cases w) (simp add: load_schedule_record del: load_schedule.simps split: option.splits)

lemma load_schedule_frame5: "frame5 w (final (load_schedule x w))"
proof -
  obtain pa h where w: "w = (pa, h)" by (cases w)
  show ?thesis
    unfolding w
    by (auto simp: attempt_def frame5_def nth_update_field split: sum.splits option.splits)
qed

lemma for_each_load_schedule_frame5: "frame5 w (final (for_each load_schedule xs w))"
  by (rule for_each_invariant [where P = "frame5 w"])
     (auto intro: frame5_trans load_schedule_frame5 frame5_refl)

lemma schedules_loop:
  assumes ok: "list_all schedule_record_ok recs" and v: "valid_refs w"
  shows "\<forall>c\<in>set (courses (fst w)).
           course_schedule (course_objs (snd (final (for_each load_schedule recs w))) ! c)
             = (case find (\<lambda>r. course_by_code w (record_get r ''course_code'') = Some c) (rev recs) of
                  None \<Rightarrow> course_schedule (course_objs (snd w) ! c)
                | Some r \<Rightarrow> Some \<lparr> schedule_course = c, schedule_day = record_get r ''day'',
                                  schedule_time = record_get r ''time'' \<rparr>)"
  using ok
proof (induction recs rule: rev_induct)
  case Nil
  show ?case by simp
next
  case (snoc x xs)
  then have okx: "schedule_record_ok x" and okxs: "list_all schedule_record_ok xs" by simp_all
  let ?wx = "final (for_each load_schedule xs w)"
  obtain pax hx where wx: "?wx = (pax, hx)" by (cases ?wx)
  have rx: "raised (for_each load_schedule xs w) = None"
    using okxs by (intro for_each_no_raise load_schedule_no_raise) (simp add: list_all_iff)
  have fx: "frame5 w ?wx" by (rule for_each_load_schedule_frame5)
  have fin: "final (for_each load_schedule (xs @ [x]) w) = final (load_schedule x ?wx)"
    unfolding for_each_append using rx
    by (simp add: andthen_def load_schedule_no_raise [OF okx] del: load_schedule.simps)
  have res: "course_by_code (pax, hx) (record_get x ''course_code'')
      = course_by_code w (record_get x ''course_code'')"
    using frame5_resolution(2) [OF fx] by (simp add: wx)
  have vx: "valid_refs (pax, hx)" using frame5_valid [OF fx v] by (simp add: wx)
  have pax: "courses pax = courses (fst w)" using fx by (simp add: frame5_def wx)
  show ?case
  proof
    fix c assume c: "c \<in> set (courses (fst w))"
    from snoc.IH [OF okxs] c have IH:
      "course_schedule (course_objs hx ! c)
         = (case find (\<lambda>r. course_by_code w (record_get r ''course_code'') = Some c) (rev xs) of
              None \<Rightarrow> course_schedule (course_objs (snd w) ! c)
            | Some r \<Rightarrow> Some \<lparr> schedule_course = c, schedule_day = record_get r ''day'',
                              schedule_time = record_get r ''time'' \<rparr>)"
      by (simp add: wx)
    show "course_schedule (course_objs (snd (final (for_each load_schedule (xs @ [x]) w))) ! c)
             = (case find (\<lambda>r. course_by_code w (record_get r ''course_code'') = Some c) (rev (xs @ [x])) of
                  None \<Rightarrow> course_schedule (course_objs (snd w) ! c)
                | Some r \<Rightarrow> Some \<lparr> schedule_course = c, schedule_day = record_get r ''day'',
                                  schedule_time = record_get r ''time'' \<rparr>)"
    proof (cases "course_by_code w (record_get x ''course_code'')")
      case None
      then show ?thesis
        by (simp add: fin wx load_schedule_record [OF okx] res IH del: load_schedule.simps)
    next
      case (Some c0)
      then have "c0 \<in> set (courses (fst w))" by (auto simp: course_by_code_def find_Some_iff)
      with vx pax have c0: "c0 < length (course_objs hx)" by (simp add: valid_refs_def list_all_iff)
      show ?thesis
      proof (cases "c = c0")
        case True
        with Some c0 show ?thesis
          by (simp add: fin wx load_schedule_record [OF okx] res del: load_schedule.simps)
      next
        case False
        with Some show ?thesis
          by (simp add: fin wx load_schedule_record [OF okx] res IH del: load_schedule.simps)
      qed
    qed
  qed
qed

lemma list_all2_map_eq:
  assumes "list_all2 Q xs ys" and "\<And>x y. Q x y \<Longrightarrow> f y = g x"
  shows "map f ys = map g xs"
  using assms by (induction xs ys rule: list_all2_induct) simp_all

lemma list_all2_all_right:
  assumes "list_all2 Q xs ys" and "\<And>x y. Q x y \<Longrightarrow> R y"
  shows "list_all R ys"
  using assms by (induction xs ys rule: list_all2_induct) simp_all

lemma map_nth_upt_append:
  "map (\<lambda>k. f ((xs @ ys) ! k)) [length xs ..< length xs + length ys] = map f ys"
proof (rule nth_equalityI)
  show "length (map (\<lambda>k. f ((xs @ ys) ! k)) [length xs ..< length xs + length ys]) = length (map f ys)"
    by simp
next
  fix i assume "i < length (map (\<lambda>k. f ((xs @ ys) ! k)) [length xs ..< length xs + length ys])"
  then have i: "i < length ys" by simp
  then have "[length xs ..< length xs + length ys] ! i = length xs + i" by simp
  with i show "map (\<lambda>k. f ((xs @ ys) ! k)) [length xs ..< length xs + length ys] ! i = map f ys ! i"
    by (simp del: upt_Suc)
qed

lemma nth_upt_append:
  assumes "k \<in> set [length xs ..< length xs + length ys]" and "list_all R ys"
  shows "R ((xs @ ys) ! k)"
proof -
  from assms(1) obtain i where "k = length xs + i" "i < length ys"
    by (auto simp: less_iff_Suc_add le_iff_add)
  with assms(2) show ?thesis by (simp add: list_all_length)
qed

lemma well_formed_document_loaded:
  assumes p1: "load_instructors data w = Outcome (pa1, h1) [] None"
    and crs: "py_get data ''courses'' (PList []) = Inr (PList crecs)"
    and cok: "list_all (course_record_ok (instructors pa1) (instructor_objs h1)) crecs"
    and sts: "py_get data ''students'' (PList []) = Inr (PList srecs)"
    and sok: "list_all student_record_ok srecs"
    and ens: "py_get data ''enrollments'' (PList []) = Inr (PList erecs)"
    and eok: "list_all enrollment_record_ok erecs"
    and scs: "py_get data ''schedules'' (PList []) = Inr (PList screcs)"
    and scok: "list_all schedule_record_ok screcs"
  shows "raised (load_phases data w) = None"
    and "map (\<lambda>k. (course_name (course_objs (snd (final (load_phases data w))) ! k),
                    course_code (course_objs (snd (final (load_phases data w))) ! k),
                    units (course_objs (snd (final (load_phases data w))) ! k)))
           (courses (fst (final (load_phases data w))))
         = map (\<lambda>x. (record_get x ''course_name'', record_get x ''course_code'',
                      record_get x ''units'')) crecs"
    and "map (\<lambda>s. student_id (student_objs (snd (final (load_phases data w))) ! s))
           (students (fst (final (load_phases data w))))
         = map (\<lambda>x. record_get x ''student_id'') srecs"
    and "\<forall>e\<in>set erecs. \<forall>s c.
           student_by_id (final (load_phases data w)) (record_get e ''student_id'') = Some s
           \<longrightarrow> course_by_code (final (load_phases data w)) (record_get e ''course_code'') = Some c
           \<longrightarrow> linked (final (load_phases data w)) s c"
    and "\<forall>c\<in>set (courses (fst (final (load_phases data w)))).
           course_schedule (course_objs (snd (final (load_phases data w))) ! c)
             = (case find (\<lambda>r. course_by_code (final (load_phases data w))
                                  (record_get r ''course_code'') = Some c) (rev screcs) of
                  None \<Rightarrow> None
                | Some r \<Rightarrow> Some \<lparr> schedule_course = c, schedule_day = record_get r ''day'',
                                  schedule_time = record_get r ''time'' \<rparr>)"
proof -
  let ?n = "length (course_objs h1)"
  let ?m = "length (student_objs h1)"
  \<comment> \<open>phase 2\<close>
  have cok0: "list_all (course_record_ok (instructors (pa1\<lparr>courses := []\<rparr>)) (instructor_objs h1)) crecs"
    using cok by simp
  from for_each_load_course_ok [OF cok0] obtain cobjs where
    l2: "for_each load_course crecs (pa1\<lparr>courses := []\<rparr>, h1)
           = Outcome (pa1\<lparr>courses := [?n ..< ?n + length crecs]\<rparr>,
                      h1\<lparr>course_objs := course_objs h1 @ cobjs\<rparr>) [] None"
    and c2: "list_all2 (\<lambda>x ob. course_name ob = record_get x ''course_name''
                          \<and> course_code ob = record_get x ''course_code''
                          \<and> units ob = record_get x ''units''
                          \<and> course_instructor ob \<in> set (instructors (pa1\<lparr>courses := []\<rparr>))
                          \<and> enrolled_students ob = [] \<and> course_schedule ob = None) crecs cobjs"
    by auto
  let ?pa2 = "pa1\<lparr>courses := [?n ..< ?n + length crecs]\<rparr>"
  let ?h2 = "h1\<lparr>course_objs := course_objs h1 @ cobjs\<rparr>"
  have lc: "length cobjs = length crecs" using c2 by (simp add: list_all2_lengthD)
  have ph2: "load_courses data (pa1, h1) = Outcome (?pa2, ?h2) [] None"
    using l2 by (simp add: crs del: py_get.simps)
  \<comment> \<open>phase 3\<close>
  from load_students_ok [OF sts sok, of ?pa2 ?h2] obtain sobjs where
    ph3: "load_students data (?pa2, ?h2)
           = Outcome (?pa2\<lparr>students := [?m ..< ?m + length srecs]\<rparr>,
                      ?h2\<lparr>student_objs := student_objs h1 @ sobjs\<rparr>) [] None"
    and s3: "list_all2 (\<lambda>x s. student_id s = record_get x ''student_id'') srecs sobjs"
    by auto
  let ?pa3 = "?pa2\<lparr>students := [?m ..< ?m + length srecs]\<rparr>"
  let ?h3 = "?h2\<lparr>student_objs := student_objs h1 @ sobjs\<rparr>"
  have ls: "length sobjs = length srecs" using s3 by (simp add: list_all2_lengthD)
  \<comment> \<open>phase 4\<close>
  let ?w3 = "(?pa3\<lparr>enrollments := []\<rparr>, ?h3)"
  let ?r4 = "for_each load_enrollment erecs ?w3"
  have v3: "valid_refs ?w3" by (simp add: valid_refs_def list_all_iff lc ls)
  have ph4: "load_enrollments data (?pa3, ?h3) = ?r4"
    by (simp add: ens del: py_get.simps)
  note e4 = enrollments_loop [OF eok v3]
  let ?w4 = "final ?r4"
  have v4: "valid_refs ?w4" by (rule frame4_valid [OF e4(2) v3])
  \<comment> \<open>phase 5\<close>
  let ?r5 = "for_each load_schedule screcs ?w4"
  have ph5: "load_schedules data ?w4 = ?r5"
    by (cases ?w4) (simp add: scs del: py_get.simps)
  have r5: "raised ?r5 = None"
    using scok by (intro for_each_no_raise load_schedule_no_raise) (simp add: list_all_iff)
  have f5: "frame5 ?w4 (final ?r5)" by (rule for_each_load_schedule_frame5)
  \<comment> \<open>the whole load\<close>
  have a3: "andthen (andthen (load_instructors data w) (load_courses data)) (load_students data)
      = Outcome (?pa3, ?h3) [] None"
    by (simp add: p1 ph2 ph3 del: load_courses.simps load_students.simps)
  have a4: "andthen (Outcome (?pa3, ?h3) [] None) (load_enrollments data)
      = Outcome ?w4 (printed ?r4) None"
    using e4(1) by (simp add: ph4 del: load_enrollments.simps)
  have fin: "final (load_phases data w) = final ?r5" and rs: "raised (load_phases data w) = None"
    unfolding load_phases_def a3 a4 using r5 by (simp_all add: ph5 del: load_schedules.simps)
  show "raised (load_phases data w) = None" by (rule rs)
  let ?w5 = "final (load_phases data w)"
  have f5': "frame5 ?w4 ?w5" using f5 by (simp only: fin)
  have cs5: "courses (fst ?w5) = [?n ..< ?n + length crecs]"
    and ss5: "students (fst ?w5) = [?m ..< ?m + length srecs]"
    using f5' e4(2) by (simp_all add: frame5_def frame4_def)
  have cfield: "course_name (course_objs (snd ?w5) ! k) = course_name ((course_objs h1 @ cobjs) ! k)"
    "course_code (course_objs (snd ?w5) ! k) = course_code ((course_objs h1 @ cobjs) ! k)"
    "units (course_objs (snd ?w5) ! k) = units ((course_objs h1 @ cobjs) ! k)" for k
    using frame5_fields [OF f5', of k] frame4_fields [OF e4(2), of k] by simp_all
  have sfield: "student_id (student_objs (snd ?w5) ! k) = student_id ((student_objs h1 @ sobjs) ! k)" for k
    using f5' frame4_fields(1) [OF e4(2), of k] by (simp add: frame5_def)
  show "map (\<lambda>k. (course_name (course_objs (snd ?w5) ! k),
                    course_code (course_objs (snd ?w5) ! k),
                    units (course_objs (snd ?w5) ! k)))
           (courses (fst ?w5))
         = map (\<lambda>x. (record_get x ''course_name'', record_get x ''course_code'',
                      record_get x ''units'')) crecs"
  proof -
    have "map (\<lambda>k. (course_name ((course_objs h1 @ cobjs) ! k),
                     course_code ((course_objs h1 @ cobjs) ! k),
                     units ((course_objs h1 @ cobjs) ! k))) [?n ..< ?n + length cobjs]
        = map (\<lambda>ob. (course_name ob, course_code ob, units ob)) cobjs"
      by (rule map_nth_upt_append [where f = "\<lambda>ob. (course_name ob, course_code ob, units ob)"])
    also have "\<dots> = map (\<lambda>x. (record_get x ''course_name'', record_get x ''course_code'',
                      record_get x ''units'')) crecs"
      by (rule list_all2_map_eq [OF c2]) simp
    finally show ?thesis by (simp add: cs5 cfield lc)
  qed
  show "map (\<lambda>s. student_id (student_objs (snd ?w5) ! s)) (students (fst ?w5))
         = map (\<lambda>x. record_get x ''student_id'') srecs"
  proof -
    have "map (\<lambda>k. student_id ((student_objs h1 @ sobjs) ! k)) [?m ..< ?m + length sobjs]
        = map student_id sobjs"
      by (rule map_nth_upt_append)
    also have "\<dots> = map (\<lambda>x. record_get x ''student_id'') srecs"
      by (rule list_all2_map_eq [OF s3]) simp
    finally show ?thesis by (simp add: ss5 sfield ls)
  qed
  show "\<forall>e\<in>set erecs. \<forall>s c.
           student_by_id ?w5 (record_get e ''student_id'') = Some s
           \<longrightarrow> course_by_code ?w5 (record_get e ''course_code'') = Some c
           \<longrightarrow> linked ?w5 s c"
  proof (intro ballI allI impI)
    fix e s c
    assume e: "e \<in> set erecs"
      and s: "student_by_id ?w5 (record_get e ''student_id'') = Some s"
      and c: "course_by_code ?w5 (record_get e ''course_code'') = Some c"
    from s have s': "student_by_id ?w3 (record_get e ''student_id'') = Some s"
      by (simp only: frame5_resolution(1) [OF f5'] frame4_resolution(1) [OF e4(2)])
    from c have c': "course_by_code ?w3 (record_get e ''course_code'') = Some c"
      by (simp only: frame5_resolution(2) [OF f5'] frame4_resolution(2) [OF e4(2)])
    from e4(3) e s' c' have "linked ?w4 s c" by blast
    then show "linked ?w5 s c" by (rule frame5_linked [OF f5'])
  qed
  show "\<forall>c\<in>set (courses (fst ?w5)).
           course_schedule (course_objs (snd ?w5) ! c)
             = (case find (\<lambda>r. course_by_code ?w5 (record_get r ''course_code'') = Some c) (rev screcs) of
                  None \<Rightarrow> None
                | Some r \<Rightarrow> Some \<lparr> schedule_course = c, schedule_day = record_get r ''day'',
                                  schedule_time = record_get r ''time'' \<rparr>)"
  proof
    fix c assume c: "c \<in> set (courses (fst ?w5))"
    have c4: "courses (fst ?w4) = [?n ..< ?n + length crecs]"
      using e4(2) by (simp add: frame4_def)
    from c have cin: "c \<in> set [?n ..< ?n + length cobjs]" by (simp only: cs5 lc)
    have "list_all (\<lambda>ob. course_schedule ob = None) cobjs"
      by (rule list_all2_all_right [OF c2]) simp
    from nth_upt_append [OF cin this]
    have "course_schedule ((course_objs h1 @ cobjs) ! c) = None" .
    then have none4: "course_schedule (course_objs (snd ?w4) ! c) = None"
      using frame4_fields(5) [OF e4(2), of c] by simp
    from c have "c \<in> set (courses (fst ?w4))" by (simp only: cs5 c4)
    with schedules_loop [OF scok v4] have
      "course_schedule (course_objs (snd (final ?r5)) ! c)
         = (case find (\<lambda>r. course_by_code ?w4 (record_get r ''course_code'') = Some c) (rev screcs) of
              None \<Rightarrow> course_schedule (course_objs (snd ?w4) ! c)
            | Some r \<Rightarrow> Some \<lparr> schedule_course = c, schedule_day = record_get r ''day'',
                              schedule_time = record_get r ''time'' \<rparr>)" by blast
    then show "course_schedule (course_objs (snd ?w5) ! c)
             = (case find (\<lambda>r. course_by_code ?w5 (record_get r ''course_code'') = Some c) (rev screcs) of
                  None \<Rightarrow> None
                | Some r \<Rightarrow> Some \<lparr> schedule_course = c, schedule_day = record_get r ''day'',
                                  schedule_time = record_get r ''time'' \<rparr>)"
      by (simp only: fin [symmetric] none4 frame5_resolution(2) [OF f5'])
  qed
qed

section \<open>The claims\<close>

text \<open>
  C1 (save, then load). The claim fails on the code wherever the repository holds an
  instructor: \<^verbatim>\<open>Instructor.to_dict\<close> writes the key \<^verbatim>\<open>courses_taught\<close>, which
  \<^verbatim>\<open>Instructor.__init__\<close> does not accept, so \<^verbatim>\<open>Instructor(**inst_data)\<close> raises \<^verbatim>\<open>TypeError\<close> on
  the first saved instructor and \<^verbatim>\<open>load_data\<close> leaves the repository it was called on as it
  was, printing the error.
\<close>

theorem saved_instructor_aborts_load:
  assumes "instructors (fst w) \<noteq> []"
  shows "load_data (Json (fst (save_data w))) w' = (w', [ErrUnexpectedLoad TypeError])"
proof -
  obtain pa h where w: "w = (pa, h)" by (cases w)
  obtain pa' h' where w': "w' = (pa', h')" by (cases w')
  from assms w obtain i rest where ne: "instructors pa = i # rest" by (cases "instructors pa") auto
  let ?recs = "map (\<lambda>i. Instructor_to_dict h (instructor_objs h ! i)) (instructors pa)"
  have get: "py_get (fst (save_data w)) ''instructors'' (PList []) = Inr (PList ?recs)"
    by (simp add: w)
  have "\<exists>e. map_raising Instructor_kwargs ?recs = Inl e"
    by (rule map_raising_Inl [where x = "Instructor_to_dict h (instructor_objs h ! i)"])
       (simp_all add: ne Instructor_kwargs_to_dict)
  then have mr: "map_raising Instructor_kwargs ?recs = Inl TypeError"
    by (simp add: ne Instructor_kwargs_to_dict)
  have "load_instructors (fst (save_data w)) w' = Outcome w' [] (Some TypeError)"
    unfolding w' by (simp add: get mr del: save_data.simps)
  then have "load_phases (fst (save_data w)) w' = Outcome w' [] (Some TypeError)"
    by (simp add: load_phases_def)
  then show ?thesis by (simp add: load_data_def)
qed

theorem saved_instructor_aborts_load_witness:
  "load_data
     (Json (fst (save_data
        (\<lparr> students = [], instructors = [0], courses = [], enrollments = [] \<rparr>,
         \<lparr> instructor_objs =
             [\<lparr> name = PStr ''Ada'', email = PStr ''ada@x.org'', contact_number = PStr ''0123456789'',
                address = PStr ''Main St'', instructor_id = PStr ''I1'',
                instructor_role = PStr ''Instructor'', courses_taught = [] \<rparr>],
           course_objs = [], student_objs = [] \<rparr>))))
     (PlatformAdmin_init, empty_heap)
   = ((PlatformAdmin_init, empty_heap), [ErrUnexpectedLoad TypeError])"
  using saved_instructor_aborts_load
    [of "(\<lparr> students = [], instructors = [0], courses = [], enrollments = [] \<rparr>,
         \<lparr> instructor_objs =
             [\<lparr> name = PStr ''Ada'', email = PStr ''ada@x.org'', contact_number = PStr ''0123456789'',
                address = PStr ''Main St'', instructor_id = PStr ''I1'',
                instructor_role = PStr ''Instructor'', courses_taught = [] \<rparr>],
           course_objs = [], student_objs = [] \<rparr>)" "(PlatformAdmin_init, empty_heap)"]
  by simp

text \<open>
  C2 (Enrollment bookkeeping). The claim fails on the code: \<^verbatim>\<open>Enrollment.enroll_student\<close>
  leaves every student object as it was and no course's \<^verbatim>\<open>enrolled_students\<close> changes (it
  records the pair and appends to the course's \<^verbatim>\<open>_students\<close>), and
  \<^verbatim>\<open>Enrollment.unenroll_student\<close> leaves every object as it was.
\<close>

theorem enrollment_class_one_sided:
  "student_objs (snd (final (enroll_student s c (es, h)))) = student_objs h
   \<and> map enrolled_students (course_objs (snd (final (enroll_student s c (es, h)))))
       = map enrolled_students (course_objs h)
   \<and> snd (final (unenroll_student s c (es, h))) = h"
  by (simp add: add_student_def remove_student_def Let_def map_field_list_update)

text \<open>One student, one course: after \<^verbatim>\<open>enroll_student\<close> only \<^verbatim>\<open>_students\<close> of the course has changed.\<close>

lemma enrollment_class_example:
  "enroll_student 0 0 ([],
     \<lparr> instructor_objs =
         [\<lparr> name = PStr ''Ada'', email = PStr ''ada@x.org'', contact_number = PStr ''0123456789'',
            address = PStr ''Main St'', instructor_id = PStr ''I1'',
            instructor_role = PStr ''Instructor'', courses_taught = [] \<rparr>],
       course_objs = [Course_init (PStr ''Logic'') (PStr ''C1'') 0 (PNum 3)],
       student_objs =
         [\<lparr> name = PStr ''Bob'', email = PStr ''bob@x.org'', contact_number = PStr ''0123456789'',
            address = PStr ''Side St'', student_id = PStr ''S1'', year_level = PNum 1,
            program = PStr ''CS'', gpa = PNum 3, birth_date = PNone,
            student_role = PStr ''Student'', enrolled_courses = [] \<rparr>] \<rparr>)
   = Outcome ([(0, 0)],
     \<lparr> instructor_objs =
         [\<lparr> name = PStr ''Ada'', email = PStr ''ada@x.org'', contact_number = PStr ''0123456789'',
            address = PStr ''Main St'', instructor_id = PStr ''I1'',
            instructor_role = PStr ''Instructor'', courses_taught = [] \<rparr>],
       course_objs = [(Course_init (PStr ''Logic'') (PStr ''C1'') 0 (PNum 3))\<lparr>course_students := [0]\<rparr>],
       student_objs =
         [\<lparr> name = PStr ''Bob'', email = PStr ''bob@x.org'', contact_number = PStr ''0123456789'',
            address = PStr ''Side St'', student_id = PStr ''S1'', year_level = PNum 1,
            program = PStr ''CS'', gpa = PNum 3, birth_date = PNone,
            student_role = PStr ''Student'', enrolled_courses = [] \<rparr>] \<rparr>)
     [MsgStudentAdded (PStr ''Bob'') (PStr ''Logic''), MsgEnrolled (PStr ''Bob'') (PStr ''Logic'')] None"
  by (simp add: add_student_def is_student_enrolled_def Course_init_def)

text \<open>
  C3 (validation at construction). As stated the claim fails: the constructors of
  \<^verbatim>\<open>Person\<close>, \<^verbatim>\<open>Student\<close> and \<^verbatim>\<open>Instructor\<close> assign their arguments without any check, so a
  student or an instructor with an empty name, a malformed email, a short non-numeric
  contact number, a blank address and a GPA of 9 is constructed.
\<close>

theorem construction_unvalidated_counterexample:
  "Student_init (PStr '''') (PStr ''no at sign'') (PStr ''12ab'') (PStr ''  '') (PStr ''S1'')
      (PNum 1) (PStr ''CS'') (PNum 9) PNone [] (PStr ''Student'')
     = Inr \<lparr> name = PStr '''', email = PStr ''no at sign'', contact_number = PStr ''12ab'',
             address = PStr ''  '', student_id = PStr ''S1'', year_level = PNum 1,
             program = PStr ''CS'', gpa = PNum 9, birth_date = PNone,
             student_role = PStr ''Student'', enrolled_courses = [] \<rparr>
   \<and> Instructor_init (PStr '''') (PStr ''no at sign'') (PStr ''12ab'') (PStr ''  '') (PStr ''I1'')
      (PStr ''Instructor'')
     = Inr \<lparr> name = PStr '''', email = PStr ''no at sign'', contact_number = PStr ''12ab'',
             address = PStr ''  '', instructor_id = PStr ''I1'',
             instructor_role = PStr ''Instructor'', courses_taught = [] \<rparr>"
  by (simp add: Student_init_def Instructor_init_def)

text \<open>
  C3, amended. Field validation is enforced on mutation only: the setters reject a blank
  name or address, an email without \<^verbatim>\<open>@\<close> or without a dot, a contact number that is not
  all digits or is shorter than 10, and a GPA outside [0, 4], each with a \<^verbatim>\<open>ValueError\<close>;
  constructing a student or an instructor never raises and stores the given values.
\<close>

theorem validation_on_mutation_only:
  "(\<exists>s. Student_init nm em cn ad sid yl pr g bd ecs rl = Inr s
        \<and> name s = nm \<and> email s = em \<and> contact_number s = cn \<and> address s = ad \<and> gpa s = g)
   \<and> (\<exists>i. Instructor_init nm em cn ad iid irl = Inr i
        \<and> name i = nm \<and> email i = em \<and> contact_number i = cn \<and> address i = ad)
   \<and> (list_all is_space nv \<longrightarrow> name_setter nv p = Inl (ValueError ''Name cannot be empty.''))
   \<and> (list_all is_space av \<longrightarrow> address_setter av p = Inl (ValueError ''Address cannot be empty.''))
   \<and> (CHR ''@'' \<notin> set ev \<or> CHR ''.'' \<notin> set ev \<longrightarrow>
        email_setter ev p = Inl (ValueError ''Invalid email address.''))
   \<and> (\<not> isdigit cv \<or> length cv < 10 \<longrightarrow>
        contact_number_setter cv p = Inl (ValueError ''Contact number must be at least 10 digits.''))
   \<and> (x < 0 \<or> 4 < x \<longrightarrow> gpa_setter x st = Inl (ValueError ''GPA must be between 0 and 4.0''))"
  by (auto simp: Student_init_def Instructor_init_def name_setter_def address_setter_def
        email_setter_def contact_number_setter_def gpa_setter_def strip_empty_iff)

theorem validation_on_mutation_only_witness:
  "name_setter ''  ''
      \<lparr> name = PStr ''Bob'', email = PStr ''bob@x.org'', contact_number = PStr ''0123456789'',
        address = PStr ''Side St'' \<rparr> = Inl (ValueError ''Name cannot be empty.'')
   \<and> address_setter ''''
      \<lparr> name = PStr ''Bob'', email = PStr ''bob@x.org'', contact_number = PStr ''0123456789'',
        address = PStr ''Side St'' \<rparr> = Inl (ValueError ''Address cannot be empty.'')
   \<and> email_setter ''bob.x.org''
      \<lparr> name = PStr ''Bob'', email = PStr ''bob@x.org'', contact_number = PStr ''0123456789'',
        address = PStr ''Side St'' \<rparr> = Inl (ValueError ''Invalid email address.'')
   \<and> contact_number_setter ''12345''
      \<lparr> name = PStr ''Bob'', email = PStr ''bob@x.org'', contact_number = PStr ''0123456789'',
        address = PStr ''Side St'' \<rparr> = Inl (ValueError ''Contact number must be at least 10 digits.'')
   \<and> gpa_setter 5
      \<lparr> name = PStr ''Bob'', email = PStr ''bob@x.org'', contact_number = PStr ''0123456789'',
        address = PStr ''Side St'', student_id = PStr ''S1'', year_level = PNum 1,
        program = PStr ''CS'', gpa = PNum 3, birth_date = PNone,
        student_role = PStr ''Student'', enrolled_courses = [] \<rparr>
      = Inl (ValueError ''GPA must be between 0 and 4.0'')
   \<and> (\<exists>s. Student_init (PStr '''') (PStr ''bob.x.org'') (PStr ''12345'') (PStr '''') (PStr ''S1'')
          (PNum 1) (PStr ''CS'') (PNum 5) PNone [] (PStr ''Student'') = Inr s
          \<and> name s = PStr '''' \<and> gpa s = PNum 5)"
  using validation_on_mutation_only
    [of "PStr ''''" "PStr ''bob.x.org''" "PStr ''12345''" "PStr ''''" "PStr ''S1''" "PNum 1"
        "PStr ''CS''" "PNum 5" PNone "[]" "PStr ''Student''" "PStr ''I1''" "PStr ''Instructor''"
        "''  ''"
        "\<lparr> name = PStr ''Bob'', email = PStr ''bob@x.org'', contact_number = PStr ''0123456789'',
           address = PStr ''Side St'' \<rparr>"
        "''''" "''bob.x.org''" "''12345''" 5
        "\<lparr> name = PStr ''Bob'', email = PStr ''bob@x.org'', contact_number = PStr ''0123456789'',
        address = PStr ''Side St'', student_id = PStr ''S1'', year_level = PNum 1,
        program = PStr ''CS'', gpa = PNum 3, birth_date = PNone,
        student_role = PStr ''Student'', enrolled_courses = [] \<rparr>"]
  by (auto simp: is_space_def)

text \<open>
  C4 (one bad record). As stated the claim fails: the whole load is one \<^verbatim>\<open>try\<close> block, and
  \<^verbatim>\<open>self.students\<close> is assigned from one list comprehension. With a well-formed first student
  record and a second one without \<^verbatim>\<open>email\<close>, no student is loaded (the first record alone
  would be); the failure is printed.
\<close>

theorem bad_record_aborts_load_counterexample:
  "load_data (Json (PDict (fmap_of_list [(''students'', PList
       [PDict (fmap_of_list
          [(''name'', PStr ''Bob''), (''email'', PStr ''bob@x.org''),
           (''contact_number'', PStr ''0123456789''), (''address'', PStr ''Side St''),
           (''student_id'', PStr ''S1''), (''year_level'', PNum 1), (''program'', PStr ''CS'')]),
        PDict (fmap_of_list
          [(''name'', PStr ''Cy''), (''contact_number'', PStr ''0123456789''),
           (''address'', PStr ''Low St''), (''student_id'', PStr ''S2''),
           (''year_level'', PNum 2), (''program'', PStr ''EE'')])])])))
     (PlatformAdmin_init, empty_heap)
   = ((PlatformAdmin_init, empty_heap), [ErrUnexpectedLoad (KeyError ''email'')])
   \<and> students (fst (fst (load_data (Json (PDict (fmap_of_list [(''students'', PList
       [PDict (fmap_of_list
          [(''name'', PStr ''Bob''), (''email'', PStr ''bob@x.org''),
           (''contact_number'', PStr ''0123456789''), (''address'', PStr ''Side St''),
           (''student_id'', PStr ''S1''), (''year_level'', PNum 1), (''program'', PStr ''CS'')])])])))
     (PlatformAdmin_init, empty_heap)))) = [0]"
  by (simp add: load_data_def load_phases_def Student_from_dict_def Student_init_def
        PlatformAdmin_init_def empty_heap_def)

text \<open>
  C4, amended. A student record that lacks a required field aborts the load where it
  stands: no student record of the document is loaded (the repository's students and the
  student objects stay as they were before the call), the repository is left as the
  instructors and courses phases made it (so the enrollments and the schedules of the
  document are not loaded either), and the failure is reported: the last message printed
  is the one of \<^verbatim>\<open>except Exception\<close>.
\<close>

theorem malformed_student_aborts_load:
  assumes "fmlookup d ''students'' = Some (PList srecs)"
    and "PDict r \<in> set srecs"
    and "k \<in> set [''name'', ''email'', ''contact_number'', ''address'', ''student_id'',
                      ''year_level'', ''program'']"
    and "fmlookup r k = None"
  shows "students (fst (fst (load_data (Json (PDict d)) w))) = students (fst w)
       \<and> student_objs (snd (fst (load_data (Json (PDict d)) w))) = student_objs (snd w)
       \<and> (\<exists>out e. snd (load_data (Json (PDict d)) w) = out @ [ErrUnexpectedLoad e])
       \<and> (raised (andthen (load_instructors (PDict d) w) (load_courses (PDict d))) = None \<longrightarrow>
            fst (load_data (Json (PDict d)) w)
              = final (andthen (load_instructors (PDict d) w) (load_courses (PDict d))))"
proof -
  let ?B = "andthen (load_instructors (PDict d) w) (load_courses (PDict d))"
  have keep: "students (fst (final ?B)) = students (fst w)
      \<and> student_objs (snd (final ?B)) = student_objs (snd w)"
    by (simp add: final_andthen load_instructors_students load_courses_students split: option.splits)
  show ?thesis
  proof (cases "raised ?B")
    case (Some e)
    then have "load_phases (PDict d) w = ?B"
      by (simp add: load_phases_def andthen_raised)
    with Some keep show ?thesis by (simp add: load_data_def)
  next
    case None
    from load_students_malformed [OF assms, of "final ?B"]
    obtain e where e: "load_students (PDict d) (final ?B) = Outcome (final ?B) [] (Some e)" by blast
    have "andthen ?B (load_students (PDict d)) = Outcome (final ?B) (printed ?B) (Some e)"
      using None e by (simp add: andthen_def [of ?B])
    then have "load_phases (PDict d) w = Outcome (final ?B) (printed ?B) (Some e)"
      by (simp add: load_phases_def)
    with keep show ?thesis by (simp add: load_data_def)
  qed
qed

theorem malformed_student_aborts_load_witness:
  "fst (load_data (Json (PDict (fmap_of_list
       [(''instructors'', PList [PDict (fmap_of_list
           [(''instructor_id'', PStr ''I1''), (''name'', PStr ''Ada''), (''email'', PStr ''ada@x.org''),
            (''contact_number'', PStr ''0123456789''), (''address'', PStr ''Main St'')])]),
        (''courses'', PList [PDict (fmap_of_list
           [(''course_name'', PStr ''Logic''), (''course_code'', PStr ''C1''),
            (''instructor_id'', PStr ''I1''), (''units'', PNum 3)])]),
        (''students'', PList
          [PDict (fmap_of_list
             [(''name'', PStr ''Bob''), (''email'', PStr ''bob@x.org''),
              (''contact_number'', PStr ''0123456789''), (''address'', PStr ''Side St''),
              (''student_id'', PStr ''S1''), (''year_level'', PNum 1), (''program'', PStr ''CS'')]),
           PDict (fmap_of_list
             [(''name'', PStr ''Cy''), (''contact_number'', PStr ''0123456789''),
              (''address'', PStr ''Low St''), (''student_id'', PStr ''S2''),
              (''year_level'', PNum 2), (''program'', PStr ''EE'')])]),
        (''enrollments'', PList [PDict (fmap_of_list
           [(''student_id'', PStr ''S1''), (''course_code'', PStr ''C1'')])])])))
     (PlatformAdmin_init, empty_heap))
   = (\<lparr> students = [], instructors = [0], courses = [0], enrollments = [] \<rparr>,
      \<lparr> instructor_objs =
          [\<lparr> name = PStr ''Ada'', email = PStr ''ada@x.org'', contact_number = PStr ''0123456789'',
             address = PStr ''Main St'', instructor_id = PStr ''I1'',
             instructor_role = PStr ''Instructor'', courses_taught = [] \<rparr>],
        course_objs = [Course_init (PStr ''Logic'') (PStr ''C1'') 0 (PNum 3)],
        student_objs = [] \<rparr>)
   \<and> (\<exists>out e. snd (load_data (Json (PDict (fmap_of_list
       [(''instructors'', PList [PDict (fmap_of_list
           [(''instructor_id'', PStr ''I1''), (''name'', PStr ''Ada''), (''email'', PStr ''ada@x.org''),
            (''contact_number'', PStr ''0123456789''), (''address'', PStr ''Main St'')])]),
        (''courses'', PList [PDict (fmap_of_list
           [(''course_name'', PStr ''Logic''), (''course_code'', PStr ''C1''),
            (''instructor_id'', PStr ''I1''), (''units'', PNum 3)])]),
        (''students'', PList
          [PDict (fmap_of_list
             [(''name'', PStr ''Bob''), (''email'', PStr ''bob@x.org''),
              (''contact_number'', PStr ''0123456789''), (''address'', PStr ''Side St''),
              (''student_id'', PStr ''S1''), (''year_level'', PNum 1), (''program'', PStr ''CS'')]),
           PDict (fmap_of_list
             [(''name'', PStr ''Cy''), (''contact_number'', PStr ''0123456789''),
              (''address'', PStr ''Low St''), (''student_id'', PStr ''S2''),
              (''year_level'', PNum 2), (''program'', PStr ''EE'')])]),
        (''enrollments'', PList [PDict (fmap_of_list
           [(''student_id'', PStr ''S1''), (''course_code'', PStr ''C1'')])])])))
     (PlatformAdmin_init, empty_heap)) = out @ [ErrUnexpectedLoad e])"
proof -
  let ?bad = "fmap_of_list
          [(''name'', PStr ''Cy''), (''contact_number'', PStr ''0123456789''),
           (''address'', PStr ''Low St''), (''student_id'', PStr ''S2''),
           (''year_level'', PNum 2), (''program'', PStr ''EE'')]"
  let ?recs = "[PDict (fmap_of_list
          [(''name'', PStr ''Bob''), (''email'', PStr ''bob@x.org''),
           (''contact_number'', PStr ''0123456789''), (''address'', PStr ''Side St''),
           (''student_id'', PStr ''S1''), (''year_level'', PNum 1), (''program'', PStr ''CS'')]),
        PDict ?bad]"
  let ?d = "fmap_of_list
       [(''instructors'', PList [PDict (fmap_of_list
           [(''instructor_id'', PStr ''I1''), (''name'', PStr ''Ada''), (''email'', PStr ''ada@x.org''),
            (''contact_number'', PStr ''0123456789''), (''address'', PStr ''Main St'')])]),
        (''courses'', PList [PDict (fmap_of_list
           [(''course_name'', PStr ''Logic''), (''course_code'', PStr ''C1''),
            (''instructor_id'', PStr ''I1''), (''units'', PNum 3)])]),
        (''students'', PList ?recs),
        (''enrollments'', PList [PDict (fmap_of_list
           [(''student_id'', PStr ''S1''), (''course_code'', PStr ''C1'')])])]"
  have 1: "fmlookup ?d ''students'' = Some (PList ?recs)" by simp
  have 2: "PDict ?bad \<in> set ?recs" by simp
  have 3: "''email'' \<in> set [''name'', ''email'', ''contact_number'', ''address'', ''student_id'',
                      ''year_level'', ''program'']" by simp
  have 4: "fmlookup ?bad ''email'' = None" by simp
  have 5: "andthen (load_instructors (PDict ?d) (PlatformAdmin_init, empty_heap)) (load_courses (PDict ?d))
      = Outcome (\<lparr> students = [], instructors = [0], courses = [0], enrollments = [] \<rparr>,
      \<lparr> instructor_objs =
          [\<lparr> name = PStr ''Ada'', email = PStr ''ada@x.org'', contact_number = PStr ''0123456789'',
             address = PStr ''Main St'', instructor_id = PStr ''I1'',
             instructor_role = PStr ''Instructor'', courses_taught = [] \<rparr>],
        course_objs = [Course_init (PStr ''Logic'') (PStr ''C1'') 0 (PNum 3)],
        student_objs = [] \<rparr>) [] None"
    by (simp add: Instructor_kwargs_def kwarg_def Instructor_init_def PlatformAdmin_init_def
          empty_heap_def)
  from malformed_student_aborts_load [OF 1 2 3 4, of "(PlatformAdmin_init, empty_heap)"]
  show ?thesis unfolding 5 by simp
qed

text \<open>
  C5 (round trip of a student). For every student \<open>e\<close> whose enrolled courses have pairwise
  different course codes, each of them the code of a course of the context,
  \<^verbatim>\<open>Student.from_dict(e.to_dict(), all_courses)\<close> returns a student with the same name, email,
  contact number, address, student id, year level, program, GPA and birth date, and with
  the same sequence of enrolled course codes. The two conditions are the data model's
  (course codes are unique, the context holds the courses referred to): \<^verbatim>\<open>from_dict\<close> drops
  an entry whose code the context does not resolve, and \<^verbatim>\<open>enroll\<close> drops a repeated course.
\<close>

theorem student_round_trip:
  assumes "distinct (codes h (enrolled_courses e))"
    and "set (codes h (enrolled_courses e)) \<subseteq> set (codes h all_courses)"
  shows "\<exists>e'. Student_from_dict h (Student_to_dict h e) all_courses = Inr e'
       \<and> name e' = name e \<and> email e' = email e \<and> contact_number e' = contact_number e
       \<and> address e' = address e \<and> student_id e' = student_id e \<and> year_level e' = year_level e
       \<and> program e' = program e \<and> gpa e' = gpa e \<and> birth_date e' = birth_date e
       \<and> codes h (enrolled_courses e') = codes h (enrolled_courses e)"
proof -
  let ?s0 = "\<lparr> name = name e, email = email e, contact_number = contact_number e,
       address = address e, student_id = student_id e, year_level = year_level e,
       program = program e, gpa = gpa e, birth_date = birth_date e,
       student_role = PStr ''Student'', enrolled_courses = [] \<rparr>"
  have "set (codes h (enrolled_courses ?s0)) \<inter> set (codes h (enrolled_courses e)) = {}" by simp
  from enroll_listed_round_trip [OF assms this] obtain ecs where
    e1: "enroll_listed h all_courses
           (map (\<lambda>c. Course_to_dict h (course_objs h ! c)) (enrolled_courses e)) ?s0
         = Inr (?s0\<lparr>enrolled_courses := ecs\<rparr>)"
    and e2: "codes h ecs = codes h (enrolled_courses e)" by auto
  have "Student_from_dict h (Student_to_dict h e) all_courses = Inr (?s0\<lparr>enrolled_courses := ecs\<rparr>)"
    by (simp add: Student_from_dict_def Student_to_dict_def Student_init_def e1)
  with e2 show ?thesis by simp
qed

theorem student_round_trip_witness:
  "\<exists>e'. Student_from_dict
      \<lparr> instructor_objs =
          [\<lparr> name = PStr ''Ada'', email = PStr ''ada@x.org'', contact_number = PStr ''0123456789'',
             address = PStr ''Main St'', instructor_id = PStr ''I1'',
             instructor_role = PStr ''Instructor'', courses_taught = [] \<rparr>],
        course_objs = [Course_init (PStr ''Logic'') (PStr ''C1'') 0 (PNum 3),
                       Course_init (PStr ''Sets'') (PStr ''C2'') 0 (PNum 3)],
        student_objs = [] \<rparr>
      (Student_to_dict
        \<lparr> instructor_objs =
          [\<lparr> name = PStr ''Ada'', email = PStr ''ada@x.org'', contact_number = PStr ''0123456789'',
             address = PStr ''Main St'', instructor_id = PStr ''I1'',
             instructor_role = PStr ''Instructor'', courses_taught = [] \<rparr>],
          course_objs = [Course_init (PStr ''Logic'') (PStr ''C1'') 0 (PNum 3),
                       Course_init (PStr ''Sets'') (PStr ''C2'') 0 (PNum 3)],
          student_objs = [] \<rparr>
        \<lparr> name = PStr ''Bob'', email = PStr ''bob@x.org'', contact_number = PStr ''0123456789'',
          address = PStr ''Side St'', student_id = PStr ''S1'', year_level = PNum 1,
          program = PStr ''CS'', gpa = PNum 3, birth_date = PNone,
          student_role = PStr ''Student'', enrolled_courses = [1, 0] \<rparr>)
      [0, 1] = Inr e'
    \<and> name e' = PStr ''Bob'' \<and> gpa e' = PNum 3 \<and> student_id e' = PStr ''S1''
    \<and> enrolled_courses e' = [1, 0]"
proof -
  let ?h = "\<lparr> instructor_objs =
          [\<lparr> name = PStr ''Ada'', email = PStr ''ada@x.org'', contact_number = PStr ''0123456789'',
             address = PStr ''Main St'', instructor_id = PStr ''I1'',
             instructor_role = PStr ''Instructor'', courses_taught = [] \<rparr>],
        course_objs = [Course_init (PStr ''Logic'') (PStr ''C1'') 0 (PNum 3),
                       Course_init (PStr ''Sets'') (PStr ''C2'') 0 (PNum 3)],
        student_objs = [] \<rparr>"
  let ?e = "\<lparr> name = PStr ''Bob'', email = PStr ''bob@x.org'', contact_number = PStr ''0123456789'',
          address = PStr ''Side St'', student_id = PStr ''S1'', year_level = PNum 1,
          program = PStr ''CS'', gpa = PNum 3, birth_date = PNone,
          student_role = PStr ''Student'', enrolled_courses = [1, 0] \<rparr>"
  have 1: "distinct (codes ?h (enrolled_courses ?e))" by (simp add: Course_init_def)
  have 2: "set (codes ?h (enrolled_courses ?e)) \<subseteq> set (codes ?h [0, 1])" by (simp add: Course_init_def)
  from student_round_trip [OF 1 2] obtain e' where
    a: "Student_from_dict ?h (Student_to_dict ?h ?e) [0, 1] = Inr e'"
    and b: "name e' = name ?e" "gpa e' = gpa ?e" "student_id e' = student_id ?e"
    and c: "codes ?h (enrolled_courses e') = codes ?h (enrolled_courses ?e)" by blast
  have "Student_from_dict ?h (Student_to_dict ?h ?e) [0, 1] = Inr (?e\<lparr>enrolled_courses := [1, 0]\<rparr>)"
    by (simp add: Student_from_dict_def Student_to_dict_def Student_init_def Course_to_dict_def
          Course_init_def next_by_key_def Student_enroll_def)
  with a b show ?thesis by simp
qed

text \<open>
  Without the condition the law fails: a student constructed with the same course twice in
  \<^verbatim>\<open>enrolled_courses\<close> comes back enrolled once.
\<close>

lemma round_trip_drops_repeated_course:
  "Student_from_dict
      \<lparr> instructor_objs =
          [\<lparr> name = PStr ''Ada'', email = PStr ''ada@x.org'', contact_number = PStr ''0123456789'',
             address = PStr ''Main St'', instructor_id = PStr ''I1'',
             instructor_role = PStr ''Instructor'', courses_taught = [] \<rparr>],
        course_objs = [Course_init (PStr ''Logic'') (PStr ''C1'') 0 (PNum 3)],
        student_objs = [] \<rparr>
      (Student_to_dict
        \<lparr> instructor_objs =
          [\<lparr> name = PStr ''Ada'', email = PStr ''ada@x.org'', contact_number = PStr ''0123456789'',
             address = PStr ''Main St'', instructor_id = PStr ''I1'',
             instructor_role = PStr ''Instructor'', courses_taught = [] \<rparr>],
          course_objs = [Course_init (PStr ''Logic'') (PStr ''C1'') 0 (PNum 3)],
          student_objs = [] \<rparr>
        \<lparr> name = PStr ''Bob'', email = PStr ''bob@x.org'', contact_number = PStr ''0123456789'',
          address = PStr ''Side St'', student_id = PStr ''S1'', year_level = PNum 1,
          program = PStr ''CS'', gpa = PNum 3, birth_date = PNone,
          student_role = PStr ''Student'', enrolled_courses = [0, 0] \<rparr>)
      [0]
   = Inr \<lparr> name = PStr ''Bob'', email = PStr ''bob@x.org'', contact_number = PStr ''0123456789'',
          address = PStr ''Side St'', student_id = PStr ''S1'', year_level = PNum 1,
          program = PStr ''CS'', gpa = PNum 3, birth_date = PNone,
          student_role = PStr ''Student'', enrolled_courses = [0] \<rparr>"
  by (simp add: Student_from_dict_def Student_to_dict_def Student_init_def Course_to_dict_def
        Course_init_def next_by_key_def Student_enroll_def)

text \<open>
  C6 (group tag, empty post). As stated the claim fails: neither method raises. A group
  tag that is not alphanumeric and a post of blanks are refused by a printed message, and
  the call returns normally.
\<close>

theorem group_and_post_not_raised_counterexample:
  "raised (add_recipient_group ''not valid!''
      \<lparr> announcement_title = PStr ''Exam'', announcement_content = PStr ''Room 2'',
        announcement_date = PStr ''2025-01-01'', recipient_groups = [''Student''] \<rparr>) = None
   \<and> raised (add_post 0
      \<lparr> name = PStr ''Ann'', email = PStr ''ann@x.org'', contact_number = PStr ''0123456789'',
        address = PStr ''Main St'' \<rparr> ''   ''
      \<lparr> thread_course = 0, thread_title = PStr ''Q1'', thread_creator = 0, posts = [],
        thread_timestamp = Naive 0 \<rparr>) = None"
  by (simp add: add_recipient_group_def add_post_def isalnum_def is_alnum_def strip_def is_space_def)

text \<open>
  C6, amended. Adding a group tag that is not alphanumeric to an announcement, or a post
  that is empty or only whitespace to a discussion thread, prints an error message and
  returns without raising; the recipient groups and the posts (the whole object) are
  unchanged.
\<close>

theorem invalid_group_and_empty_post_rejected:
  "(\<not> isalnum g \<longrightarrow> add_recipient_group g a = Outcome a [ErrGroupNotValid g] None)
   \<and> (list_all is_space message \<longrightarrow> add_post now p message t = Outcome t [MsgEmptyPost] None)"
  by (simp add: add_recipient_group_def add_post_def strip_empty_iff)

theorem invalid_group_and_empty_post_rejected_witness:
  "add_recipient_group ''not valid!''
      \<lparr> announcement_title = PStr ''Exam'', announcement_content = PStr ''Room 2'',
        announcement_date = PStr ''2025-01-01'', recipient_groups = [''Student''] \<rparr>
     = Outcome \<lparr> announcement_title = PStr ''Exam'', announcement_content = PStr ''Room 2'',
        announcement_date = PStr ''2025-01-01'', recipient_groups = [''Student''] \<rparr>
        [ErrGroupNotValid ''not valid!''] None
   \<and> add_post 0
      \<lparr> name = PStr ''Ann'', email = PStr ''ann@x.org'', contact_number = PStr ''0123456789'',
        address = PStr ''Main St'' \<rparr> ''   ''
      \<lparr> thread_course = 0, thread_title = PStr ''Q1'', thread_creator = 0, posts = [],
        thread_timestamp = Naive 0 \<rparr>
     = Outcome \<lparr> thread_course = 0, thread_title = PStr ''Q1'', thread_creator = 0, posts = [],
        thread_timestamp = Naive 0 \<rparr> [MsgEmptyPost] None"
  using invalid_group_and_empty_post_rejected
    [of "''not valid!''"
        "\<lparr> announcement_title = PStr ''Exam'', announcement_content = PStr ''Room 2'',
           announcement_date = PStr ''2025-01-01'', recipient_groups = [''Student''] \<rparr>"
        "''   ''" 0
        "\<lparr> name = PStr ''Ann'', email = PStr ''ann@x.org'', contact_number = PStr ''0123456789'',
           address = PStr ''Main St'' \<rparr>"
        "\<lparr> thread_course = 0, thread_title = PStr ''Q1'', thread_creator = 0, posts = [],
           thread_timestamp = Naive 0 \<rparr>"]
  by (simp add: isalnum_def is_alnum_def is_space_def)

text \<open>
  C7 (the student phase links one side). The claim fails on the code for a document in
  the layout \<^verbatim>\<open>save_data\<close> writes: an instructor record with the key \<^verbatim>\<open>courses_taught\<close> is
  refused by \<^verbatim>\<open>Instructor(**inst_data)\<close> with a \<^verbatim>\<open>TypeError\<close>, the load ends in the instructors
  phase, and neither the course nor the student of the scenario is loaded: the repository
  is left as it was and the error is printed. This is the defect of C1.
\<close>

theorem saved_layout_instructor_aborts_scenario:
  assumes "fmlookup d ''instructors'' = Some (PList irecs)"
    and "PDict r \<in> set irecs"
    and "fmlookup r ''courses_taught'' = Some v"
  shows "load_data (Json (PDict d)) w = (w, [ErrUnexpectedLoad TypeError])"
proof -
  obtain pa h where w: "w = (pa, h)" by (cases w)
  from map_raising_Inl [of "PDict r" irecs Instructor_kwargs TypeError, OF assms(2)
      Instructor_kwargs_extra_key [OF assms(3)]]
  obtain e where e: "map_raising Instructor_kwargs irecs = Inl e" by blast
  from map_raising_Inl_elem [OF e] have "e = TypeError" by (auto dest: Instructor_kwargs_Inl)
  with e have "load_instructors (PDict d) w = Outcome w [] (Some TypeError)"
    by (simp add: w assms(1))
  then have "load_phases (PDict d) w = Outcome w [] (Some TypeError)"
    by (simp add: load_phases_def)
  then show ?thesis by (simp add: load_data_def)
qed

theorem saved_layout_instructor_aborts_scenario_witness:
  "load_data (Json (PDict (fmap_of_list
       [(''instructors'', PList [PDict (fmap_of_list
           [(''instructor_id'', PStr ''I1''), (''name'', PStr ''Ada''), (''email'', PStr ''ada@x.org''),
            (''contact_number'', PStr ''0123456789''), (''address'', PStr ''Main St''),
            (''role'', PStr ''Instructor''), (''courses_taught'', PList [])])]),
        (''courses'', PList [PDict (fmap_of_list
           [(''course_name'', PStr ''Logic''), (''course_code'', PStr ''C1''),
            (''instructor_id'', PStr ''I1''), (''units'', PNum 3)])]),
        (''students'', PList [PDict (fmap_of_list
           [(''student_id'', PStr ''S1''), (''name'', PStr ''Bob''), (''email'', PStr ''bob@x.org''),
            (''contact_number'', PStr ''0123456789''), (''address'', PStr ''Side St''),
            (''year_level'', PNum 1), (''program'', PStr ''CS''), (''gpa'', PNum 3),
            (''birth_date'', PNone),
            (''enrolled_courses'', PList [PDict (fmap_of_list
               [(''course_name'', PStr ''Logic''), (''course_code'', PStr ''C1''),
                (''instructor_id'', PStr ''I1''), (''units'', PNum 3)])])])]),
        (''enrollments'', PList [])])))
     (PlatformAdmin_init, empty_heap)
   = ((PlatformAdmin_init, empty_heap), [ErrUnexpectedLoad TypeError])"
proof -
  let ?r = "fmap_of_list
           [(''instructor_id'', PStr ''I1''), (''name'', PStr ''Ada''), (''email'', PStr ''ada@x.org''),
            (''contact_number'', PStr ''0123456789''), (''address'', PStr ''Main St''),
            (''role'', PStr ''Instructor''), (''courses_taught'', PList [])]"
  let ?d = "fmap_of_list
       [(''instructors'', PList [PDict ?r]),
        (''courses'', PList [PDict (fmap_of_list
           [(''course_name'', PStr ''Logic''), (''course_code'', PStr ''C1''),
            (''instructor_id'', PStr ''I1''), (''units'', PNum 3)])]),
        (''students'', PList [PDict (fmap_of_list
           [(''student_id'', PStr ''S1''), (''name'', PStr ''Bob''), (''email'', PStr ''bob@x.org''),
            (''contact_number'', PStr ''0123456789''), (''address'', PStr ''Side St''),
            (''year_level'', PNum 1), (''program'', PStr ''CS''), (''gpa'', PNum 3),
            (''birth_date'', PNone),
            (''enrolled_courses'', PList [PDict (fmap_of_list
               [(''course_name'', PStr ''Logic''), (''course_code'', PStr ''C1''),
                (''instructor_id'', PStr ''I1''), (''units'', PNum 3)])])])]),
        (''enrollments'', PList [])]"
  have 1: "fmlookup ?d ''instructors'' = Some (PList [PDict ?r])" by simp
  have 2: "PDict ?r \<in> set [PDict ?r]" by simp
  have 3: "fmlookup ?r ''courses_taught'' = Some (PList [])" by simp
  from saved_layout_instructor_aborts_scenario [OF 1 2 3, of "(PlatformAdmin_init, empty_heap)"]
  show ?thesis .
qed

text \<open>
  Where the instructor record has only the parameters of \<^verbatim>\<open>Instructor.__init__\<close>, the
  scenario is as the claim says. For every document with one such instructor record, one
  course record naming that instructor, one student record whose \<^verbatim>\<open>enrolled_courses\<close> lists
  an entry with the course's code, and an empty \<^verbatim>\<open>enrollments\<close> list (whatever its
  \<^verbatim>\<open>schedules\<close> and other keys, and whatever the repository held before): after \<^verbatim>\<open>load_data\<close>
  the repository holds exactly the new instructor, course and student, the student's
  \<^verbatim>\<open>enrolled_courses\<close> is the course, and the course's \<^verbatim>\<open>enrolled_students\<close> is empty.
\<close>

lemma student_phase_links_one_side:
  assumes inst: "fmlookup d ''instructors'' = Some (PList [inst])"
    and i1: "Instructor_kwargs inst = Inr i1"
    and crs: "fmlookup d ''courses'' = Some (PList [PDict c])"
    and c_iid: "fmlookup c ''instructor_id'' = Some (instructor_id i1)"
    and c_name: "fmlookup c ''course_name'' = Some cn"
    and c_code: "fmlookup c ''course_code'' = Some cc"
    and c_units: "fmlookup c ''units'' = Some u"
    and studs: "fmlookup d ''students'' = Some (PList [PDict s])"
    and s_req: "fmlookup s ''name'' = Some nm" "fmlookup s ''email'' = Some em"
      "fmlookup s ''contact_number'' = Some cnum" "fmlookup s ''address'' = Some ad"
      "fmlookup s ''student_id'' = Some sid" "fmlookup s ''year_level'' = Some yl"
      "fmlookup s ''program'' = Some pr"
    and s_enr: "fmlookup s ''enrolled_courses'' = Some (PList [PDict ec])"
    and ec_code: "fmlookup ec ''course_code'' = Some cc"
    and enr: "fmlookup d ''enrollments'' = Some (PList [])"
  shows "instructors (fst (fst (load_data (Json (PDict d)) (pa, h)))) = [length (instructor_objs h)]
       \<and> courses (fst (fst (load_data (Json (PDict d)) (pa, h)))) = [length (course_objs h)]
       \<and> students (fst (fst (load_data (Json (PDict d)) (pa, h)))) = [length (student_objs h)]
       \<and> student_id (student_objs (snd (fst (load_data (Json (PDict d)) (pa, h)))) ! length (student_objs h)) = sid
       \<and> course_code (course_objs (snd (fst (load_data (Json (PDict d)) (pa, h)))) ! length (course_objs h)) = cc
       \<and> enrolled_courses (student_objs (snd (fst (load_data (Json (PDict d)) (pa, h)))) ! length (student_objs h))
            = [length (course_objs h)]
       \<and> enrolled_students (course_objs (snd (fst (load_data (Json (PDict d)) (pa, h)))) ! length (course_objs h))
            = []"
proof -
  let ?s1 = "\<lparr> name = nm, email = em, contact_number = cnum, address = ad, student_id = sid,
                   year_level = yl, program = pr,
                   gpa = (case fmlookup s ''gpa'' of None \<Rightarrow> PNum 0 | Some v \<Rightarrow> v),
                   birth_date = (case fmlookup s ''birth_date'' of None \<Rightarrow> PNone | Some v \<Rightarrow> v),
                   student_role = PStr ''Student'',
                   enrolled_courses = [length (course_objs h)] \<rparr>"
  let ?c1 = "Course_init cn cc (length (instructor_objs h)) u"
  let ?pa4 = "pa\<lparr>instructors := [length (instructor_objs h)], courses := [length (course_objs h)],
               students := [length (student_objs h)], enrollments := []\<rparr>"
  let ?h4 = "h\<lparr>instructor_objs := instructor_objs h @ [i1],
              course_objs := course_objs h @ [?c1],
              student_objs := student_objs h @ [?s1]\<rparr>"
  let ?w = "fst (load_data (Json (PDict d)) (pa, h))"
  have "load_phases (PDict d) (pa, h) = andthen (Outcome (?pa4, ?h4) [] None) (load_schedules (PDict d))"
    unfolding load_phases_def
    by (simp only: four_phases_one_each [OF assms])
  then have w: "?w = final (load_schedules (PDict d) (?pa4, ?h4))"
    by (simp add: fst_load_data_Json del: load_schedules.simps)
  from load_schedules_frame [of "PDict d" "(?pa4, ?h4)"]
  have pa: "fst ?w = ?pa4" and fs: "forget_schedules (snd ?w) = forget_schedules ?h4"
    by (simp_all only: w fst_conv snd_conv)
  have so: "student_objs (snd ?w) = student_objs ?h4"
    by (rule forget_schedules_eqD(1) [OF fs])
  have "(course_objs (snd ?w) ! length (course_objs h))\<lparr>course_schedule := None\<rparr>
      = (course_objs ?h4 ! length (course_objs h))\<lparr>course_schedule := None\<rparr>"
    by (rule forget_schedules_eqD(4) [OF fs]) simp
  then have co: "(course_objs (snd ?w) ! length (course_objs h))\<lparr>course_schedule := None\<rparr>
      = ?c1\<lparr>course_schedule := None\<rparr>" by simp
  have "course_code ((course_objs (snd ?w) ! length (course_objs h))\<lparr>course_schedule := None\<rparr>) = cc"
    and "enrolled_students ((course_objs (snd ?w) ! length (course_objs h))\<lparr>course_schedule := None\<rparr>) = []"
    unfolding co by (simp_all add: Course_init_def)
  then have cc: "course_code (course_objs (snd ?w) ! length (course_objs h)) = cc"
    and es: "enrolled_students (course_objs (snd ?w) ! length (course_objs h)) = []"
    by simp_all
  show ?thesis
    using cc es by (simp add: pa so)
qed

lemma student_phase_links_one_side_example:
  "enrolled_courses (student_objs (snd (fst (load_data (Json (PDict (fmap_of_list
       [(''instructors'', PList [PDict (fmap_of_list
           [(''instructor_id'', PStr ''I1''), (''name'', PStr ''Ada''), (''email'', PStr ''ada@x.org''),
            (''contact_number'', PStr ''0123456789''), (''address'', PStr ''Main St'')])]),
        (''courses'', PList [PDict (fmap_of_list
           [(''course_name'', PStr ''Logic''), (''course_code'', PStr ''C1''),
            (''instructor_id'', PStr ''I1''), (''units'', PNum 3)])]),
        (''students'', PList [PDict (fmap_of_list
           [(''student_id'', PStr ''S1''), (''name'', PStr ''Bob''), (''email'', PStr ''bob@x.org''),
            (''contact_number'', PStr ''0123456789''), (''address'', PStr ''Side St''),
            (''year_level'', PNum 1), (''program'', PStr ''CS''),
            (''enrolled_courses'', PList [PDict (fmap_of_list [(''course_code'', PStr ''C1'')])])])]),
        (''enrollments'', PList [])])))
      (PlatformAdmin_init, empty_heap)))) ! 0) = [0]
   \<and> enrolled_students (course_objs (snd (fst (load_data (Json (PDict (fmap_of_list
       [(''instructors'', PList [PDict (fmap_of_list
           [(''instructor_id'', PStr ''I1''), (''name'', PStr ''Ada''), (''email'', PStr ''ada@x.org''),
            (''contact_number'', PStr ''0123456789''), (''address'', PStr ''Main St'')])]),
        (''courses'', PList [PDict (fmap_of_list
           [(''course_name'', PStr ''Logic''), (''course_code'', PStr ''C1''),
            (''instructor_id'', PStr ''I1''), (''units'', PNum 3)])]),
        (''students'', PList [PDict (fmap_of_list
           [(''student_id'', PStr ''S1''), (''name'', PStr ''Bob''), (''email'', PStr ''bob@x.org''),
            (''contact_number'', PStr ''0123456789''), (''address'', PStr ''Side St''),
            (''year_level'', PNum 1), (''program'', PStr ''CS''),
            (''enrolled_courses'', PList [PDict (fmap_of_list [(''course_code'', PStr ''C1'')])])])]),
        (''enrollments'', PList [])])))
      (PlatformAdmin_init, empty_heap)))) ! 0) = []"
proof -
  let ?inst = "PDict (fmap_of_list
           [(''instructor_id'', PStr ''I1''), (''name'', PStr ''Ada''), (''email'', PStr ''ada@x.org''),
            (''contact_number'', PStr ''0123456789''), (''address'', PStr ''Main St'')])"
  let ?c = "fmap_of_list
           [(''course_name'', PStr ''Logic''), (''course_code'', PStr ''C1''),
            (''instructor_id'', PStr ''I1''), (''units'', PNum 3)]"
  let ?ec = "fmap_of_list [(''course_code'', PStr ''C1'')]"
  let ?s = "fmap_of_list
           [(''student_id'', PStr ''S1''), (''name'', PStr ''Bob''), (''email'', PStr ''bob@x.org''),
            (''contact_number'', PStr ''0123456789''), (''address'', PStr ''Side St''),
            (''year_level'', PNum 1), (''program'', PStr ''CS''),
            (''enrolled_courses'', PList [PDict ?ec])]"
  let ?d = "fmap_of_list
       [(''instructors'', PList [?inst]), (''courses'', PList [PDict ?c]),
        (''students'', PList [PDict ?s]), (''enrollments'', PList [])]"
  let ?i1 = "\<lparr> name = PStr ''Ada'', email = PStr ''ada@x.org'', contact_number = PStr ''0123456789'',
       address = PStr ''Main St'', instructor_id = PStr ''I1'',
       instructor_role = PStr ''Instructor'', courses_taught = [] \<rparr>"
  have i1: "Instructor_kwargs ?inst = Inr ?i1"
    by (simp add: Instructor_kwargs_def kwarg_def Instructor_init_def)
  have ci: "fmlookup ?c ''instructor_id'' = Some (instructor_id ?i1)" by simp
  from student_phase_links_one_side
    [of ?d ?inst ?i1 ?c "PStr ''Logic''" "PStr ''C1''" "PNum 3" ?s "PStr ''Bob''" "PStr ''bob@x.org''"
        "PStr ''0123456789''" "PStr ''Side St''" "PStr ''S1''" "PNum 1" "PStr ''CS''" ?ec
        PlatformAdmin_init empty_heap, OF _ i1 _ ci]
  show ?thesis by (simp add: empty_heap_def)
qed

text \<open>
  The other half of the scenario: with the pair listed under \<^verbatim>\<open>enrollments\<close> (and no
  \<^verbatim>\<open>enrolled_courses\<close> in the student record) the enrollments phase links both sides.
\<close>

lemma enrollments_phase_links_both_sides:
  "fst (load_data (Json (PDict (fmap_of_list
       [(''instructors'', PList [PDict (fmap_of_list
           [(''instructor_id'', PStr ''I1''), (''name'', PStr ''Ada''), (''email'', PStr ''ada@x.org''),
            (''contact_number'', PStr ''0123456789''), (''address'', PStr ''Main St'')])]),
        (''courses'', PList [PDict (fmap_of_list
           [(''course_name'', PStr ''Logic''), (''course_code'', PStr ''C1''),
            (''instructor_id'', PStr ''I1''), (''units'', PNum 3)])]),
        (''students'', PList [PDict (fmap_of_list
           [(''student_id'', PStr ''S1''), (''name'', PStr ''Bob''), (''email'', PStr ''bob@x.org''),
            (''contact_number'', PStr ''0123456789''), (''address'', PStr ''Side St''),
            (''year_level'', PNum 1), (''program'', PStr ''CS'')])]),
        (''enrollments'', PList [PDict (fmap_of_list
           [(''student_id'', PStr ''S1''), (''course_code'', PStr ''C1'')])])])))
      (PlatformAdmin_init, empty_heap))
   = (\<lparr> students = [0], instructors = [0], courses = [0], enrollments = [] \<rparr>,
      \<lparr> instructor_objs =
          [\<lparr> name = PStr ''Ada'', email = PStr ''ada@x.org'', contact_number = PStr ''0123456789'',
             address = PStr ''Main St'', instructor_id = PStr ''I1'',
             instructor_role = PStr ''Instructor'', courses_taught = [] \<rparr>],
        course_objs =
          [(Course_init (PStr ''Logic'') (PStr ''C1'') 0 (PNum 3))\<lparr>enrolled_students := [0]\<rparr>],
        student_objs =
          [\<lparr> name = PStr ''Bob'', email = PStr ''bob@x.org'', contact_number = PStr ''0123456789'',
             address = PStr ''Side St'', student_id = PStr ''S1'', year_level = PNum 1,
             program = PStr ''CS'', gpa = PNum 0, birth_date = PNone,
             student_role = PStr ''Student'', enrolled_courses = [0] \<rparr>] \<rparr>)"
  by (simp add: load_data_def load_phases_def Student_from_dict_def Student_init_def
        Instructor_kwargs_def kwarg_def Instructor_init_def Course_init_def next_by_key_def
        Student_enroll_def link_def PlatformAdmin_init_def empty_heap_def)

text \<open>
  C8 (a course without its instructor). As stated the claim fails: the load is one \<^verbatim>\<open>try\<close>
  block, so a course record with an unknown instructor is reported and skipped only when
  the load reaches it. Here the course record before it has no \<^verbatim>\<open>units\<close>: the load ends
  there with a \<^verbatim>\<open>KeyError\<close>, no warning is printed for the record with the unknown
  instructor \<^verbatim>\<open>I9\<close>, and the course after it and the student are not loaded.
\<close>

theorem dangling_course_unreported_counterexample:
  "load_data (Json (PDict (fmap_of_list
       [(''instructors'', PList [PDict (fmap_of_list
           [(''instructor_id'', PStr ''I1''), (''name'', PStr ''Ada''), (''email'', PStr ''ada@x.org''),
            (''contact_number'', PStr ''0123456789''), (''address'', PStr ''Main St'')])]),
        (''courses'', PList
          [PDict (fmap_of_list
             [(''course_name'', PStr ''Logic''), (''course_code'', PStr ''C1''),
              (''instructor_id'', PStr ''I1'')]),
           PDict (fmap_of_list
             [(''course_name'', PStr ''Ghost''), (''course_code'', PStr ''C9''),
              (''instructor_id'', PStr ''I9''), (''units'', PNum 3)]),
           PDict (fmap_of_list
             [(''course_name'', PStr ''Sets''), (''course_code'', PStr ''C2''),
              (''instructor_id'', PStr ''I1''), (''units'', PNum 2)])]),
        (''students'', PList [PDict (fmap_of_list
           [(''student_id'', PStr ''S1''), (''name'', PStr ''Bob''), (''email'', PStr ''bob@x.org''),
            (''contact_number'', PStr ''0123456789''), (''address'', PStr ''Side St''),
            (''year_level'', PNum 1), (''program'', PStr ''CS'')])])])))
     (PlatformAdmin_init, empty_heap)
   = ((\<lparr> students = [], instructors = [0], courses = [], enrollments = [] \<rparr>,
       \<lparr> instructor_objs =
           [\<lparr> name = PStr ''Ada'', email = PStr ''ada@x.org'', contact_number = PStr ''0123456789'',
              address = PStr ''Main St'', instructor_id = PStr ''I1'',
              instructor_role = PStr ''Instructor'', courses_taught = [] \<rparr>],
         course_objs = [], student_objs = [] \<rparr>),
      [ErrUnexpectedLoad (KeyError ''units'')])"
  by (simp add: load_data_def load_phases_def Instructor_kwargs_def kwarg_def Instructor_init_def
        PlatformAdmin_init_def empty_heap_def)

text \<open>
  C8, amended. Let the instructors phase have materialized the
  instructors \<open>instructors pa1\<close> in the store \<open>h1\<close>, let a course record name an
  \<^verbatim>\<open>instructor_id\<close> that none of them has (\<^verbatim>\<open>None\<close> when the record has no such key), and let
  the course records before it raise nothing. Then \<^verbatim>\<open>load_data\<close> leaves the repository and
  the store exactly as the load of the document without that record does, it prints what
  that load prints and, in addition, the warning for the record, and no course of the
  resulting collection has an instructor with the record's \<^verbatim>\<open>instructor_id\<close>. Moreover, when
  the other records are well formed, the rest of the document is loaded: no exception
  reaches the handler; the resulting courses are, in order, those of the other course
  records (name, code and units); the resulting students are, in order, those of the student
  records; every enrollment record whose student and course are found links the two on both
  sides; and the schedule of every resulting course is the one of the last schedule record
  with its code (none when there is no such record).
\<close>

theorem course_without_instructor_skipped:
  assumes crs: "fmlookup d ''courses'' = Some (PList (pre @ PDict c # post))"
    and p1: "load_instructors (PDict d) w = Outcome (pa1, h1) [] None"
    and nomatch: "\<forall>i\<in>set (instructors pa1).
        instructor_id (instructor_objs h1 ! i)
          \<noteq> (case fmlookup c ''instructor_id'' of None \<Rightarrow> PNone | Some v \<Rightarrow> v)"
    and pre_ok: "raised (for_each load_course pre (pa1\<lparr>courses := []\<rparr>, h1)) = None"
  shows "fst (load_data (Json (PDict d)) w)
           = fst (load_data (Json (PDict (fmupd ''courses'' (PList (pre @ post)) d))) w)
       \<and> (\<exists>o1 o2.
             snd (load_data (Json (PDict (fmupd ''courses'' (PList (pre @ post)) d))) w) = o1 @ o2
           \<and> snd (load_data (Json (PDict d)) w)
               = o1 @ [WarnInstructorNotFound
                        (case fmlookup c ''instructor_id'' of None \<Rightarrow> PNone | Some v \<Rightarrow> v)
                        (case fmlookup c ''course_name'' of None \<Rightarrow> PStr ''Unknown'' | Some v \<Rightarrow> v)]
                   @ o2)
       \<and> (\<forall>k\<in>set (courses (fst (fst (load_data (Json (PDict d)) w)))).
             instructor_id (instructor_objs (snd (fst (load_data (Json (PDict d)) w)))
                 ! course_instructor (course_objs (snd (fst (load_data (Json (PDict d)) w))) ! k))
               \<noteq> (case fmlookup c ''instructor_id'' of None \<Rightarrow> PNone | Some v \<Rightarrow> v))
       \<and> (list_all (course_record_ok (instructors pa1) (instructor_objs h1)) (pre @ post)
          \<and> py_get (PDict d) ''students'' (PList []) = Inr (PList srecs)
          \<and> list_all student_record_ok srecs
          \<and> py_get (PDict d) ''enrollments'' (PList []) = Inr (PList erecs)
          \<and> list_all enrollment_record_ok erecs
          \<and> py_get (PDict d) ''schedules'' (PList []) = Inr (PList screcs)
          \<and> list_all schedule_record_ok screcs
          \<longrightarrow> raised (load_phases (PDict d) w) = None
            \<and> map (\<lambda>k. (course_name (course_objs (snd (fst (load_data (Json (PDict d)) w))) ! k),
                         course_code (course_objs (snd (fst (load_data (Json (PDict d)) w))) ! k),
                         units (course_objs (snd (fst (load_data (Json (PDict d)) w))) ! k)))
                (courses (fst (fst (load_data (Json (PDict d)) w))))
              = map (\<lambda>x. (record_get x ''course_name'', record_get x ''course_code'',
                           record_get x ''units'')) (pre @ post)
            \<and> map (\<lambda>s. student_id (student_objs (snd (fst (load_data (Json (PDict d)) w))) ! s))
                (students (fst (fst (load_data (Json (PDict d)) w))))
              = map (\<lambda>x. record_get x ''student_id'') srecs
            \<and> (\<forall>e\<in>set erecs. \<forall>s k.
                  student_by_id (fst (load_data (Json (PDict d)) w)) (record_get e ''student_id'')
                    = Some s
                  \<longrightarrow> course_by_code (fst (load_data (Json (PDict d)) w))
                        (record_get e ''course_code'') = Some k
                  \<longrightarrow> linked (fst (load_data (Json (PDict d)) w)) s k)
            \<and> (\<forall>k\<in>set (courses (fst (fst (load_data (Json (PDict d)) w)))).
                  course_schedule (course_objs (snd (fst (load_data (Json (PDict d)) w))) ! k)
                    = (case find (\<lambda>r. course_by_code (fst (load_data (Json (PDict d)) w))
                                         (record_get r ''course_code'') = Some k) (rev screcs) of
                         None \<Rightarrow> None
                       | Some r \<Rightarrow> Some \<lparr> schedule_course = k,
                                         schedule_day = record_get r ''day'',
                                         schedule_time = record_get r ''time'' \<rparr>)))"
proof -
  let ?w' = "fst (load_data (Json (PDict d)) w)"
  let ?d0 = "fmupd ''courses'' (PList (pre @ post)) d"
  note ins = skipped_course_phases [OF crs p1 nomatch pre_ok]
  from load_data_inserted [OF ins]
  have a: "?w' = fst (load_data (Json (PDict ?d0)) w)"
    and b: "\<exists>o1 o2.
             snd (load_data (Json (PDict ?d0)) w) = o1 @ o2
           \<and> snd (load_data (Json (PDict d)) w)
               = o1 @ [WarnInstructorNotFound
                        (case fmlookup c ''instructor_id'' of None \<Rightarrow> PNone | Some v \<Rightarrow> v)
                        (case fmlookup c ''course_name'' of None \<Rightarrow> PStr ''Unknown'' | Some v \<Rightarrow> v)]
                   @ o2"
    by blast+
  from load_phases_staffed [OF p1]
  have st: "staffed (instructors pa1) (instructor_objs h1) ?w'"
    by (simp add: fst_load_data_Json)
  have c: "\<forall>k\<in>set (courses (fst ?w')).
             instructor_id (instructor_objs (snd ?w') ! course_instructor (course_objs (snd ?w') ! k))
               \<noteq> (case fmlookup c ''instructor_id'' of None \<Rightarrow> PNone | Some v \<Rightarrow> v)"
  proof
    fix k assume "k \<in> set (courses (fst ?w'))"
    with st have "course_instructor (course_objs (snd ?w') ! k) \<in> set (instructors pa1)"
      and "instructor_objs (snd ?w') = instructor_objs h1"
      by (simp_all add: staffed_def list_all_iff)
    with nomatch show "instructor_id (instructor_objs (snd ?w') ! course_instructor (course_objs (snd ?w') ! k))
               \<noteq> (case fmlookup c ''instructor_id'' of None \<Rightarrow> PNone | Some v \<Rightarrow> v)"
      by simp
  qed
  have rest: "raised (load_phases (PDict d) w) = None
            \<and> map (\<lambda>k. (course_name (course_objs (snd ?w') ! k),
                         course_code (course_objs (snd ?w') ! k),
                         units (course_objs (snd ?w') ! k)))
                (courses (fst ?w'))
              = map (\<lambda>x. (record_get x ''course_name'', record_get x ''course_code'',
                           record_get x ''units'')) (pre @ post)
            \<and> map (\<lambda>s. student_id (student_objs (snd ?w') ! s)) (students (fst ?w'))
              = map (\<lambda>x. record_get x ''student_id'') srecs
            \<and> (\<forall>e\<in>set erecs. \<forall>s k.
                  student_by_id ?w' (record_get e ''student_id'') = Some s
                  \<longrightarrow> course_by_code ?w' (record_get e ''course_code'') = Some k
                  \<longrightarrow> linked ?w' s k)
            \<and> (\<forall>k\<in>set (courses (fst ?w')).
                  course_schedule (course_objs (snd ?w') ! k)
                    = (case find (\<lambda>r. course_by_code ?w' (record_get r ''course_code'') = Some k)
                              (rev screcs) of
                         None \<Rightarrow> None
                       | Some r \<Rightarrow> Some \<lparr> schedule_course = k,
                                         schedule_day = record_get r ''day'',
                                         schedule_time = record_get r ''time'' \<rparr>))"
    if cok: "list_all (course_record_ok (instructors pa1) (instructor_objs h1)) (pre @ post)"
      and sts: "py_get (PDict d) ''students'' (PList []) = Inr (PList srecs)"
      and sok: "list_all student_record_ok srecs"
      and ens: "py_get (PDict d) ''enrollments'' (PList []) = Inr (PList erecs)"
      and eok: "list_all enrollment_record_ok erecs"
      and scs: "py_get (PDict d) ''schedules'' (PList []) = Inr (PList screcs)"
      and scok: "list_all schedule_record_ok screcs"
  proof -
    have p1': "load_instructors (PDict ?d0) w = Outcome (pa1, h1) [] None"
      using p1 by (simp only: other_phases_ignore_courses)
    have crs': "py_get (PDict ?d0) ''courses'' (PList []) = Inr (PList (pre @ post))" by simp
    have sts': "py_get (PDict ?d0) ''students'' (PList []) = Inr (PList srecs)"
      using sts by simp
    have ens': "py_get (PDict ?d0) ''enrollments'' (PList []) = Inr (PList erecs)"
      using ens by simp
    have scs': "py_get (PDict ?d0) ''schedules'' (PList []) = Inr (PList screcs)"
      using scs by simp
    have fin: "final (load_phases (PDict ?d0) w) = ?w'"
      and rs: "raised (load_phases (PDict ?d0) w) = raised (load_phases (PDict d) w)"
      using ins by (simp_all add: inserted_def fst_load_data_Json)
    note L = well_formed_document_loaded [OF p1' crs' cok sts' sok ens' eok scs' scok]
    from L(1) have 1: "raised (load_phases (PDict d) w) = None" by (simp only: rs)
    note 2 = L(2) [unfolded fin]
    note 3 = L(3) [unfolded fin]
    note 4 = L(4) [unfolded fin]
    note 5 = L(5) [unfolded fin]
    from 1 2 3 4 5 show ?thesis by blast
  qed
  from a b c rest show ?thesis by blast
qed

theorem course_without_instructor_skipped_witness:
  "load_data (Json (PDict (fmap_of_list
       [(''instructors'', PList [PDict (fmap_of_list
           [(''instructor_id'', PStr ''I1''), (''name'', PStr ''Ada''), (''email'', PStr ''ada@x.org''),
            (''contact_number'', PStr ''0123456789''), (''address'', PStr ''Main St'')])]),
        (''courses'', PList
          [PDict (fmap_of_list
             [(''course_name'', PStr ''Logic''), (''course_code'', PStr ''C1''),
              (''instructor_id'', PStr ''I1''), (''units'', PNum 3)]),
           PDict (fmap_of_list
             [(''course_name'', PStr ''Ghost''), (''course_code'', PStr ''C9''),
              (''instructor_id'', PStr ''I9''), (''units'', PNum 3)]),
           PDict (fmap_of_list
             [(''course_name'', PStr ''Sets''), (''course_code'', PStr ''C2''),
              (''instructor_id'', PStr ''I1''), (''units'', PNum 2)])]),
        (''students'', PList [PDict (fmap_of_list
           [(''student_id'', PStr ''S1''), (''name'', PStr ''Bob''), (''email'', PStr ''bob@x.org''),
            (''contact_number'', PStr ''0123456789''), (''address'', PStr ''Side St''),
            (''year_level'', PNum 1), (''program'', PStr ''CS'')])]),
        (''enrollments'', PList [PDict (fmap_of_list
           [(''student_id'', PStr ''S1''), (''course_code'', PStr ''C2'')])]),
        (''schedules'', PList [PDict (fmap_of_list
           [(''course_code'', PStr ''C2''), (''day'', PStr ''Mon''), (''time'', PStr ''09:00'')])])])))
      (PlatformAdmin_init, empty_heap)
   = ((\<lparr> students = [0], instructors = [0], courses = [0, 1], enrollments = [] \<rparr>,
       \<lparr> instructor_objs =
           [\<lparr> name = PStr ''Ada'', email = PStr ''ada@x.org'', contact_number = PStr ''0123456789'',
              address = PStr ''Main St'', instructor_id = PStr ''I1'',
              instructor_role = PStr ''Instructor'', courses_taught = [] \<rparr>],
         course_objs =
           [\<lparr> course_name = PStr ''Logic'', course_code = PStr ''C1'', course_instructor = 0,
              course_students = [], units = PNum 3, assignments = [], enrolled_students = [],
              course_schedule = None \<rparr>,
            \<lparr> course_name = PStr ''Sets'', course_code = PStr ''C2'', course_instructor = 0,
              course_students = [], units = PNum 2, assignments = [], enrolled_students = [0],
              course_schedule = Some \<lparr> schedule_course = 1, schedule_day = PStr ''Mon'',
                                       schedule_time = PStr ''09:00'' \<rparr> \<rparr>],
         student_objs =
           [\<lparr> name = PStr ''Bob'', email = PStr ''bob@x.org'', contact_number = PStr ''0123456789'',
              address = PStr ''Side St'', student_id = PStr ''S1'', year_level = PNum 1,
              program = PStr ''CS'', gpa = PNum 0, birth_date = PNone,
              student_role = PStr ''Student'', enrolled_courses = [1] \<rparr>] \<rparr>),
      [WarnInstructorNotFound (PStr ''I9'') (PStr ''Ghost'')])
   \<and> fst (load_data (Json (PDict (fmap_of_list
       [(''instructors'', PList [PDict (fmap_of_list
           [(''instructor_id'', PStr ''I1''), (''name'', PStr ''Ada''), (''email'', PStr ''ada@x.org''),
            (''contact_number'', PStr ''0123456789''), (''address'', PStr ''Main St'')])]),
        (''courses'', PList
          [PDict (fmap_of_list
             [(''course_name'', PStr ''Logic''), (''course_code'', PStr ''C1''),
              (''instructor_id'', PStr ''I1''), (''units'', PNum 3)]),
           PDict (fmap_of_list
             [(''course_name'', PStr ''Ghost''), (''course_code'', PStr ''C9''),
              (''instructor_id'', PStr ''I9''), (''units'', PNum 3)]),
           PDict (fmap_of_list
             [(''course_name'', PStr ''Sets''), (''course_code'', PStr ''C2''),
              (''instructor_id'', PStr ''I1''), (''units'', PNum 2)])]),
        (''students'', PList [PDict (fmap_of_list
           [(''student_id'', PStr ''S1''), (''name'', PStr ''Bob''), (''email'', PStr ''bob@x.org''),
            (''contact_number'', PStr ''0123456789''), (''address'', PStr ''Side St''),
            (''year_level'', PNum 1), (''program'', PStr ''CS'')])]),
        (''enrollments'', PList [PDict (fmap_of_list
           [(''student_id'', PStr ''S1''), (''course_code'', PStr ''C2'')])]),
        (''schedules'', PList [PDict (fmap_of_list
           [(''course_code'', PStr ''C2''), (''day'', PStr ''Mon''), (''time'', PStr ''09:00'')])])])))
      (PlatformAdmin_init, empty_heap))
     = fst (load_data (Json (PDict (fmupd ''courses'' (PList
          [PDict (fmap_of_list
             [(''course_name'', PStr ''Logic''), (''course_code'', PStr ''C1''),
              (''instructor_id'', PStr ''I1''), (''units'', PNum 3)]),
           PDict (fmap_of_list
             [(''course_name'', PStr ''Sets''), (''course_code'', PStr ''C2''),
              (''instructor_id'', PStr ''I1''), (''units'', PNum 2)])])
       (fmap_of_list
       [(''instructors'', PList [PDict (fmap_of_list
           [(''instructor_id'', PStr ''I1''), (''name'', PStr ''Ada''), (''email'', PStr ''ada@x.org''),
            (''contact_number'', PStr ''0123456789''), (''address'', PStr ''Main St'')])]),
        (''courses'', PList
          [PDict (fmap_of_list
             [(''course_name'', PStr ''Logic''), (''course_code'', PStr ''C1''),
              (''instructor_id'', PStr ''I1''), (''units'', PNum 3)]),
           PDict (fmap_of_list
             [(''course_name'', PStr ''Ghost''), (''course_code'', PStr ''C9''),
              (''instructor_id'', PStr ''I9''), (''units'', PNum 3)]),
           PDict (fmap_of_list
             [(''course_name'', PStr ''Sets''), (''course_code'', PStr ''C2''),
              (''instructor_id'', PStr ''I1''), (''units'', PNum 2)])]),
        (''students'', PList [PDict (fmap_of_list
           [(''student_id'', PStr ''S1''), (''name'', PStr ''Bob''), (''email'', PStr ''bob@x.org''),
            (''contact_number'', PStr ''0123456789''), (''address'', PStr ''Side St''),
            (''year_level'', PNum 1), (''program'', PStr ''CS'')])]),
        (''enrollments'', PList [PDict (fmap_of_list
           [(''student_id'', PStr ''S1''), (''course_code'', PStr ''C2'')])]),
        (''schedules'', PList [PDict (fmap_of_list
           [(''course_code'', PStr ''C2''), (''day'', PStr ''Mon''), (''time'', PStr ''09:00'')])])]))))
      (PlatformAdmin_init, empty_heap))
   \<and> raised (load_phases (PDict (fmap_of_list
       [(''instructors'', PList [PDict (fmap_of_list
           [(''instructor_id'', PStr ''I1''), (''name'', PStr ''Ada''), (''email'', PStr ''ada@x.org''),
            (''contact_number'', PStr ''0123456789''), (''address'', PStr ''Main St'')])]),
        (''courses'', PList
          [PDict (fmap_of_list
             [(''course_name'', PStr ''Logic''), (''course_code'', PStr ''C1''),
              (''instructor_id'', PStr ''I1''), (''units'', PNum 3)]),
           PDict (fmap_of_list
             [(''course_name'', PStr ''Ghost''), (''course_code'', PStr ''C9''),
              (''instructor_id'', PStr ''I9''), (''units'', PNum 3)]),
           PDict (fmap_of_list
             [(''course_name'', PStr ''Sets''), (''course_code'', PStr ''C2''),
              (''instructor_id'', PStr ''I1''), (''units'', PNum 2)])]),
        (''students'', PList [PDict (fmap_of_list
           [(''student_id'', PStr ''S1''), (''name'', PStr ''Bob''), (''email'', PStr ''bob@x.org''),
            (''contact_number'', PStr ''0123456789''), (''address'', PStr ''Side St''),
            (''year_level'', PNum 1), (''program'', PStr ''CS'')])]),
        (''enrollments'', PList [PDict (fmap_of_list
           [(''student_id'', PStr ''S1''), (''course_code'', PStr ''C2'')])]),
        (''schedules'', PList [PDict (fmap_of_list
           [(''course_code'', PStr ''C2''), (''day'', PStr ''Mon''), (''time'', PStr ''09:00'')])])]))
      (PlatformAdmin_init, empty_heap)) = None
   \<and> linked (fst (load_data (Json (PDict (fmap_of_list
       [(''instructors'', PList [PDict (fmap_of_list
           [(''instructor_id'', PStr ''I1''), (''name'', PStr ''Ada''), (''email'', PStr ''ada@x.org''),
            (''contact_number'', PStr ''0123456789''), (''address'', PStr ''Main St'')])]),
        (''courses'', PList
          [PDict (fmap_of_list
             [(''course_name'', PStr ''Logic''), (''course_code'', PStr ''C1''),
              (''instructor_id'', PStr ''I1''), (''units'', PNum 3)]),
           PDict (fmap_of_list
             [(''course_name'', PStr ''Ghost''), (''course_code'', PStr ''C9''),
              (''instructor_id'', PStr ''I9''), (''units'', PNum 3)]),
           PDict (fmap_of_list
             [(''course_name'', PStr ''Sets''), (''course_code'', PStr ''C2''),
              (''instructor_id'', PStr ''I1''), (''units'', PNum 2)])]),
        (''students'', PList [PDict (fmap_of_list
           [(''student_id'', PStr ''S1''), (''name'', PStr ''Bob''), (''email'', PStr ''bob@x.org''),
            (''contact_number'', PStr ''0123456789''), (''address'', PStr ''Side St''),
            (''year_level'', PNum 1), (''program'', PStr ''CS'')])]),
        (''enrollments'', PList [PDict (fmap_of_list
           [(''student_id'', PStr ''S1''), (''course_code'', PStr ''C2'')])]),
        (''schedules'', PList [PDict (fmap_of_list
           [(''course_code'', PStr ''C2''), (''day'', PStr ''Mon''), (''time'', PStr ''09:00'')])])])))
      (PlatformAdmin_init, empty_heap))) 0 1"
proof -
  let ?c1 = "PDict (fmap_of_list
             [(''course_name'', PStr ''Logic''), (''course_code'', PStr ''C1''),
              (''instructor_id'', PStr ''I1''), (''units'', PNum 3)])"
  let ?c9 = "fmap_of_list
             [(''course_name'', PStr ''Ghost''), (''course_code'', PStr ''C9''),
              (''instructor_id'', PStr ''I9''), (''units'', PNum 3)]"
  let ?c2 = "PDict (fmap_of_list
             [(''course_name'', PStr ''Sets''), (''course_code'', PStr ''C2''),
              (''instructor_id'', PStr ''I1''), (''units'', PNum 2)])"
  let ?st = "PDict (fmap_of_list
           [(''student_id'', PStr ''S1''), (''name'', PStr ''Bob''), (''email'', PStr ''bob@x.org''),
            (''contact_number'', PStr ''0123456789''), (''address'', PStr ''Side St''),
            (''year_level'', PNum 1), (''program'', PStr ''CS'')])"
  let ?en = "PDict (fmap_of_list
           [(''student_id'', PStr ''S1''), (''course_code'', PStr ''C2'')])"
  let ?sc = "PDict (fmap_of_list
           [(''course_code'', PStr ''C2''), (''day'', PStr ''Mon''), (''time'', PStr ''09:00'')])"
  let ?d = "fmap_of_list
       [(''instructors'', PList [PDict (fmap_of_list
           [(''instructor_id'', PStr ''I1''), (''name'', PStr ''Ada''), (''email'', PStr ''ada@x.org''),
            (''contact_number'', PStr ''0123456789''), (''address'', PStr ''Main St'')])]),
        (''courses'', PList [?c1, PDict ?c9, ?c2]),
        (''students'', PList [?st]),
        (''enrollments'', PList [?en]),
        (''schedules'', PList [?sc])]"
  let ?w0 = "(PlatformAdmin_init, empty_heap)"
  let ?pa1 = "PlatformAdmin_init\<lparr>instructors := [0]\<rparr>"
  let ?h1 = "empty_heap\<lparr>instructor_objs :=
       [\<lparr> name = PStr ''Ada'', email = PStr ''ada@x.org'', contact_number = PStr ''0123456789'',
          address = PStr ''Main St'', instructor_id = PStr ''I1'',
          instructor_role = PStr ''Instructor'', courses_taught = [] \<rparr>]\<rparr>"
  let ?W = "(\<lparr> students = [0], instructors = [0], courses = [0, 1], enrollments = [] \<rparr>,
       \<lparr> instructor_objs =
           [\<lparr> name = PStr ''Ada'', email = PStr ''ada@x.org'', contact_number = PStr ''0123456789'',
              address = PStr ''Main St'', instructor_id = PStr ''I1'',
              instructor_role = PStr ''Instructor'', courses_taught = [] \<rparr>],
         course_objs =
           [\<lparr> course_name = PStr ''Logic'', course_code = PStr ''C1'', course_instructor = 0,
              course_students = [], units = PNum 3, assignments = [], enrolled_students = [],
              course_schedule = None \<rparr>,
            \<lparr> course_name = PStr ''Sets'', course_code = PStr ''C2'', course_instructor = 0,
              course_students = [], units = PNum 2, assignments = [], enrolled_students = [0],
              course_schedule = Some \<lparr> schedule_course = 1, schedule_day = PStr ''Mon'',
                                       schedule_time = PStr ''09:00'' \<rparr> \<rparr>],
         student_objs =
           [\<lparr> name = PStr ''Bob'', email = PStr ''bob@x.org'', contact_number = PStr ''0123456789'',
              address = PStr ''Side St'', student_id = PStr ''S1'', year_level = PNum 1,
              program = PStr ''CS'', gpa = PNum 0, birth_date = PNone,
              student_role = PStr ''Student'', enrolled_courses = [1] \<rparr>] \<rparr>)"
  have crs: "fmlookup ?d ''courses'' = Some (PList ([?c1] @ PDict ?c9 # [?c2]))" by simp
  have p1: "load_instructors (PDict ?d) ?w0 = Outcome (?pa1, ?h1) [] None"
    by (simp add: Instructor_kwargs_def kwarg_def Instructor_init_def empty_heap_def)
  have nomatch: "\<forall>i\<in>set (instructors ?pa1). instructor_id (instructor_objs ?h1 ! i)
      \<noteq> (case fmlookup ?c9 ''instructor_id'' of None \<Rightarrow> PNone | Some v \<Rightarrow> v)"
    by simp
  have pre_ok: "raised (for_each load_course [?c1] (?pa1\<lparr>courses := []\<rparr>, ?h1)) = None"
    by simp
  have cok: "list_all (course_record_ok (instructors ?pa1) (instructor_objs ?h1)) ([?c1] @ [?c2])"
    by (simp add: course_record_ok_def has_keys_def record_get_def)
  have sts: "py_get (PDict ?d) ''students'' (PList []) = Inr (PList [?st])" by simp
  have sok: "list_all student_record_ok [?st]"
    by (simp add: student_record_ok_def has_keys_def)
  have ens: "py_get (PDict ?d) ''enrollments'' (PList []) = Inr (PList [?en])" by simp
  have eok: "list_all enrollment_record_ok [?en]"
    by (simp add: enrollment_record_ok_def has_keys_def)
  have scs: "py_get (PDict ?d) ''schedules'' (PList []) = Inr (PList [?sc])" by simp
  have scok: "list_all schedule_record_ok [?sc]"
    by (simp add: schedule_record_ok_def has_keys_def)
  have val: "load_data (Json (PDict ?d)) ?w0
      = (?W, [WarnInstructorNotFound (PStr ''I9'') (PStr ''Ghost'')])"
    by (simp add: load_data_def load_phases_def Student_from_dict_def Student_init_def
        Instructor_kwargs_def kwarg_def Instructor_init_def Course_init_def next_by_key_def
        Student_enroll_def link_def PlatformAdmin_init_def empty_heap_def)
  note T = course_without_instructor_skipped [OF crs p1 nomatch pre_ok,
      of "[?st]" "[?en]" "[?sc]"]
  from T have a: "fst (load_data (Json (PDict ?d)) ?w0)
      = fst (load_data (Json (PDict (fmupd ''courses'' (PList ([?c1] @ [?c2])) ?d))) ?w0)"
    by (rule conjunct1)
  from T cok sts sok ens eok scs scok
  have r: "raised (load_phases (PDict ?d) ?w0) = None"
    and l: "\<forall>e\<in>set [?en]. \<forall>s k.
                  student_by_id (fst (load_data (Json (PDict ?d)) ?w0)) (record_get e ''student_id'')
                    = Some s
                  \<longrightarrow> course_by_code (fst (load_data (Json (PDict ?d)) ?w0))
                        (record_get e ''course_code'') = Some k
                  \<longrightarrow> linked (fst (load_data (Json (PDict ?d)) ?w0)) s k"
    by blast+
  have "student_by_id ?W (record_get ?en ''student_id'') = Some 0"
    and "course_by_code ?W (record_get ?en ''course_code'') = Some 1"
    by (simp_all add: student_by_id_def course_by_code_def record_get_def)
  with l have lk: "linked (fst (load_data (Json (PDict ?d)) ?w0)) 0 1"
    unfolding val by simp
  from val a r lk show ?thesis by simp
qed

text \<open>
  C9 (assignment with a past or malformed due date). When \<^verbatim>\<open>datetime.fromisoformat\<close>
  rejects the due date, or returns a (naive) date that is not after \<^verbatim>\<open>datetime.now()\<close>,
  \<^verbatim>\<open>Course.assign_assignment\<close> prints the error, raises nothing and leaves the course, its
  assignment list included, as it was.
\<close>

theorem assign_assignment_rejects:
  assumes "fromisoformat due = None \<or> (\<exists>t. fromisoformat due = Some (Naive t) \<and> t \<le> now)"
  shows "final (assign_assignment fromisoformat now self title descr due c) = c
       \<and> assignments (final (assign_assignment fromisoformat now self title descr due c)) = assignments c
       \<and> raised (assign_assignment fromisoformat now self title descr due c) = None
       \<and> printed (assign_assignment fromisoformat now self title descr due c)
           = [if fromisoformat due = None then ErrInvalidDateFormat else ErrDueDateFuture]"
  using assms by (auto simp: assign_assignment_def)

theorem assign_assignment_rejects_witness:
  "final (assign_assignment (\<lambda>s. if s = ''2020-01-01T00:00:00'' then Some (Naive 5) else None) 100 0
      ''HW1'' ''first'' ''2020-01-01T00:00:00'' (Course_init (PStr ''Logic'') (PStr ''C1'') 0 (PNum 3)))
     = Course_init (PStr ''Logic'') (PStr ''C1'') 0 (PNum 3)
   \<and> printed (assign_assignment (\<lambda>s. if s = ''2020-01-01T00:00:00'' then Some (Naive 5) else None) 100 0
      ''HW1'' ''first'' ''2020-01-01T00:00:00'' (Course_init (PStr ''Logic'') (PStr ''C1'') 0 (PNum 3)))
     = [ErrDueDateFuture]
   \<and> printed (assign_assignment (\<lambda>s. if s = ''2020-01-01T00:00:00'' then Some (Naive 5) else None) 100 0
      ''HW1'' ''first'' ''yesterday'' (Course_init (PStr ''Logic'') (PStr ''C1'') 0 (PNum 3)))
     = [ErrInvalidDateFormat]"
  using assign_assignment_rejects
      [of "\<lambda>s. if s = ''2020-01-01T00:00:00'' then Some (Naive 5) else None" "''2020-01-01T00:00:00''"
          100 0 "''HW1''" "''first''" "Course_init (PStr ''Logic'') (PStr ''C1'') 0 (PNum 3)"]
    assign_assignment_rejects
      [of "\<lambda>s. if s = ''2020-01-01T00:00:00'' then Some (Naive 5) else None" "''yesterday''"
          100 0 "''HW1''" "''first''" "Course_init (PStr ''Logic'') (PStr ''C1'') 0 (PNum 3)"]
  by simp

text \<open>
  An aware due date (one with an offset) cannot be ordered against \<^verbatim>\<open>datetime.now()\<close>: the
  comparison raises \<^verbatim>\<open>TypeError\<close> to the caller, and the course is unchanged as well.
\<close>

lemma assign_assignment_aware:
  "fromisoformat due = Some (Aware t) \<Longrightarrow>
     assign_assignment fromisoformat now self title descr due c = Outcome c [] (Some TypeError)"
  by (simp add: assign_assignment_def)

text \<open>
  C10. The score setter is not atomic on error: for every grade and every value outside
  [0, 100] the assignment raises \<^verbatim>\<open>ValueError\<close> and the grade is left holding the invalid
  value, every other attribute as before.
\<close>

theorem score_setter_stores_invalid:
  assumes "v < 0 \<or> 100 < v"
  shows "raised (score_setter v g) = Some (ValueError ''Score must be between 0 and 100.'')
       \<and> score (final (score_setter v g)) = v
       \<and> final (score_setter v g) = g\<lparr>score := v\<rparr>"
  using assms by (auto simp: score_setter_def validate_score_def Let_def)

theorem score_setter_stores_invalid_witness:
  "raised (score_setter 150 \<lparr> grade_student = 0, grade_assignment = 0, score = 80, feedback = PNone \<rparr>)
     = Some (ValueError ''Score must be between 0 and 100.'')
   \<and> score (final (score_setter 150
        \<lparr> grade_student = 0, grade_assignment = 0, score = 80, feedback = PNone \<rparr>)) = 150"
  using score_setter_stores_invalid
    [of 150 "\<lparr> grade_student = 0, grade_assignment = 0, score = 80, feedback = PNone \<rparr>"]
  by simp

end
